theory Spec2Isabelle
  imports Main
begin

section \<open>JavaScript strings and the regular expressions of the language layer\<close>

text \<open>
  A JavaScript string is a sequence of UTF-16 code units; \<open>length\<close> counts code units, as
  \<open>String.prototype.length\<close> does. Literals of the source are written \<open>js ''...''\<close>.
\<close>

type_synonym jsstring = "int list"

definition js :: "string \<Rightarrow> jsstring" where
  "js s = map (\<lambda>c. of_char c) s"

text \<open>The character class \<open>\w\<close>: \<open>[A-Za-z0-9_]\<close>.\<close>

definition isWordChar :: "int \<Rightarrow> bool" where
  "isWordChar c \<longleftrightarrow> (65 \<le> c \<and> c \<le> 90) \<or> (97 \<le> c \<and> c \<le> 122) \<or> (48 \<le> c \<and> c \<le> 57) \<or> c = 95"

text \<open>The character class \<open>\s\<close> (white space and line terminators of ECMAScript), which is also
  what \<open>String.prototype.trim\<close> strips.\<close>

definition isSpaceChar :: "int \<Rightarrow> bool" where
  "isSpaceChar c \<longleftrightarrow> c = 9 \<or> c = 10 \<or> c = 11 \<or> c = 12 \<or> c = 13 \<or> c = 32 \<or> c = 160
     \<or> c = 5760 \<or> (8192 \<le> c \<and> c \<le> 8202) \<or> c = 8232 \<or> c = 8233 \<or> c = 8239
     \<or> c = 8287 \<or> c = 12288 \<or> c = 65279"

definition trim :: "jsstring \<Rightarrow> jsstring" where
  "trim s = rev (dropWhile isSpaceChar (rev (dropWhile isSpaceChar s)))"

definition startsWith :: "jsstring \<Rightarrow> jsstring \<Rightarrow> bool" where
  "startsWith s p \<longleftrightarrow> take (length p) s = p"

text \<open>\<open>String.prototype.slice\<close> for the non-negative indices the source passes.\<close>

definition slice :: "jsstring \<Rightarrow> nat \<Rightarrow> nat \<Rightarrow> jsstring" where
  "slice s a b = take (b - a) (drop a s)"

text \<open>
  \<open>DIRECTIVE_NAME = /^(s-|bind:?|catch:?|capture-bind:|capture-catch:)(\w[\w-.]+)$/\<close>.
  The prefixes are listed in the order in which the backtracking matcher tries them
  (\<open>bind:?\<close> is greedy: with the colon first). The result is the pair of capture groups.
\<close>

definition directive_prefixes :: "jsstring list" where
  "directive_prefixes = [js ''s-'', js ''bind:'', js ''bind'', js ''catch:'', js ''catch'',
     js ''capture-bind:'', js ''capture-catch:'']"

definition isDirectiveNamePart :: "jsstring \<Rightarrow> bool" where
  "isDirectiveNamePart r = (case r of [] \<Rightarrow> False
     | c # cs \<Rightarrow> isWordChar c \<and> cs \<noteq> [] \<and> list_all (\<lambda>d. isWordChar d \<or> d = 45 \<or> d = 46) cs)"

fun match_prefixes :: "jsstring list \<Rightarrow> jsstring \<Rightarrow> (jsstring \<times> jsstring) option" where
  "match_prefixes [] s = None"
| "match_prefixes (p # ps) s =
     (if startsWith s p \<and> isDirectiveNamePart (drop (length p) s)
      then Some (p, drop (length p) s) else match_prefixes ps s)"

definition DIRECTIVE_NAME_match :: "jsstring \<Rightarrow> (jsstring \<times> jsstring) option" where
  "DIRECTIVE_NAME_match s = match_prefixes directive_prefixes s"

definition DIRECTIVE_NAME_test :: "jsstring \<Rightarrow> bool" where
  "DIRECTIVE_NAME_test s \<longleftrightarrow> DIRECTIVE_NAME_match s \<noteq> None"

text \<open>
  \<open>identifierReg = /^(\s*)(\w+)\s*$/\<close>: the two capture groups, when the payload is one word
  with optional surrounding white space. \<open>\s\<close> and \<open>\w\<close> are disjoint, so the greedy match is
  the only one.
\<close>

definition identifierReg_exec :: "jsstring \<Rightarrow> (jsstring \<times> jsstring) option" where
  "identifierReg_exec code =
     (let identifierLeft = takeWhile isSpaceChar code;
          rest = dropWhile isSpaceChar code;
          identifierName = takeWhile isWordChar rest;
          tail = dropWhile isWordChar rest
      in if identifierName \<noteq> [] \<and> list_all isSpaceChar tail
         then Some (identifierLeft, identifierName) else None)"

text \<open>
  \<open>memberExpression = /^\s*(?:\w+\s*:|(["'])[\w.-]+\1\s*:)/\<close>: a payload that begins like the
  first property of an object literal.
\<close>

definition colon_follows :: "jsstring \<Rightarrow> bool" where
  "colon_follows s = (case dropWhile isSpaceChar s of [] \<Rightarrow> False | c # _ \<Rightarrow> c = 58)"

definition memberExpression_test :: "jsstring \<Rightarrow> bool" where
  "memberExpression_test code =
     (let rest = dropWhile isSpaceChar code
      in (takeWhile isWordChar rest \<noteq> [] \<and> colon_follows (dropWhile isWordChar rest))
       \<or> (case rest of [] \<Rightarrow> False
           | q # r \<Rightarrow> (q = 34 \<or> q = 39)
               \<and> (let inner = takeWhile (\<lambda>d. isWordChar d \<or> d = 46 \<or> d = 45) r;
                       after = dropWhile (\<lambda>d. isWordChar d \<or> d = 46 \<or> d = 45) r
                   in inner \<noteq> [] \<and> (case after of [] \<Rightarrow> False
                        | q' # r' \<Rightarrow> q' = q \<and> colon_follows r'))))"

text \<open>
  \<open>keyReg = /(?<ws>\s)(?<keyword>in|trackBy)\s/g\<close>. \<open>keyword_at\<close> matches at the head of
  a suffix and gives the keyword and the length of the whole match; \<open>keyReg_matches\<close> lists the
  successive results of \<open>keyReg.exec(code)\<close> (index, keyword, length of the match), each search
  resuming at \<open>lastIndex\<close>, the end of the previous match.
\<close>

datatype for_keyword = KwIn | KwTrackBy

definition keyword_at :: "jsstring \<Rightarrow> (for_keyword \<times> nat) option" where
  "keyword_at s = (case s of [] \<Rightarrow> None
     | w # r \<Rightarrow> if \<not> isSpaceChar w then None
        else if take 2 r = js ''in'' \<and> (case drop 2 r of [] \<Rightarrow> False | c # _ \<Rightarrow> isSpaceChar c)
          then Some (KwIn, 4)
        else if take 7 r = js ''trackBy'' \<and> (case drop 7 r of [] \<Rightarrow> False | c # _ \<Rightarrow> isSpaceChar c)
          then Some (KwTrackBy, 9)
        else None)"

function keyReg_matches :: "nat \<Rightarrow> jsstring \<Rightarrow> (nat \<times> for_keyword \<times> nat) list" where
  "keyReg_matches i s = (case s of [] \<Rightarrow> []
     | c # cs \<Rightarrow> (case keyword_at s of
          None \<Rightarrow> keyReg_matches (Suc i) cs
        | Some (k, n) \<Rightarrow> (i, k, n) # keyReg_matches (i + n) (drop n s)))"
  by pat_completeness auto
termination
  by (relation "measure (\<lambda>(i, s). length s)")
     (auto simp: keyword_at_def split: list.splits if_splits)

section \<open>Tokens, parse errors and the document's flat lists\<close>

type_synonym location = "int \<times> int"  \<comment> \<open>line, column\<close>
type_synonym loc_range = "location \<times> location"  \<comment> \<open>start, end\<close>
type_synonym offset_range = "int \<times> int"

datatype token_type =
    HTMLAssociation | HTMLBogusComment | HTMLComment | HTMLEndTagOpen | HTMLIdentifier
  | HTMLLiteral | HTMLAttrLiteral | HTMLQuote | HTMLRCDataText | HTMLRawText
  | HTMLSelfClosingTagClose | HTMLTagClose | HTMLTagOpen | HTMLText | HTMLWhitespace
  | XMustacheStart | XMustacheEnd
  | ScriptToken jsstring  \<comment> \<open>a token of the script parser: Identifier, Keyword, Punctuator, ...\<close>

record token =
  tk_type :: token_type
  tk_value :: jsstring
  tk_range :: offset_range
  tk_loc :: loc_range

text \<open>
  \<open>ParseError\<close>. \<open>pe_offset\<close> is the own property \<open>offset\<close> of the error object, which the
  class does not declare and its constructor does not set: it is present only on a foreign
  error object that passes \<open>isParseError\<close> by its shape.
\<close>

record parse_error =
  pe_message :: jsstring
  pe_code :: "jsstring option"
  pe_index :: int
  pe_lineNumber :: int
  pe_column :: int
  pe_offset :: "int option"

definition new_ParseError :: "jsstring \<Rightarrow> jsstring option \<Rightarrow> int \<Rightarrow> int \<Rightarrow> int \<Rightarrow> parse_error" where
  "new_ParseError message code index lineNumber column =
     \<lparr>pe_message = message, pe_code = code, pe_index = index, pe_lineNumber = lineNumber,
      pe_column = column, pe_offset = None\<rparr>"

definition fromCode :: "jsstring \<Rightarrow> int \<Rightarrow> int \<Rightarrow> int \<Rightarrow> parse_error" where
  "fromCode code offset line column = new_ParseError code (Some code) offset line column"

text \<open>
  What a \<open>throw\<close> can carry through the script layer: an object of the shape
  \<open>isParseError\<close> accepts, an acorn-style error (\<open>message\<close>, \<open>pos\<close>, \<open>loc\<close>), or anything
  else (a \<open>TypeError\<close>, an \<open>Error\<close>), of which only the message is kept.
\<close>

datatype thrown =
    ThrownParseError parse_error
  | ThrownAcornError jsstring int location
  | ThrownOther jsstring
  | OutOfFuel  \<comment> \<open>not a JavaScript value: the bound of a loop of the model was reached\<close>

definition isParseError :: "thrown \<Rightarrow> bool" where
  "isParseError x = (case x of ThrownParseError _ \<Rightarrow> True | _ \<Rightarrow> False)"

definition normalize :: "thrown \<Rightarrow> parse_error option" where
  "normalize x = (case x of
       ThrownParseError e \<Rightarrow> Some e
     | ThrownAcornError message pos loc \<Rightarrow> Some (new_ParseError message None pos (fst loc) (snd loc))
     | ThrownOther _ \<Rightarrow> None
     | OutOfFuel \<Rightarrow> None)"

record docinfo =
  d_tokens :: "token list"
  d_comments :: "token list"
  d_errors :: "parse_error list"

text \<open>
  \<open>sortedIndexBy\<close> and \<open>sortedLastIndexBy\<close> of lodash (a library, not part of the repository):
  the binary search of its \<open>baseSortedIndexBy\<close>, which moves \<open>low\<close> past \<open>mid\<close> while the key
  at \<open>mid\<close> is below the value (or not above it, for the last index).
\<close>

function baseSortedIndexBy :: "(int \<Rightarrow> bool) \<Rightarrow> int list \<Rightarrow> nat \<Rightarrow> nat \<Rightarrow> nat" where
  "baseSortedIndexBy setLow keys low high =
     (if low < high
      then (let mid = (low + high) div 2
            in if mid < length keys \<and> setLow (keys ! mid)
               then baseSortedIndexBy setLow keys (mid + 1) high
               else baseSortedIndexBy setLow keys low mid)
      else high)"
  by pat_completeness auto
termination
  by (relation "measure (\<lambda>(f, keys, low, high). high - low)") auto

definition sortedIndexBy :: "'a list \<Rightarrow> int \<Rightarrow> ('a \<Rightarrow> int) \<Rightarrow> nat" where
  "sortedIndexBy xs v iteratee =
     baseSortedIndexBy (\<lambda>computed. computed < v) (map iteratee xs) 0 (length xs)"

definition sortedLastIndexBy :: "'a list \<Rightarrow> int \<Rightarrow> ('a \<Rightarrow> int) \<Rightarrow> nat" where
  "sortedLastIndexBy xs v iteratee =
     baseSortedIndexBy (\<lambda>computed. computed \<le> v) (map iteratee xs) 0 (length xs)"

definition byRange0 :: "token \<Rightarrow> int" where
  "byRange0 x = fst (tk_range x)"

definition byRange1 :: "token \<Rightarrow> int" where
  "byRange1 x = snd (tk_range x)"

text \<open>\<open>Array.prototype.splice(index, count, ...items)\<close> with \<open>index\<close> inside the array; a negative
  \<open>count\<close> (here: the nat difference 0) removes nothing.\<close>

definition splice :: "'a list \<Rightarrow> nat \<Rightarrow> nat \<Rightarrow> 'a list \<Rightarrow> 'a list" where
  "splice xs index count items = take index xs @ items @ drop (index + count) xs"

definition replaceTokens :: "docinfo option \<Rightarrow> offset_range \<Rightarrow> token list \<Rightarrow> docinfo option" where
  "replaceTokens document rng newTokens = (case document of None \<Rightarrow> None
     | Some d \<Rightarrow>
        (let index = sortedIndexBy (d_tokens d) (fst rng) byRange0;
             count = sortedLastIndexBy (d_tokens d) (snd rng) byRange1 - index
         in Some (d\<lparr>d_tokens := splice (d_tokens d) index count newTokens\<rparr>)))"

definition insertComments :: "docinfo option \<Rightarrow> token list \<Rightarrow> docinfo option" where
  "insertComments document newComments = (case document of None \<Rightarrow> None
     | Some d \<Rightarrow> (case newComments of [] \<Rightarrow> Some d
        | c # _ \<Rightarrow>
           (let index = sortedIndexBy (d_comments d) (byRange0 c) byRange0
            in Some (d\<lparr>d_comments := splice (d_comments d) index 0 newComments\<rparr>))))"

definition insertError :: "docinfo option \<Rightarrow> parse_error \<Rightarrow> docinfo option" where
  "insertError document error = (case document of None \<Rightarrow> None
     | Some d \<Rightarrow>
        (let error = (if pe_code error = None \<or> pe_code error = Some []
                      then error\<lparr>pe_code := Some (js ''x-expression-error'')\<rparr> else error);
             index = sortedIndexBy (d_errors d) (pe_index error) pe_index
         in Some (d\<lparr>d_errors := splice (d_errors d) index 0 [error]\<rparr>)))"

section \<open>The location calculator\<close>

text \<open>
  Modelled from the spec: the class \<open>LocationCalculator\<close> (\<open>src/location-calculator.ts\<close>) is
  not among the sources. Its state is the gap offsets and line-terminator offsets of the
  tokenizer, a base offset and a shift; the operations below follow the words of the
  specification's section on the location calculator.
\<close>

record location_calculator =
  lc_gaps :: "int list"
  lc_lineTerminators :: "int list"
  lc_baseOffset :: int
  lc_shiftOffset :: int

definition new_LocationCalculator :: "int list \<Rightarrow> int list \<Rightarrow> location_calculator" where
  "new_LocationCalculator gaps lineTerminators =
     \<lparr>lc_gaps = gaps, lc_lineTerminators = lineTerminators, lc_baseOffset = 0, lc_shiftOffset = 0\<rparr>"

definition getOffsetWithGap :: "location_calculator \<Rightarrow> int \<Rightarrow> int" where
  "getOffsetWithGap lc off =
     (let a = lc_baseOffset lc + lc_shiftOffset lc + off
      in a + int (length (filter (\<lambda>g. g \<le> a) (lc_gaps lc))))"

definition getLocation :: "location_calculator \<Rightarrow> int \<Rightarrow> location" where
  "getLocation lc off =
     (let a = getOffsetWithGap lc off;
          index = length (filter (\<lambda>l. l \<le> a) (lc_lineTerminators lc))
      in (int index + 1,
          if index = 0 then a else a - (lc_lineTerminators lc ! (index - 1)) - 1))"

definition getSubCalculatorAfter :: "location_calculator \<Rightarrow> int \<Rightarrow> location_calculator" where
  "getSubCalculatorAfter lc off = lc\<lparr>lc_baseOffset := lc_baseOffset lc + off\<rparr>"

definition getSubCalculatorShift :: "location_calculator \<Rightarrow> int \<Rightarrow> location_calculator" where
  "getSubCalculatorShift lc delta = lc\<lparr>lc_shiftOffset := lc_shiftOffset lc + delta\<rparr>"

definition fixRange :: "location_calculator \<Rightarrow> offset_range \<Rightarrow> offset_range" where
  "fixRange lc r = (getOffsetWithGap lc (fst r), getOffsetWithGap lc (snd r))"

definition fixLoc :: "location_calculator \<Rightarrow> offset_range \<Rightarrow> loc_range" where
  "fixLoc lc r = (getLocation lc (fst r), getLocation lc (snd r))"

definition fixTokenLocation :: "location_calculator \<Rightarrow> token \<Rightarrow> token" where
  "fixTokenLocation lc t = t\<lparr>tk_range := fixRange lc (tk_range t), tk_loc := fixLoc lc (tk_range t)\<rparr>"

definition fixErrorLocation :: "location_calculator \<Rightarrow> parse_error \<Rightarrow> parse_error" where
  "fixErrorLocation lc e =
     e\<lparr>pe_index := getOffsetWithGap lc (pe_index e),
       pe_lineNumber := fst (getLocation lc (pe_index e)),
       pe_column := snd (getLocation lc (pe_index e))\<rparr>"

section \<open>The script layer: the external parser and \<open>parseExpression\<close>\<close>

text \<open>
  The script parser (espree by default) and the scope analysis (eslint-scope) are external:
  they are parameters of the model, a \<open>script_backend\<close>. What they return is an ESTree, of which
  the model keeps, for every node, its kind, range, location and sub-nodes: the elements of an
  \<open>ArrayExpression\<close> (\<open>None\<close> is a hole), the callee followed by the arguments of a
  \<open>CallExpression\<close>, the sub-expressions of any other node.
\<close>

datatype node_kind =
    Identifier jsstring
  | ArrayExpression
  | CallExpression
  | SpreadElement
  | OtherNode jsstring  \<comment> \<open>any other \<open>type\<close>: ObjectExpression, MemberExpression, ...\<close>

datatype sexpr = SNode (sn_kind: node_kind) (sn_range: offset_range) (sn_loc: loc_range)
  (sn_subs: "sexpr option list")

datatype sstatement = ExpressionStatement sexpr | OtherStatement jsstring

record script_program =
  sp_body :: "sstatement list"
  sp_tokens :: "token list option"
  sp_comments :: "token list option"

record script_identifier =
  id_name :: jsstring
  id_range :: offset_range
  id_loc :: loc_range

text \<open>A reference points to its variable; the variable is named here by its declaring
  identifier.\<close>

record reference =
  r_id :: script_identifier
  r_mode :: jsstring
  r_variable :: "script_identifier option"

record variable =
  v_id :: script_identifier
  v_kind :: jsstring
  v_references :: "reference list"

record script_options =
  so_parser :: jsstring
  so_ecmaVersion :: "int option"
  so_sourceType :: jsstring
  so_range :: "bool option"
  so_loc :: "bool option"
  so_tokens :: "bool option"
  so_comments :: "bool option"
  so_comment :: "bool option"  \<comment> \<open>the key \<open>comment\<close> that \<open>processScriptModule\<close> adds\<close>
  so_allowReserved :: "bool option"

record script_backend =
  be_parseScript :: "jsstring \<Rightarrow> script_options \<Rightarrow> thrown + script_program"
  be_analyzeExternalReferences :: "script_program \<Rightarrow> script_options \<Rightarrow> reference list"

record expression_parse_result =
  epr_expression :: "sexpr option"
  epr_tokens :: "token list"
  epr_comments :: "token list"
  epr_references :: "reference list"

definition bindE :: "'e + 'a \<Rightarrow> ('a \<Rightarrow> 'e + 'b) \<Rightarrow> 'e + 'b" where
  "bindE m f = (case m of Inl e \<Rightarrow> Inl e | Inr x \<Rightarrow> f x)"

fun fixNodeLocation :: "location_calculator \<Rightarrow> sexpr \<Rightarrow> sexpr" where
  "fixNodeLocation lc (SNode k r l subs) =
     SNode k (fixRange lc r) (fixLoc lc r) (map (map_option (fixNodeLocation lc)) subs)"

definition fixStatementLocation :: "location_calculator \<Rightarrow> sstatement \<Rightarrow> sstatement" where
  "fixStatementLocation lc st = (case st of
       ExpressionStatement e \<Rightarrow> ExpressionStatement (fixNodeLocation lc e)
     | OtherStatement t \<Rightarrow> OtherStatement t)"

definition postprocess :: "script_program \<Rightarrow> location_calculator \<Rightarrow> script_program" where
  "postprocess result lc =
     result\<lparr>sp_body := map (fixStatementLocation lc) (sp_body result),
            sp_tokens := map_option (map (fixTokenLocation lc)) (sp_tokens result),
            sp_comments := map_option (map (fixTokenLocation lc)) (sp_comments result)\<rparr>"

definition parseScriptFragment ::
  "script_backend \<Rightarrow> jsstring \<Rightarrow> location_calculator \<Rightarrow> script_options \<Rightarrow> thrown + script_program" where
  "parseScriptFragment be code lc parserOptions =
     (case be_parseScript be code parserOptions of
        Inr result \<Rightarrow> Inr (postprocess result lc)
      | Inl e \<Rightarrow> (case normalize e of
           Some perr \<Rightarrow> Inl (ThrownParseError (fixErrorLocation lc perr))
         | None \<Rightarrow> Inl e))"

definition throwEmptyError :: "location_calculator \<Rightarrow> jsstring \<Rightarrow> thrown" where
  "throwEmptyError lc expected =
     (let loc = getLocation lc 0;
          e = new_ParseError (js ''Expected to be '' @ expected @ js '', but got empty.'') None 0
                (fst loc) (snd loc)
      in ThrownParseError (fixErrorLocation lc e))"

definition throwUnexpectedTokenError :: "jsstring \<Rightarrow> offset_range \<Rightarrow> loc_range \<Rightarrow> thrown" where
  "throwUnexpectedTokenError name rng loc =
     ThrownParseError (new_ParseError (js ''Unexpected token '' @ [39] @ name @ [39] @ js ''.'') None
        (fst rng) (fst (fst loc)) (snd (fst loc)))"

text \<open>
  \<open>throwErrorAsAdjustingOutsideOfCode\<close> compares \<open>e.offset\<close> with the end of the fragment;
  a comparison with \<open>undefined\<close> is false.
\<close>

definition throwErrorAsAdjustingOutsideOfCode ::
  "thrown \<Rightarrow> jsstring \<Rightarrow> location_calculator \<Rightarrow> thrown" where
  "throwErrorAsAdjustingOutsideOfCode e code lc = (case e of
       ThrownParseError pe \<Rightarrow>
         (let endOffset = getOffsetWithGap lc (int (length code))
          in if (case pe_offset pe of None \<Rightarrow> False | Some offset \<Rightarrow> offset \<ge> endOffset)
             then ThrownParseError (pe\<lparr>pe_message := js ''Unexpected end of expression.''\<rparr>)
             else e)
     | _ \<Rightarrow> e)"

text \<open>\<open>getCommaTokenBeforeNode\<close>: reading \<open>token.type\<close> of an index past the end is a
  \<open>TypeError\<close>.\<close>

fun commaTokenFrom :: "token list \<Rightarrow> nat \<Rightarrow> thrown + token option" where
  "commaTokenFrom tokens tokenIndex =
     (if tokenIndex \<ge> length tokens then Inl (ThrownOther (js ''TypeError''))
      else if tk_type (tokens ! tokenIndex) = ScriptToken (js ''Punctuator'')
              \<and> tk_value (tokens ! tokenIndex) = js '',''
        then Inr (Some (tokens ! tokenIndex))
      else (case tokenIndex of 0 \<Rightarrow> Inr None | Suc i \<Rightarrow> commaTokenFrom tokens i))"

definition getCommaTokenBeforeNode :: "token list \<Rightarrow> sexpr \<Rightarrow> thrown + token option" where
  "getCommaTokenBeforeNode tokens node =
     commaTokenFrom tokens (sortedIndexBy tokens (fst (sn_range node)) byRange0)"

definition parseExpressionBody ::
  "script_backend \<Rightarrow> jsstring \<Rightarrow> location_calculator \<Rightarrow> script_options \<Rightarrow> bool
     \<Rightarrow> thrown + expression_parse_result" where
  "parseExpressionBody be code lc parserOptions allowEmpty =
     (case
        bindE (parseScriptFragment be (js ''0('' @ code @ js '')'')
                 (getSubCalculatorShift lc (- 2)) parserOptions)
          (\<lambda>ast.
            let tokens = (case sp_tokens ast of None \<Rightarrow> [] | Some ts \<Rightarrow> ts);
                comments = (case sp_comments ast of None \<Rightarrow> [] | Some cs \<Rightarrow> cs);
                references = be_analyzeExternalReferences be ast parserOptions
            in case sp_body ast of
                 ExpressionStatement (SNode CallExpression _ _ (callee # arguments)) # _ \<Rightarrow>
                   (case arguments of
                      [] \<Rightarrow> if \<not> allowEmpty then Inl (throwEmptyError lc (js ''an expression''))
                            else Inl (ThrownOther (js ''TypeError''))
                    | None # _ \<Rightarrow> if \<not> allowEmpty then Inl (throwEmptyError lc (js ''an expression''))
                            else Inl (ThrownOther (js ''TypeError''))
                    | Some expression # others \<Rightarrow>
                        if sn_kind expression = SpreadElement
                        then Inl (throwUnexpectedTokenError (js ''...'') (sn_range expression)
                                    (sn_loc expression))
                        else (case others of
                            Some node # _ \<Rightarrow>
                              bindE (getCommaTokenBeforeNode tokens node)
                                (\<lambda>comma. case comma of
                                    Some t \<Rightarrow> Inl (throwUnexpectedTokenError (js '','')
                                                (tk_range t) (tk_loc t))
                                  | None \<Rightarrow> Inl (throwUnexpectedTokenError (js '','')
                                                (sn_range node) (sn_loc node)))
                          | _ \<Rightarrow>
                              Inr \<lparr>epr_expression = Some expression,
                                   epr_tokens = butlast (drop 2 tokens),
                                   epr_comments = comments,
                                   epr_references = references\<rparr>))
               | _ \<Rightarrow> Inl (ThrownOther (js ''TypeError'')))
      of Inl e \<Rightarrow> Inl (throwErrorAsAdjustingOutsideOfCode e code lc)
       | Inr r \<Rightarrow> Inr r)"

definition parseExpression ::
  "script_backend \<Rightarrow> jsstring \<Rightarrow> location_calculator \<Rightarrow> script_options
     \<Rightarrow> thrown + expression_parse_result" where
  "parseExpression be code lc parserOptions = parseExpressionBody be code lc parserOptions False"

section \<open>Template nodes\<close>

record swan_for_expression =
  sf_range :: offset_range
  sf_loc :: loc_range
  sf_left :: "sexpr option"
  sf_index :: "sexpr option"
  sf_right :: "sexpr option"
  sf_trackBy :: "sexpr option"

datatype expression_content =
    NoExpression  \<comment> \<open>\<open>null\<close>\<close>
  | ScriptExpression sexpr
  | SwanForExpression swan_for_expression

record xexpression =
  xe_range :: offset_range
  xe_loc :: loc_range
  xe_expression :: expression_content
  xe_references :: "reference list"

record mustache =
  mu_range :: offset_range
  mu_loc :: loc_range
  mu_value :: jsstring
  mu_startToken :: token
  mu_endToken :: token

record xmustache =
  xm_range :: offset_range
  xm_loc :: loc_range
  xm_startToken :: token
  xm_endToken :: token
  xm_value :: "xexpression option"

datatype piece =
    XLiteral offset_range loc_range jsstring
  | Mustache mustache
  | XMustache xmustache
  | XExpression xexpression

datatype attr_key =
    XIdentifier (key_name: jsstring) (key_rawName: jsstring) (key_range: offset_range)
      (key_loc: loc_range)
  | XDirectiveKey (key_name: jsstring) (key_prefix: jsstring) (key_rawPrefix: jsstring)
      (key_rawName: jsstring) (key_range: offset_range) (key_loc: loc_range)

datatype attr_type = XAttribute | XDirective

record xattribute =
  at_type :: attr_type
  at_range :: offset_range
  at_loc :: loc_range
  at_key :: attr_key
  at_value :: "piece list"

text \<open>
  The functions of the language layer reach two things through the \<open>parent\<close> links of the node
  they are given: the owner document (\<open>getOwnerDocument\<close>, \<open>None\<close> when the chain does not end
  in a document) and the \<open>variables\<close> of the enclosing elements, from the belonging element
  outwards (empty when no element encloses the node).
\<close>

record node_context =
  cx_document :: "docinfo option"
  cx_scopes :: "variable list list"

section \<open>The language layer (\<open>swan-lang.ts\<close>)\<close>

definition createDirectiveKey :: "attr_key \<Rightarrow> thrown + attr_key" where
  "createDirectiveKey node = (case DIRECTIVE_NAME_match (key_name node) of
       None \<Rightarrow> Inl (ThrownOther (js ''TypeError''))
     | Some (prefix, name) \<Rightarrow>
         Inr (XDirectiveKey name
               (if prefix = js ''s-'' then prefix
                else if prefix \<noteq> [] \<and> last prefix = 58 then butlast prefix else prefix)
               prefix (key_rawName node) (key_range node) (key_loc node)))"

definition convertToDirective :: "xattribute \<Rightarrow> thrown + xattribute" where
  "convertToDirective node =
     bindE (createDirectiveKey (at_key node))
       (\<lambda>key. Inr (node\<lparr>at_type := XDirective, at_key := key\<rparr>))"

fun resolveInVariables :: "reference \<Rightarrow> variable list \<Rightarrow> (reference \<times> variable list) option" where
  "resolveInVariables r [] = None"
| "resolveInVariables r (v # vs) =
     (if id_name (v_id v) = id_name (r_id r)
      then (let r' = r\<lparr>r_variable := Some (v_id v)\<rparr>
            in Some (r', v\<lparr>v_references := v_references v @ [r']\<rparr> # vs))
      else (case resolveInVariables r vs of
              None \<Rightarrow> None
            | Some (r', vs') \<Rightarrow> Some (r', v # vs')))"

fun resolveReference :: "reference \<Rightarrow> variable list list \<Rightarrow> reference \<times> variable list list" where
  "resolveReference r [] = (r, [])"
| "resolveReference r (vars # outer) =
     (case resolveInVariables r vars of
        Some (r', vars') \<Rightarrow> (r', vars' # outer)
      | None \<Rightarrow> (case resolveReference r outer of (r', outer') \<Rightarrow> (r', vars # outer')))"

fun resolveAll :: "reference list \<Rightarrow> variable list list \<Rightarrow> reference list \<times> variable list list" where
  "resolveAll [] scopes = ([], scopes)"
| "resolveAll (r # rs) scopes =
     (case resolveReference r scopes of (r', scopes') \<Rightarrow>
        (case resolveAll rs scopes' of (rs', scopes'') \<Rightarrow> (r' # rs', scopes'')))"

definition resolveReferences :: "xexpression \<Rightarrow> variable list list \<Rightarrow> xexpression \<times> variable list list" where
  "resolveReferences expression scopes =
     (case resolveAll (xe_references expression) scopes of
        (refs, scopes') \<Rightarrow> (expression\<lparr>xe_references := refs\<rparr>, scopes'))"

text \<open>\<open>/^The keyword '\w+' is reserved/\<close>\<close>

definition reservedKeyword_test :: "jsstring \<Rightarrow> bool" where
  "reservedKeyword_test message =
     (let p = js ''The keyword '' @ [39]
      in startsWith message p
       \<and> takeWhile isWordChar (drop (length p) message) \<noteq> []
       \<and> startsWith (dropWhile isWordChar (drop (length p) message)) ([39] @ js '' is reserved''))"

text \<open>The body of the \<open>try\<close> blocks of \<open>processExpression\<close> after the script parser has
  returned (the source has it twice, for the first attempt and for the retry).\<close>

definition applyExpressionResult ::
  "xexpression \<Rightarrow> offset_range \<Rightarrow> expression_parse_result \<Rightarrow> node_context \<Rightarrow> xexpression \<times> node_context" where
  "applyExpressionResult node rng ret ctx =
     (let node1 = node\<lparr>xe_expression := (case epr_expression ret of None \<Rightarrow> NoExpression
                                          | Some e \<Rightarrow> ScriptExpression e),
                       xe_references := epr_references ret\<rparr>;
          document = (if epr_tokens ret \<noteq> [] then replaceTokens (cx_document ctx) rng (epr_tokens ret)
                      else cx_document ctx)
      in case resolveReferences node1 (cx_scopes ctx) of
           (node2, scopes) \<Rightarrow> (node2, \<lparr>cx_document = document, cx_scopes = scopes\<rparr>))"

definition processExpression ::
  "script_backend \<Rightarrow> script_options \<Rightarrow> location_calculator \<Rightarrow> xexpression \<Rightarrow> jsstring \<Rightarrow> node_context
     \<Rightarrow> thrown + xexpression \<times> node_context" where
  "processExpression be parserOptions globalLocationCalculator node code ctx =
     (case identifierReg_exec code of
        Some (identifierLeft, identifierName) \<Rightarrow>
          (let rng = (fst (xe_range node) + int (length identifierLeft),
                      fst (xe_range node) + int (length identifierLeft) + int (length identifierName));
               loc = (getLocation globalLocationCalculator (fst rng),
                      getLocation globalLocationCalculator (snd rng));
               tok = \<lparr>tk_type = ScriptToken (js ''Identifier''), tk_value = identifierName,
                      tk_range = rng, tk_loc = loc\<rparr>;
               node1 = node\<lparr>xe_expression := ScriptExpression (SNode (Identifier identifierName) rng loc []),
                            xe_references := [\<lparr>r_id = \<lparr>id_name = identifierName, id_range = rng, id_loc = loc\<rparr>,
                                               r_mode = js ''r'', r_variable = None\<rparr>]\<rparr>;
               document = replaceTokens (cx_document ctx) (xe_range node) [tok]
           in case resolveReferences node1 (cx_scopes ctx) of
                (node2, scopes) \<Rightarrow> Inr (node2, \<lparr>cx_document = document, cx_scopes = scopes\<rparr>))
      | None \<Rightarrow>
          (let rng = xe_range node;
               locationCalculator = getSubCalculatorAfter globalLocationCalculator (fst rng)
           in case parseExpression be code locationCalculator parserOptions of
                Inr ret \<Rightarrow> Inr (applyExpressionResult node rng ret ctx)
              | Inl e \<Rightarrow> (case e of
                   ThrownParseError pe \<Rightarrow>
                     if reservedKeyword_test (pe_message pe)
                     then (case parseExpression be code locationCalculator
                                  (parserOptions\<lparr>so_ecmaVersion := Some 3, so_allowReserved := Some True,
                                                  so_sourceType := js ''script''\<rparr>) of
                             Inr ret \<Rightarrow> Inr (applyExpressionResult node rng ret ctx)
                           | Inl kew \<Rightarrow>
                               Inr (node, ctx\<lparr>cx_document := insertError (cx_document ctx) pe\<rparr>))
                     else Inr (node, ctx\<lparr>cx_document := insertError (cx_document ctx) pe\<rparr>)
                 | _ \<Rightarrow> Inl e)))"

record for_block =
  fb_code :: jsstring
  fb_range :: offset_range

record for_split =
  fs_forLeft :: "for_block option"
  fs_forTrackBy :: "for_block option"
  fs_forLeftEndIndex :: nat
  fs_forTrackByStartOffset :: nat
  fs_inToken :: "token option"
  fs_trackByToken :: "token option"

definition keywordToken :: "location_calculator \<Rightarrow> jsstring \<Rightarrow> int \<Rightarrow> token" where
  "keywordToken lc v off =
     \<lparr>tk_type = ScriptToken (js ''Keyword''), tk_value = v,
      tk_range = (off, off + int (length v)),
      tk_loc = (getLocation lc off, getLocation lc (off + int (length v)))\<rparr>"

text \<open>One turn of the loop \<open>while (match = keyReg.exec(code))\<close>; the group \<open>ws\<close> has length 1.\<close>

definition forSplitStep ::
  "location_calculator \<Rightarrow> offset_range \<Rightarrow> jsstring \<Rightarrow> for_split \<Rightarrow> nat \<times> for_keyword \<times> nat \<Rightarrow> for_split" where
  "forSplitStep lc rng code st m = (case m of (index, keyword, len) \<Rightarrow>
     (case keyword of
        KwIn \<Rightarrow>
          st\<lparr>fs_forLeft := Some \<lparr>fb_code = slice code 0 index,
                                   fb_range = (fst rng, fst rng + int index)\<rparr>,
             fs_forLeftEndIndex := index + len,
             fs_inToken := Some (keywordToken lc (js ''in'') (fst rng + int index + 1))\<rparr>
      | KwTrackBy \<Rightarrow>
          st\<lparr>fs_forTrackBy := Some \<lparr>fb_code = drop (index + len) code,
                                      fb_range = (fst rng + int index + int len, snd rng)\<rparr>,
             fs_forTrackByStartOffset := index,
             fs_trackByToken := Some (keywordToken lc (js ''trackBy'') (fst rng + int index + 1))\<rparr>))"

definition forSplit :: "location_calculator \<Rightarrow> offset_range \<Rightarrow> jsstring \<Rightarrow> for_split" where
  "forSplit lc rng code =
     foldl (forSplitStep lc rng code)
       \<lparr>fs_forLeft = None, fs_forTrackBy = None, fs_forLeftEndIndex = 0,
        fs_forTrackByStartOffset = length code, fs_inToken = None, fs_trackByToken = None\<rparr>
       (keyReg_matches 0 code)"

definition forRightBlock :: "offset_range \<Rightarrow> jsstring \<Rightarrow> for_split \<Rightarrow> for_block" where
  "forRightBlock rng code st =
     \<lparr>fb_code = slice code (fs_forLeftEndIndex st) (fs_forTrackByStartOffset st),
      fb_range = (fst rng + int (fs_forLeftEndIndex st), fst rng + int (fs_forTrackByStartOffset st))\<rparr>"

text \<open>The accumulators of the \<open>try\<close> block of \<open>processForExpression\<close>.\<close>

record for_acc =
  fa_expression :: swan_for_expression
  fa_references :: "reference list"
  fa_tokens :: "token list"

definition optionToList :: "'a option \<Rightarrow> 'a list" where
  "optionToList x = (case x of None \<Rightarrow> [] | Some y \<Rightarrow> [y])"

definition forParseLeft ::
  "script_backend \<Rightarrow> script_options \<Rightarrow> location_calculator \<Rightarrow> for_split \<Rightarrow> for_acc \<Rightarrow> thrown + for_acc" where
  "forParseLeft be parserOptions lc st acc = (case fs_forLeft st of
       None \<Rightarrow> Inr acc
     | Some forLeft \<Rightarrow>
         bindE (parseExpression be ([91] @ fb_code forLeft @ [93])
                  (getSubCalculatorAfter lc (fst (fb_range forLeft))) parserOptions)
           (\<lambda>ret. case epr_expression ret of
               Some (SNode ArrayExpression _ _ elements) \<Rightarrow>
                 (let toks = (if epr_tokens ret \<noteq> []
                              then butlast (tl (epr_tokens ret)) @ optionToList (fs_inToken st) else []);
                      acc1 = acc\<lparr>fa_references := fa_references acc @ epr_references ret,
                                 fa_tokens := fa_tokens acc @ toks\<rparr>
                  in case elements of
                       [] \<Rightarrow> Inr acc1
                     | None # _ \<Rightarrow> Inl (ThrownOther (js ''TypeError''))
                     | Some left # rest \<Rightarrow>
                         Inr (acc1\<lparr>fa_expression := (fa_expression acc1)
                                \<lparr>sf_left := Some left,
                                 sf_index := (case rest of Some i # _ \<Rightarrow> Some i | _ \<Rightarrow> None)\<rparr>\<rparr>))
             | _ \<Rightarrow> Inl (ThrownOther (js ''TypeError''))))"

definition forParseRight ::
  "script_backend \<Rightarrow> script_options \<Rightarrow> location_calculator \<Rightarrow> for_block \<Rightarrow> for_acc \<Rightarrow> thrown + for_acc" where
  "forParseRight be parserOptions lc forRight acc =
     bindE (parseExpression be (fb_code forRight)
              (getSubCalculatorAfter lc (fst (fb_range forRight))) parserOptions)
       (\<lambda>ret. Inr (acc\<lparr>fa_expression := (fa_expression acc)\<lparr>sf_right := epr_expression ret\<rparr>,
                        fa_references := fa_references acc @ epr_references ret,
                        fa_tokens := fa_tokens acc @ epr_tokens ret\<rparr>))"

definition forParseTrackBy ::
  "script_backend \<Rightarrow> script_options \<Rightarrow> location_calculator \<Rightarrow> for_split \<Rightarrow> for_acc \<Rightarrow> thrown + for_acc" where
  "forParseTrackBy be parserOptions lc st acc = (case fs_forTrackBy st of
       None \<Rightarrow> Inr acc
     | Some forTrackBy \<Rightarrow>
         bindE (parseExpression be (fb_code forTrackBy)
                  (getSubCalculatorAfter lc (fst (fb_range forTrackBy))) parserOptions)
           (\<lambda>ret. Inr (acc\<lparr>fa_expression := (fa_expression acc)\<lparr>sf_trackBy := epr_expression ret\<rparr>,
                            fa_references := fa_references acc @ epr_references ret,
                            fa_tokens := fa_tokens acc
                               @ (if epr_tokens ret \<noteq> []
                                  then optionToList (fs_trackByToken st) @ epr_tokens ret else [])\<rparr>)))"

definition processForExpression ::
  "script_backend \<Rightarrow> script_options \<Rightarrow> location_calculator \<Rightarrow> xexpression \<Rightarrow> jsstring \<Rightarrow> node_context
     \<Rightarrow> thrown + xexpression \<times> node_context" where
  "processForExpression be parserOptions globalLocationCalculator node code ctx =
     (let st = forSplit globalLocationCalculator (xe_range node) code;
          forRight = forRightBlock (xe_range node) code st;
          acc0 = \<lparr>fa_expression = \<lparr>sf_range = xe_range node, sf_loc = xe_loc node, sf_left = None,
                                    sf_index = None, sf_right = None, sf_trackBy = None\<rparr>,
                  fa_references = [], fa_tokens = []\<rparr>
      in case bindE (forParseLeft be parserOptions globalLocationCalculator st acc0)
                (\<lambda>acc1. bindE (forParseRight be parserOptions globalLocationCalculator forRight acc1)
                   (\<lambda>acc2. forParseTrackBy be parserOptions globalLocationCalculator st acc2)) of
           Inr acc \<Rightarrow>
             (let node1 = node\<lparr>xe_expression := SwanForExpression (fa_expression acc),
                               xe_references := fa_references acc\<rparr>;
                  document = (if fa_tokens acc \<noteq> []
                              then replaceTokens (cx_document ctx) (xe_range node) (fa_tokens acc)
                              else cx_document ctx)
              in case resolveReferences node1 (cx_scopes ctx) of
                   (node2, scopes) \<Rightarrow> Inr (node2, \<lparr>cx_document = document, cx_scopes = scopes\<rparr>))
         | Inl e \<Rightarrow> (case e of
              ThrownParseError pe \<Rightarrow>
                Inr (node, ctx\<lparr>cx_document := insertError (cx_document ctx) pe\<rparr>)
            | _ \<Rightarrow> Inl e))"

text \<open>What \<open>processMustache\<close> reads of \<open>node.parent\<close>: its type and, for a directive, the name of
  its key.\<close>

datatype mustache_parent = ParentDirective jsstring | ParentAttribute | ParentElement | ParentDocument

definition isForDirective :: "mustache_parent \<Rightarrow> bool" where
  "isForDirective parent = (case parent of ParentDirective name \<Rightarrow> name = js ''for'' | _ \<Rightarrow> False)"

definition trimStartToken :: "token \<Rightarrow> token" where
  "trimStartToken t =
     t\<lparr>tk_range := (fst (tk_range t), snd (tk_range t) - 1),
       tk_loc := (fst (tk_loc t), (fst (snd (tk_loc t)), snd (snd (tk_loc t)) - 1)),
       tk_value := js ''{''\<rparr>"

definition trimEndToken :: "token \<Rightarrow> token" where
  "trimEndToken t =
     t\<lparr>tk_range := (fst (tk_range t) + 1, snd (tk_range t)),
       tk_loc := ((fst (fst (tk_loc t)), snd (fst (tk_loc t)) + 1), snd (tk_loc t)),
       tk_value := js ''}''\<rparr>"

text \<open>The start and end tokens of a mustache are the very objects that sit in
  \<open>document.tokens\<close>: a write to one of them shows there too.\<close>

definition updateTokenObject :: "token \<Rightarrow> token \<Rightarrow> docinfo option \<Rightarrow> docinfo option" where
  "updateTokenObject old new document =
     map_option (\<lambda>d. d\<lparr>d_tokens := map (\<lambda>t. if t = old then new else t) (d_tokens d)\<rparr>) document"

definition processMustache ::
  "script_backend \<Rightarrow> script_options \<Rightarrow> location_calculator \<Rightarrow> mustache_parent \<Rightarrow> xmustache
     \<Rightarrow> mustache \<Rightarrow> node_context \<Rightarrow> thrown + xmustache \<times> node_context" where
  "processMustache be parserOptions globalLocationCalculator parent node mustache ctx =
     (let code = mu_value mustache;
          startToken = mu_startToken mustache;
          endToken = mu_endToken mustache;
          val = \<lparr>xe_range = (snd (tk_range startToken), fst (tk_range endToken)),
                 xe_loc = ((fst (snd (tk_loc startToken)), snd (snd (tk_loc startToken)) + 1),
                           fst (tk_loc endToken)),
                 xe_expression = NoExpression, xe_references = []\<rparr>;
          node1 = node\<lparr>xm_value := Some val\<rparr>
      in if trim code = [] then Inr (node1, ctx)
         else if isForDirective parent
         then bindE (processForExpression be parserOptions globalLocationCalculator val code ctx)
                (\<lambda>(v, ctx'). Inr (node1\<lparr>xm_value := Some v\<rparr>, ctx'))
         else if memberExpression_test code \<and> tk_value startToken = js ''{{''
         then (let node2 = node1\<lparr>xm_startToken := trimStartToken startToken,
                                 xm_endToken := trimEndToken endToken\<rparr>;
                   ctx1 = ctx\<lparr>cx_document :=
                            updateTokenObject endToken (trimEndToken endToken)
                              (updateTokenObject startToken (trimStartToken startToken)
                                 (cx_document ctx))\<rparr>
               in bindE (processExpression be parserOptions globalLocationCalculator val
                           ([123] @ code @ [125]) ctx1)
                    (\<lambda>(v, ctx'). Inr (node2\<lparr>xm_value := Some v\<rparr>, ctx')))
         else bindE (processExpression be parserOptions globalLocationCalculator val code ctx)
                (\<lambda>(v, ctx'). Inr (node1\<lparr>xm_value := Some v\<rparr>, ctx')))"

section \<open>The tree builder's treatment of attributes (\<open>Parser.processAttribute\<close>)\<close>

record parser_options =
  po_noOpenTag :: bool
  po_parseExpression :: "bool option"
  po_script :: script_options

text \<open>\<open>Parser.reportParseError\<close> pushes onto \<open>this.errors\<close>, the array that is also
  \<open>document.errors\<close>.\<close>

definition pushError :: "offset_range \<Rightarrow> loc_range \<Rightarrow> jsstring \<Rightarrow> docinfo option \<Rightarrow> docinfo option" where
  "pushError rng loc code document =
     map_option (\<lambda>d. d\<lparr>d_errors := d_errors d @ [fromCode code (fst rng) (fst (fst loc)) (snd (fst loc))]\<rparr>)
       document"

definition attributeParent :: "xattribute \<Rightarrow> mustache_parent" where
  "attributeParent node =
     (if at_type node = XDirective then ParentDirective (key_name (at_key node)) else ParentAttribute)"

fun processValues ::
  "script_backend \<Rightarrow> script_options \<Rightarrow> location_calculator \<Rightarrow> mustache_parent \<Rightarrow> piece list
     \<Rightarrow> node_context \<Rightarrow> thrown + piece list \<times> node_context" where
  "processValues be so lc parent [] ctx = Inr ([], ctx)"
| "processValues be so lc parent (p # ps) ctx =
     bindE (case p of
              Mustache m \<Rightarrow>
                bindE (processMustache be so lc parent
                         \<lparr>xm_range = mu_range m, xm_loc = mu_loc m, xm_startToken = mu_startToken m,
                          xm_endToken = mu_endToken m, xm_value = None\<rparr> m ctx)
                  (\<lambda>(mustacheNode, ctx'). Inr (XMustache mustacheNode, ctx'))
            | _ \<Rightarrow> Inr (p, ctx))
       (\<lambda>(p', ctx'). bindE (processValues be so lc parent ps ctx')
          (\<lambda>(ps', ctx''). Inr (p' # ps', ctx'')))"

definition processDirectiveValue ::
  "script_backend \<Rightarrow> script_options \<Rightarrow> location_calculator \<Rightarrow> xattribute \<Rightarrow> node_context
     \<Rightarrow> thrown + xattribute \<times> node_context" where
  "processDirectiveValue be so lc directiveNode ctx = (case at_value directiveNode of
       [XLiteral rng loc v] \<Rightarrow>
         (let expressionNode = \<lparr>xe_range = rng, xe_loc = loc, xe_expression = NoExpression,
                                xe_references = []\<rparr>
          in bindE (if trim v \<noteq> []
                    then (if key_name (at_key directiveNode) \<noteq> js ''for''
                          then processExpression be so lc expressionNode v ctx
                          else processForExpression be so lc expressionNode v ctx)
                    else Inr (expressionNode, ctx))
               (\<lambda>(e, ctx'). Inr (directiveNode\<lparr>at_value := [XExpression e]\<rparr>, ctx')))
     | _ \<Rightarrow> Inr (directiveNode, ctx))"

definition processAttribute ::
  "script_backend \<Rightarrow> parser_options \<Rightarrow> location_calculator \<Rightarrow> xattribute \<Rightarrow> node_context
     \<Rightarrow> thrown + xattribute \<times> node_context" where
  "processAttribute be parserOptions lc node ctx =
     (let attrName = key_name (at_key node)
      in bindE (if DIRECTIVE_NAME_test attrName
                then bindE (convertToDirective node)
                       (\<lambda>directiveNode. processDirectiveValue be (po_script parserOptions) lc
                                           directiveNode ctx)
                else if startsWith attrName (js ''s-'') \<or> startsWith attrName (js ''bind:'')
                then Inr (node, ctx\<lparr>cx_document :=
                            pushError (key_range (at_key node)) (key_loc (at_key node))
                              (js ''x-invalid-directive'') (cx_document ctx)\<rparr>)
                else Inr (node, ctx))
           (\<lambda>(node1, ctx1).
              bindE (processValues be (po_script parserOptions) lc (attributeParent node1)
                       (at_value node1) ctx1)
                (\<lambda>(values, ctx2). Inr (node1\<lparr>at_value := values\<rparr>, ctx2))))"

section \<open>Auxiliary notions for the proofs\<close>

text \<open>The errors of a document are kept by a step: none is lost.\<close>

definition errorsKept :: "docinfo option \<Rightarrow> docinfo option \<Rightarrow> bool" where
  "errorsKept document document' =
     (case document of None \<Rightarrow> True
      | Some d \<Rightarrow> (case document' of None \<Rightarrow> False
          | Some d' \<Rightarrow> set (d_errors d) \<subseteq> set (d_errors d')))"

section \<open>A script backend for concrete runs\<close>

text \<open>
  A stand-in for the external script parser, for running the model on concrete inputs: it
  knows the programs of a table (source text to ESTree and tokens) and rejects every other
  text the way acorn does. Its scope analysis reports as read references the identifiers of
  the program, but the property of a member expression (the second child of a
  \<open>MemberExpression\<close>, which the tables write for \<open>a.b\<close> only): \<open>item.id\<close> refers to
  \<open>item\<close>.
\<close>

fun identifiersOf :: "sexpr \<Rightarrow> script_identifier list" where
  "identifiersOf (SNode k r l subs) =
     (case k of Identifier n \<Rightarrow> [\<lparr>id_name = n, id_range = r, id_loc = l\<rparr>] | _ \<Rightarrow> [])
     @ (let found = map (\<lambda>s. case s of None \<Rightarrow> [] | Some e \<Rightarrow> identifiersOf e) subs
        in concat (if k = OtherNode (js ''MemberExpression'') then take 1 found else found))"

definition tableBackend :: "(jsstring \<times> (thrown + script_program)) list \<Rightarrow> script_backend" where
  "tableBackend table =
     \<lparr>be_parseScript = (\<lambda>code parserOptions. case map_of table code of
          Some r \<Rightarrow> r
        | None \<Rightarrow> Inl (ThrownAcornError (js ''Unexpected token'') 0 (1, 0))),
      be_analyzeExternalReferences = (\<lambda>p parserOptions.
          map (\<lambda>i. \<lparr>r_id = i, r_mode = js ''r'', r_variable = None\<rparr>)
            (concat (map (\<lambda>st. case st of ExpressionStatement e \<Rightarrow> identifiersOf e
                                  | OtherStatement _ \<Rightarrow> []) (sp_body p))))\<rparr>"

text \<open>A token of the script parser on line 1, and the program of the text \<open>0(...)\<close> of a given
  length with given arguments and tokens.\<close>

definition scriptToken :: "string \<Rightarrow> string \<Rightarrow> int \<Rightarrow> int \<Rightarrow> token" where
  "scriptToken ty v a b =
     \<lparr>tk_type = ScriptToken (js ty), tk_value = js v, tk_range = (a, b), tk_loc = ((1, a), (1, b))\<rparr>"

definition scriptNode :: "node_kind \<Rightarrow> int \<Rightarrow> int \<Rightarrow> sexpr option list \<Rightarrow> sexpr" where
  "scriptNode k a b subs = SNode k (a, b) ((1, a), (1, b)) subs"

definition callProgram :: "int \<Rightarrow> sexpr option list \<Rightarrow> token list \<Rightarrow> script_program" where
  "callProgram n arguments tokens =
     \<lparr>sp_body = [ExpressionStatement
          (scriptNode CallExpression 0 n
             (Some (scriptNode (OtherNode (js ''Literal'')) 0 1 []) # arguments))],
      sp_tokens = Some tokens, sp_comments = Some []\<rparr>"

text \<open>The script options of \<open>resolveParserOptions\<close>.\<close>

definition defaultScriptOptions :: script_options where
  "defaultScriptOptions =
     \<lparr>so_parser = js ''espree'', so_ecmaVersion = Some 2018, so_sourceType = js ''module'',
      so_range = Some True, so_loc = Some True, so_tokens = Some True, so_comments = None, so_comment = None,
      so_allowReserved = None\<rparr>"

definition emptyDocinfo :: docinfo where
  "emptyDocinfo = \<lparr>d_tokens = [], d_comments = [], d_errors = []\<rparr>"

text \<open>A token of the tokenizer on line 1.\<close>

definition rawToken :: "token_type \<Rightarrow> string \<Rightarrow> int \<Rightarrow> int \<Rightarrow> token" where
  "rawToken ty v a b = \<lparr>tk_type = ty, tk_value = js v, tk_range = (a, b), tk_loc = ((1, a), (1, b))\<rparr>"


section \<open>Code points (\<open>unicode.ts\<close>)\<close>

abbreviation (input) EOF :: int where "EOF \<equiv> - 1"
abbreviation (input) NULL :: int where "NULL \<equiv> 0"
abbreviation (input) LINE_FEED :: int where "LINE_FEED \<equiv> 10"
abbreviation (input) CARRIAGE_RETURN :: int where "CARRIAGE_RETURN \<equiv> 13"
abbreviation (input) EXCLAMATION_MARK :: int where "EXCLAMATION_MARK \<equiv> 33"
abbreviation (input) QUOTATION_MARK :: int where "QUOTATION_MARK \<equiv> 34"
abbreviation (input) APOSTROPHE :: int where "APOSTROPHE \<equiv> 39"
abbreviation (input) HYPHEN_MINUS :: int where "HYPHEN_MINUS \<equiv> 45"
abbreviation (input) SOLIDUS :: int where "SOLIDUS \<equiv> 47"
abbreviation (input) LESS_THAN_SIGN :: int where "LESS_THAN_SIGN \<equiv> 60"
abbreviation (input) EQUALS_SIGN :: int where "EQUALS_SIGN \<equiv> 61"
abbreviation (input) GREATER_THAN_SIGN :: int where "GREATER_THAN_SIGN \<equiv> 62"
abbreviation (input) QUESTION_MARK :: int where "QUESTION_MARK \<equiv> 63"
abbreviation (input) GRAVE_ACCENT :: int where "GRAVE_ACCENT \<equiv> 96"
abbreviation (input) LEFT_CURLY_BRACKET :: int where "LEFT_CURLY_BRACKET \<equiv> 123"
abbreviation (input) RIGHT_CURLY_BRACKET :: int where "RIGHT_CURLY_BRACKET \<equiv> 125"
abbreviation (input) NULL_REPLACEMENT :: int where "NULL_REPLACEMENT \<equiv> 65533"

definition isWhitespace :: "int \<Rightarrow> bool" where
  "isWhitespace cp \<longleftrightarrow> cp = 9 \<or> cp = 10 \<or> cp = 12 \<or> cp = 13 \<or> cp = 32"

definition isUpperLetter :: "int \<Rightarrow> bool" where
  "isUpperLetter cp \<longleftrightarrow> cp \<ge> 65 \<and> cp \<le> 90"

definition isLowerLetter :: "int \<Rightarrow> bool" where
  "isLowerLetter cp \<longleftrightarrow> cp \<ge> 97 \<and> cp \<le> 122"

definition isLetter :: "int \<Rightarrow> bool" where
  "isLetter cp \<longleftrightarrow> isLowerLetter cp \<or> isUpperLetter cp"

definition isControl :: "int \<Rightarrow> bool" where
  "isControl cp \<longleftrightarrow> (cp \<ge> 0 \<and> cp \<le> 31) \<or> (cp \<ge> 127 \<and> cp \<le> 159)"

definition isSurrogate :: "int \<Rightarrow> bool" where
  "isSurrogate cp \<longleftrightarrow> cp \<ge> 55296 \<and> cp \<le> 57343"

definition isSurrogatePair :: "int \<Rightarrow> bool" where
  "isSurrogatePair cp \<longleftrightarrow> cp \<ge> 56320 \<and> cp \<le> 57343"

text \<open>\<open>(cp & 0xFFFE) === 0xFFFE\<close>: the low sixteen bits are \<open>FFFE\<close> or \<open>FFFF\<close>.\<close>

definition isNonCharacter :: "int \<Rightarrow> bool" where
  "isNonCharacter cp \<longleftrightarrow> (cp \<ge> 64976 \<and> cp \<le> 65007) \<or> (cp mod 65536 \<ge> 65534 \<and> cp \<le> 1114111)"

definition toLowerCodePoint :: "int \<Rightarrow> int" where
  "toLowerCodePoint cp = cp + 32"

text \<open>\<open>String.prototype.charCodeAt\<close> (\<open>None\<close> is \<open>NaN\<close>) and \<open>codePointAt\<close> (\<open>None\<close> is
  \<open>undefined\<close>); \<open>String.fromCodePoint\<close> raises a \<open>RangeError\<close> outside the Unicode range.\<close>

definition charCodeAt :: "jsstring \<Rightarrow> int \<Rightarrow> int option" where
  "charCodeAt s i = (if 0 \<le> i \<and> i < int (length s) then Some (s ! nat i) else None)"

definition codePointAt :: "jsstring \<Rightarrow> int \<Rightarrow> int option" where
  "codePointAt s i = (case charCodeAt s i of None \<Rightarrow> None
     | Some u \<Rightarrow>
        (if 55296 \<le> u \<and> u \<le> 56319
         then (case charCodeAt s (i + 1) of
                 Some v \<Rightarrow> if 56320 \<le> v \<and> v \<le> 57343
                           then Some ((u - 55296) * 1024 + (v - 56320) + 65536) else Some u
               | None \<Rightarrow> Some u)
         else Some u))"

definition fromCodePoint :: "int \<Rightarrow> thrown + jsstring" where
  "fromCodePoint cp =
     (if cp < 0 \<or> cp > 1114111 then Inl (ThrownOther (js ''RangeError''))
      else if cp < 65536 then Inr [cp]
      else Inr [55296 + (cp - 65536) div 1024, 56320 + (cp - 65536) mod 1024])"

section \<open>The tokenizer (\<open>tokenizer.ts\<close>)\<close>

datatype tokenizer_state =
    DATA | TAG_OPEN | END_TAG_OPEN | TAG_NAME
  | RCDATA | RCDATA_LESS_THAN_SIGN | RCDATA_END_TAG_OPEN | RCDATA_END_TAG_NAME
  | RAWTEXT | RAWTEXT_LESS_THAN_SIGN | RAWTEXT_END_TAG_OPEN | RAWTEXT_END_TAG_NAME
  | BEFORE_ATTRIBUTE_NAME | ATTRIBUTE_NAME | AFTER_ATTRIBUTE_NAME | BEFORE_ATTRIBUTE_VALUE
  | ATTRIBUTE_VALUE_DOUBLE_QUOTED | ATTRIBUTE_VALUE_SINGLE_QUOTED | ATTRIBUTE_VALUE_UNQUOTED
  | AFTER_ATTRIBUTE_VALUE_QUOTED | SELF_CLOSING_START_TAG | BOGUS_COMMENT
  | MARKUP_DECLARATION_OPEN | COMMENT_START | COMMENT_START_DASH | COMMENT
  | COMMENT_LESS_THAN_SIGN | COMMENT_LESS_THAN_SIGN_BANG | COMMENT_LESS_THAN_SIGN_BANG_DASH
  | COMMENT_LESS_THAN_SIGN_BANG_DASH_DASH | COMMENT_END_DASH | COMMENT_END | COMMENT_END_BANG
  | X_EXPRESSION_START | X_EXPRESSION_END

record tokenizer =
  tz_text :: jsstring
  tz_gaps :: "int list"
  tz_lineTerminators :: "int list"
  tz_lastCodePoint :: int
  tz_offset :: int
  tz_column :: int
  tz_line :: int
  tz_returnState :: tokenizer_state
  tz_reconsuming :: bool
  tz_buffer :: "int list"
  tz_committedToken :: "token option"
  tz_provisionalToken :: "token option"
  tz_currentToken :: "token option"
  tz_lastTagOpenToken :: "token option"
  tz_tokenStartOffset :: int
  tz_tokenStartLine :: int
  tz_tokenStartColumn :: int
  tz_state :: tokenizer_state
  tz_errors :: "parse_error list"
  tz_expressionEnabled :: bool
  tz_tagOpenEnabled :: bool

definition new_Tokenizer :: "jsstring \<Rightarrow> tokenizer" where
  "new_Tokenizer text =
     \<lparr>tz_text = text, tz_gaps = [], tz_lineTerminators = [], tz_lastCodePoint = NULL,
      tz_offset = - 1, tz_column = - 1, tz_line = 1, tz_returnState = DATA,
      tz_reconsuming = False, tz_buffer = [], tz_committedToken = None,
      tz_provisionalToken = None, tz_currentToken = None, tz_lastTagOpenToken = None,
      tz_tokenStartOffset = - 1, tz_tokenStartLine = 1, tz_tokenStartColumn = - 1,
      tz_state = DATA, tz_errors = [], tz_expressionEnabled = False, tz_tagOpenEnabled = True\<rparr>"

definition Tokenizer_reportParseError :: "jsstring \<Rightarrow> tokenizer \<Rightarrow> tokenizer" where
  "Tokenizer_reportParseError code s =
     s\<lparr>tz_errors := tz_errors s @ [fromCode code (tz_offset s) (tz_line s) (tz_column s)]\<rparr>"

definition advanceLocation :: "tokenizer \<Rightarrow> tokenizer" where
  "advanceLocation s =
     (if tz_lastCodePoint s = LINE_FEED
      then s\<lparr>tz_lineTerminators := tz_lineTerminators s @ [tz_offset s],
             tz_line := tz_line s + 1, tz_column := 0\<rparr>
      else s\<lparr>tz_column := tz_column s + (if tz_lastCodePoint s \<ge> 65536 then 2 else 1)\<rparr>)"

text \<open>The errors \<open>consumeNextCodePoint\<close> reports for the code point at the current offset.\<close>

definition reportInputStreamErrors :: "int \<Rightarrow> tokenizer \<Rightarrow> tokenizer" where
  "reportInputStreamErrors cp s =
     (let s1 = (if (case charCodeAt (tz_text s) (tz_offset s) of None \<Rightarrow> False | Some u \<Rightarrow> isSurrogate u)
                   \<and> \<not> (case charCodeAt (tz_text s) (tz_offset s + 1) of None \<Rightarrow> False
                          | Some v \<Rightarrow> isSurrogatePair v)
                then Tokenizer_reportParseError (js ''surrogate-in-input-stream'') s else s);
          s2 = (if isNonCharacter cp
                then Tokenizer_reportParseError (js ''noncharacter-in-input-stream'') s1 else s1)
      in if isControl cp \<and> \<not> isWhitespace cp \<and> cp \<noteq> NULL
         then Tokenizer_reportParseError (js ''control-character-in-input-stream'') s2 else s2)"

function consumeNextCodePoint :: "tokenizer \<Rightarrow> int \<times> tokenizer" where
  "consumeNextCodePoint s =
     (if tz_offset s \<ge> int (length (tz_text s)) then (EOF, s\<lparr>tz_lastCodePoint := EOF\<rparr>)
      else (let s1 = s\<lparr>tz_offset := tz_offset s + (if tz_lastCodePoint s \<ge> 65536 then 2 else 1)\<rparr>
            in if tz_offset s1 \<ge> int (length (tz_text s1))
               then (EOF, (advanceLocation s1)\<lparr>tz_lastCodePoint := EOF\<rparr>)
               else (case codePointAt (tz_text s1) (tz_offset s1) of
                  None \<Rightarrow> (EOF, s1)  \<comment> \<open>not reached: the offset is inside the text\<close>
                | Some cp \<Rightarrow>
                   (let s2 = reportInputStreamErrors cp s1
                    in if tz_lastCodePoint s2 = CARRIAGE_RETURN \<and> cp = LINE_FEED
                       then consumeNextCodePoint
                              (s2\<lparr>tz_lastCodePoint := LINE_FEED, tz_gaps := tz_gaps s2 @ [tz_offset s2]\<rparr>)
                       else (if cp = CARRIAGE_RETURN then LINE_FEED else cp,
                             (advanceLocation s2)\<lparr>tz_lastCodePoint := cp\<rparr>)))))"
  by pat_completeness auto
termination
  by (relation "measure (\<lambda>s. nat (int (length (tz_text s)) - tz_offset s))")
     (auto simp: reportInputStreamErrors_def Tokenizer_reportParseError_def Let_def)

definition setStartTokenMark :: "tokenizer \<Rightarrow> tokenizer" where
  "setStartTokenMark s =
     s\<lparr>tz_tokenStartOffset := tz_offset s, tz_tokenStartLine := tz_line s,
       tz_tokenStartColumn := tz_column s\<rparr>"

definition clearStartTokenMark :: "tokenizer \<Rightarrow> tokenizer" where
  "clearStartTokenMark s = s\<lparr>tz_tokenStartOffset := - 1\<rparr>"

text \<open>\<open>this.state.startsWith('RCDATA_') || this.state.startsWith('RAWTEXT_')\<close>\<close>

definition isProvisional :: "tokenizer_state \<Rightarrow> bool" where
  "isProvisional st \<longleftrightarrow> st = RCDATA_LESS_THAN_SIGN \<or> st = RCDATA_END_TAG_OPEN \<or> st = RCDATA_END_TAG_NAME
     \<or> st = RAWTEXT_LESS_THAN_SIGN \<or> st = RAWTEXT_END_TAG_OPEN \<or> st = RAWTEXT_END_TAG_NAME"

definition isProvisionalState :: "tokenizer \<Rightarrow> bool" where
  "isProvisionalState s = isProvisional (tz_state s)"

definition commitToken :: "token \<Rightarrow> tokenizer \<Rightarrow> thrown + tokenizer" where
  "commitToken token s =
     (if tz_committedToken s \<noteq> None
      then Inl (ThrownOther (js ''Invalid state: the commited token existed already.''))
      else Inr (if tk_type token = HTMLTagOpen
                then s\<lparr>tz_committedToken := Some token, tz_lastTagOpenToken := Some token\<rparr>
                else s\<lparr>tz_committedToken := Some token\<rparr>))"

definition commitProvisionalToken :: "tokenizer \<Rightarrow> thrown + tokenizer" where
  "commitProvisionalToken s = (case tz_provisionalToken s of
       None \<Rightarrow> Inl (ThrownOther (js ''Invalid state: the provisional token was not found.''))
     | Some token \<Rightarrow>
         (let s1 = s\<lparr>tz_provisionalToken := None\<rparr>
          in if fst (tk_range token) < snd (tk_range token) then commitToken token s1 else Inr s1))"

definition endToken :: "tokenizer \<Rightarrow> thrown + tokenizer" where
  "endToken s = (case tz_currentToken s of
       None \<Rightarrow> Inl (ThrownOther (js ''Invalid state''))
     | Some token \<Rightarrow>
         (let s1 = (if tz_tokenStartOffset s = - 1 then setStartTokenMark s else s);
              offset = tz_tokenStartOffset s1;
              provisional = isProvisionalState s1;
              s2 = s1\<lparr>tz_currentToken := None, tz_tokenStartOffset := - 1\<rparr>;
              token1 = token\<lparr>tk_range := (fst (tk_range token), offset),
                             tk_loc := (fst (tk_loc token),
                                        (tz_tokenStartLine s1, tz_tokenStartColumn s1))\<rparr>
          in if fst (tk_range token1) = offset \<and> \<not> provisional then Inr s2
             else if provisional
             then bindE (if tz_provisionalToken s2 \<noteq> None then commitProvisionalToken s2 else Inr s2)
                    (\<lambda>s3. Inr (s3\<lparr>tz_provisionalToken := Some token1\<rparr>))
             else commitToken token1 s2))"

definition startToken :: "token_type \<Rightarrow> tokenizer \<Rightarrow> thrown + tokenizer" where
  "startToken type s =
     (let s1 = (if tz_tokenStartOffset s = - 1 then setStartTokenMark s else s);
          offset = tz_tokenStartOffset s1;
          line = tz_tokenStartLine s1;
          column = tz_tokenStartColumn s1
      in bindE (if tz_currentToken s1 \<noteq> None then endToken s1 else Inr s1)
           (\<lambda>s2. Inr (s2\<lparr>tz_tokenStartOffset := - 1,
                           tz_currentToken := Some \<lparr>tk_type = type, tk_value = [],
                              tk_range = (offset, - 1),
                              tk_loc = ((line, column), (- 1, - 1))\<rparr>\<rparr>)))"

definition rollbackProvisionalToken :: "tokenizer \<Rightarrow> thrown + tokenizer" where
  "rollbackProvisionalToken s =
     (if tz_currentToken s = None \<or> tz_provisionalToken s = None
      then Inl (ThrownOther (js ''AssertionError''))
      else Inr (s\<lparr>tz_currentToken := tz_provisionalToken s, tz_provisionalToken := None\<rparr>))"

text \<open>\<open>appendTokenValue(cp, expected)\<close>; \<open>cp\<close> is \<open>None\<close> when the source passes the
  \<open>undefined\<close> of a \<open>codePointAt\<close> outside the text.\<close>

definition appendTokenValue :: "int option \<Rightarrow> token_type option \<Rightarrow> tokenizer \<Rightarrow> thrown + tokenizer" where
  "appendTokenValue cp expected s = (case tz_currentToken s of
       None \<Rightarrow> Inl (ThrownOther (js ''Tokenizer: Invalid state.''))
     | Some token \<Rightarrow>
         if expected \<noteq> None \<and> expected \<noteq> Some (tk_type token)
         then Inl (ThrownOther (js ''Tokenizer: Invalid state.''))
         else (case cp of None \<Rightarrow> Inl (ThrownOther (js ''RangeError''))
               | Some c \<Rightarrow> bindE (fromCodePoint c)
                   (\<lambda>v. Inr (s\<lparr>tz_currentToken := Some (token\<lparr>tk_value := tk_value token @ v\<rparr>)\<rparr>))))"

definition isAppropriateEndTagOpen :: "tokenizer \<Rightarrow> bool" where
  "isAppropriateEndTagOpen s = (case tz_currentToken s of None \<Rightarrow> False
     | Some c \<Rightarrow> (case tz_lastTagOpenToken s of None \<Rightarrow> False
         | Some l \<Rightarrow> tk_type c = HTMLEndTagOpen \<and> tk_value c = tk_value l))"

subsection \<open>Sequencing, and the loops over code points\<close>

definition ok :: "(tokenizer \<Rightarrow> tokenizer) \<Rightarrow> tokenizer \<Rightarrow> thrown + tokenizer" where
  "ok f s = Inr (f s)"

fun seqE :: "(tokenizer \<Rightarrow> thrown + tokenizer) list \<Rightarrow> tokenizer \<Rightarrow> thrown + tokenizer" where
  "seqE [] s = Inr s"
| "seqE (f # fs) s = bindE (f s) (seqE fs)"

text \<open>The end of a state function: the next state, directly or through \<open>reconsumeAs\<close>.\<close>

definition goto :: "tokenizer_state \<Rightarrow> thrown + tokenizer \<Rightarrow> thrown + tokenizer_state \<times> tokenizer" where
  "goto st m = bindE m (\<lambda>s. Inr (st, s))"

definition reconsumeAs :: "tokenizer_state \<Rightarrow> thrown + tokenizer \<Rightarrow> thrown + tokenizer_state \<times> tokenizer" where
  "reconsumeAs st m = bindE m (\<lambda>s. Inr (st, s\<lparr>tz_reconsuming := True\<rparr>))"

text \<open>
  A state function with a \<open>while (true)\<close> loop ends each turn either by returning the next state
  or by \<open>cp = this.consumeNextCodePoint()\<close> and another turn. The loop is bounded by fuel.
\<close>

datatype loop_step = Again | Done tokenizer_state

definition again :: "thrown + tokenizer \<Rightarrow> thrown + loop_step \<times> tokenizer" where
  "again m = bindE m (\<lambda>s. Inr (Again, s))"

definition leave :: "thrown + tokenizer_state \<times> tokenizer \<Rightarrow> thrown + loop_step \<times> tokenizer" where
  "leave m = bindE m (\<lambda>(st, s). Inr (Done st, s))"

fun cp_loop ::
  "nat \<Rightarrow> (int \<Rightarrow> tokenizer \<Rightarrow> thrown + loop_step \<times> tokenizer) \<Rightarrow> int \<Rightarrow> tokenizer
     \<Rightarrow> thrown + tokenizer_state \<times> tokenizer" where
  "cp_loop 0 body cp s = Inl OutOfFuel"
| "cp_loop (Suc n) body cp s = (case body cp s of
       Inl e \<Rightarrow> Inl e
     | Inr (Done st, s1) \<Rightarrow> Inr (st, s1)
     | Inr (Again, s1) \<Rightarrow> (case consumeNextCodePoint s1 of (cp1, s2) \<Rightarrow> cp_loop n body cp1 s2))"

text \<open>\<open>while (isWhitespace(cp)) { cp = this.consumeNextCodePoint() }\<close>\<close>

fun skipWhitespace :: "nat \<Rightarrow> int \<Rightarrow> tokenizer \<Rightarrow> thrown + int \<times> tokenizer" where
  "skipWhitespace 0 cp s = Inl OutOfFuel"
| "skipWhitespace (Suc n) cp s =
     (if isWhitespace cp
      then (case consumeNextCodePoint s of (cp1, s1) \<Rightarrow> skipWhitespace n cp1 s1)
      else Inr (cp, s))"


subsection \<open>The state functions\<close>

text \<open>Each state function takes the current code point and gives the next state; \<open>this.state\<close>
  keeps the old state while the function runs.\<close>

definition textStateBody ::
  "token_type \<Rightarrow> (int \<Rightarrow> tokenizer \<Rightarrow> (thrown + loop_step \<times> tokenizer) option)
     \<Rightarrow> bool \<Rightarrow> int \<Rightarrow> tokenizer \<Rightarrow> thrown + loop_step \<times> tokenizer" where
  "textStateBody textType special replaceNull cp s =
     (let type = (if isWhitespace cp then HTMLWhitespace else textType)
      in if (case tz_currentToken s of None \<Rightarrow> False | Some t \<Rightarrow> tk_type t \<noteq> type)
         then leave (reconsumeAs (tz_state s) (endToken s))
         else bindE (if tz_currentToken s = None then startToken type s else Inr s)
                (\<lambda>s1. case special cp s1 of
                     Some r \<Rightarrow> r
                   | None \<Rightarrow>
                       if cp = EOF then Inr (Done DATA, s1)
                       else (let s2 = (if cp = NULL
                                       then Tokenizer_reportParseError (js ''unexpected-null-character'') s1
                                       else s1);
                                 cp1 = (if cp = NULL \<and> replaceNull then NULL_REPLACEMENT else cp)
                             in again (appendTokenValue (Some cp1) (Some type) s2))))"

text \<open>The branches of \<open>DATA\<close>, \<open>RCDATA\<close> and \<open>RAWTEXT\<close> that leave the loop for another state.\<close>

definition expressionBranch :: "tokenizer_state \<Rightarrow> int \<Rightarrow> tokenizer \<Rightarrow> (thrown + loop_step \<times> tokenizer) option" where
  "expressionBranch st cp s =
     (if cp = LEFT_CURLY_BRACKET \<and> tz_expressionEnabled s
      then Some (Inr (Done X_EXPRESSION_START, (setStartTokenMark s)\<lparr>tz_returnState := st\<rparr>))
      else if cp = RIGHT_CURLY_BRACKET \<and> tz_expressionEnabled s
      then Some (Inr (Done X_EXPRESSION_END, (setStartTokenMark s)\<lparr>tz_returnState := st\<rparr>))
      else None)"

definition DATA_special :: "int \<Rightarrow> tokenizer \<Rightarrow> (thrown + loop_step \<times> tokenizer) option" where
  "DATA_special cp s =
     (if cp = LESS_THAN_SIGN \<and> tz_tagOpenEnabled s
      then Some (Inr (Done TAG_OPEN, setStartTokenMark s))
      else expressionBranch DATA cp s)"

definition RCDATA_special :: "int \<Rightarrow> tokenizer \<Rightarrow> (thrown + loop_step \<times> tokenizer) option" where
  "RCDATA_special cp s =
     (if cp = LESS_THAN_SIGN
      then Some (Inr (Done RCDATA_LESS_THAN_SIGN, setStartTokenMark s))
      else expressionBranch RCDATA cp s)"

definition RAWTEXT_special :: "int \<Rightarrow> tokenizer \<Rightarrow> (thrown + loop_step \<times> tokenizer) option" where
  "RAWTEXT_special cp s =
     (if cp = LESS_THAN_SIGN \<and> tz_expressionEnabled s
      then Some (Inr (Done RAWTEXT_LESS_THAN_SIGN, setStartTokenMark s))
      else expressionBranch RAWTEXT cp s)"

definition on_DATA :: "nat \<Rightarrow> int \<Rightarrow> tokenizer \<Rightarrow> thrown + tokenizer_state \<times> tokenizer" where
  "on_DATA fuel cp s = cp_loop fuel (textStateBody HTMLText DATA_special False) cp (clearStartTokenMark s)"

definition on_RCDATA :: "nat \<Rightarrow> int \<Rightarrow> tokenizer \<Rightarrow> thrown + tokenizer_state \<times> tokenizer" where
  "on_RCDATA fuel cp s =
     cp_loop fuel (textStateBody HTMLRCDataText RCDATA_special True) cp (clearStartTokenMark s)"

definition on_RAWTEXT :: "nat \<Rightarrow> int \<Rightarrow> tokenizer \<Rightarrow> thrown + tokenizer_state \<times> tokenizer" where
  "on_RAWTEXT fuel cp s =
     cp_loop fuel (textStateBody HTMLRawText RAWTEXT_special True) cp (clearStartTokenMark s)"

definition on_TAG_OPEN :: "int \<Rightarrow> tokenizer \<Rightarrow> thrown + tokenizer_state \<times> tokenizer" where
  "on_TAG_OPEN cp s =
     (if cp = EXCLAMATION_MARK then Inr (MARKUP_DECLARATION_OPEN, s)
      else if cp = SOLIDUS then Inr (END_TAG_OPEN, s)
      else if isLetter cp then reconsumeAs TAG_NAME (startToken HTMLTagOpen s)
      else if cp = QUESTION_MARK
      then reconsumeAs BOGUS_COMMENT
             (seqE [ok (Tokenizer_reportParseError (js ''unexpected-question-mark-instead-of-tag-name'')),
                    startToken HTMLBogusComment] s)
      else if cp = EOF
      then goto DATA
             (seqE [ok clearStartTokenMark,
                    ok (Tokenizer_reportParseError (js ''eof-before-tag-name'')),
                    appendTokenValue (Some LESS_THAN_SIGN) (Some HTMLText)] s)
      else reconsumeAs DATA
             (seqE [ok (Tokenizer_reportParseError (js ''invalid-first-character-of-tag-name'')),
                    appendTokenValue (Some LESS_THAN_SIGN) (Some HTMLText)] s))"

definition on_END_TAG_OPEN :: "int \<Rightarrow> tokenizer \<Rightarrow> thrown + tokenizer_state \<times> tokenizer" where
  "on_END_TAG_OPEN cp s =
     (if isLetter cp then reconsumeAs TAG_NAME (startToken HTMLEndTagOpen s)
      else if cp = GREATER_THAN_SIGN
      then goto DATA (seqE [endToken, ok (Tokenizer_reportParseError (js ''missing-end-tag-name''))] s)
      else if cp = EOF
      then goto DATA
             (seqE [ok clearStartTokenMark,
                    ok (Tokenizer_reportParseError (js ''eof-before-tag-name'')),
                    appendTokenValue (Some LESS_THAN_SIGN) (Some HTMLText),
                    appendTokenValue (Some SOLIDUS) (Some HTMLText)] s)
      else reconsumeAs BOGUS_COMMENT
             (seqE [ok (Tokenizer_reportParseError (js ''invalid-first-character-of-tag-name'')),
                    startToken HTMLBogusComment] s))"

definition lowered :: "int \<Rightarrow> int" where
  "lowered cp = (if isUpperLetter cp then toLowerCodePoint cp else cp)"

definition TAG_NAME_body :: "int \<Rightarrow> tokenizer \<Rightarrow> thrown + loop_step \<times> tokenizer" where
  "TAG_NAME_body cp s =
     (if isWhitespace cp then leave (goto BEFORE_ATTRIBUTE_NAME (endToken s))
      else if cp = SOLIDUS
      then leave (goto SELF_CLOSING_START_TAG (seqE [endToken, ok setStartTokenMark] s))
      else if cp = GREATER_THAN_SIGN then leave (goto DATA (startToken HTMLTagClose s))
      else if cp = EOF
      then Inr (Done DATA, Tokenizer_reportParseError (js ''eof-in-tag'') s)
      else (let s1 = (if cp = NULL
                      then Tokenizer_reportParseError (js ''unexpected-null-character'') s else s);
                cp1 = (if cp = NULL then NULL_REPLACEMENT else cp)
            in again (appendTokenValue (Some (lowered cp1)) None s1)))"

definition on_TAG_NAME :: "nat \<Rightarrow> int \<Rightarrow> tokenizer \<Rightarrow> thrown + tokenizer_state \<times> tokenizer" where
  "on_TAG_NAME fuel cp s = cp_loop fuel TAG_NAME_body cp s"

definition lessThanSignState ::
  "tokenizer_state \<Rightarrow> tokenizer_state \<Rightarrow> token_type \<Rightarrow> int \<Rightarrow> tokenizer
     \<Rightarrow> thrown + tokenizer_state \<times> tokenizer" where
  "lessThanSignState endTagOpen textState textType cp s =
     (if cp = SOLIDUS then Inr (endTagOpen, s\<lparr>tz_buffer := []\<rparr>)
      else reconsumeAs textState (appendTokenValue (Some LESS_THAN_SIGN) (Some textType) s))"

definition on_RCDATA_LESS_THAN_SIGN :: "int \<Rightarrow> tokenizer \<Rightarrow> thrown + tokenizer_state \<times> tokenizer" where
  "on_RCDATA_LESS_THAN_SIGN cp s = lessThanSignState RCDATA_END_TAG_OPEN RCDATA HTMLRCDataText cp s"

definition on_RAWTEXT_LESS_THAN_SIGN :: "int \<Rightarrow> tokenizer \<Rightarrow> thrown + tokenizer_state \<times> tokenizer" where
  "on_RAWTEXT_LESS_THAN_SIGN cp s = lessThanSignState RAWTEXT_END_TAG_OPEN RAWTEXT HTMLRawText cp s"

definition endTagOpenState ::
  "tokenizer_state \<Rightarrow> tokenizer_state \<Rightarrow> token_type \<Rightarrow> int \<Rightarrow> tokenizer
     \<Rightarrow> thrown + tokenizer_state \<times> tokenizer" where
  "endTagOpenState endTagName textState textType cp s =
     (if isLetter cp then reconsumeAs endTagName (startToken HTMLEndTagOpen s)
      else reconsumeAs textState
             (seqE [appendTokenValue (Some LESS_THAN_SIGN) (Some textType),
                    appendTokenValue (Some SOLIDUS) (Some textType)] s))"

definition on_RCDATA_END_TAG_OPEN :: "int \<Rightarrow> tokenizer \<Rightarrow> thrown + tokenizer_state \<times> tokenizer" where
  "on_RCDATA_END_TAG_OPEN cp s = endTagOpenState RCDATA_END_TAG_NAME RCDATA HTMLRCDataText cp s"

definition on_RAWTEXT_END_TAG_OPEN :: "int \<Rightarrow> tokenizer \<Rightarrow> thrown + tokenizer_state \<times> tokenizer" where
  "on_RAWTEXT_END_TAG_OPEN cp s = endTagOpenState RAWTEXT_END_TAG_NAME RAWTEXT HTMLRawText cp s"

text \<open>The failure branch of the end-tag-name states: the tentative end tag is rolled back and
  \<open></\<close> and the buffered code points go to the text token.\<close>

definition reemitBuffer :: "token_type \<Rightarrow> tokenizer \<Rightarrow> thrown + tokenizer" where
  "reemitBuffer textType s =
     seqE ([rollbackProvisionalToken,
            appendTokenValue (Some LESS_THAN_SIGN) (Some textType),
            appendTokenValue (Some SOLIDUS) (Some textType)]
           @ map (\<lambda>cp1. appendTokenValue (Some cp1) (Some textType)) (tz_buffer s)) s"

definition bufferLetter :: "int \<Rightarrow> tokenizer \<Rightarrow> thrown + tokenizer" where
  "bufferLetter cp s =
     bindE (appendTokenValue (Some (lowered cp)) (Some HTMLEndTagOpen) s)
       (\<lambda>s1. Inr (s1\<lparr>tz_buffer := tz_buffer s1 @ [cp]\<rparr>))"

definition RCDATA_END_TAG_NAME_body :: "int \<Rightarrow> tokenizer \<Rightarrow> thrown + loop_step \<times> tokenizer" where
  "RCDATA_END_TAG_NAME_body cp s =
     (if isWhitespace cp \<and> isAppropriateEndTagOpen s
      then leave (goto BEFORE_ATTRIBUTE_NAME (endToken s))
      else if cp = SOLIDUS \<and> isAppropriateEndTagOpen s
      then leave (goto SELF_CLOSING_START_TAG (seqE [endToken, ok setStartTokenMark] s))
      else if cp = GREATER_THAN_SIGN \<and> isAppropriateEndTagOpen s
      then leave (goto DATA (startToken HTMLTagClose s))
      else if \<not> isLetter cp
      then leave (reconsumeAs RCDATA (reemitBuffer HTMLRCDataText s))
      else again (bufferLetter cp s))"

definition on_RCDATA_END_TAG_NAME :: "nat \<Rightarrow> int \<Rightarrow> tokenizer \<Rightarrow> thrown + tokenizer_state \<times> tokenizer" where
  "on_RCDATA_END_TAG_NAME fuel cp s = cp_loop fuel RCDATA_END_TAG_NAME_body cp s"

definition RAWTEXT_END_TAG_NAME_body :: "int \<Rightarrow> tokenizer \<Rightarrow> thrown + loop_step \<times> tokenizer" where
  "RAWTEXT_END_TAG_NAME_body cp s =
     (if cp = SOLIDUS \<and> isAppropriateEndTagOpen s
      then leave (goto SELF_CLOSING_START_TAG (seqE [endToken, ok setStartTokenMark] s))
      else if cp = GREATER_THAN_SIGN \<and> isAppropriateEndTagOpen s
      then leave (goto DATA (startToken HTMLTagClose s))
      else if isWhitespace cp \<and> isAppropriateEndTagOpen s
      then leave (goto BEFORE_ATTRIBUTE_NAME (endToken s))
      else if \<not> isLetter cp \<and> cp \<noteq> HYPHEN_MINUS
      then leave (reconsumeAs RAWTEXT (reemitBuffer HTMLRawText s))
      else again (bufferLetter cp s))"

definition on_RAWTEXT_END_TAG_NAME :: "nat \<Rightarrow> int \<Rightarrow> tokenizer \<Rightarrow> thrown + tokenizer_state \<times> tokenizer" where
  "on_RAWTEXT_END_TAG_NAME fuel cp s = cp_loop fuel RAWTEXT_END_TAG_NAME_body cp s"

definition on_BEFORE_ATTRIBUTE_NAME :: "nat \<Rightarrow> int \<Rightarrow> tokenizer \<Rightarrow> thrown + tokenizer_state \<times> tokenizer" where
  "on_BEFORE_ATTRIBUTE_NAME fuel cp0 s0 =
     bindE (skipWhitespace fuel cp0 s0)
       (\<lambda>(cp, s).
          if cp = SOLIDUS \<or> cp = GREATER_THAN_SIGN \<or> cp = EOF
          then reconsumeAs AFTER_ATTRIBUTE_NAME (Inr s)
          else if cp = EQUALS_SIGN
          then goto ATTRIBUTE_NAME
                 (seqE [ok (Tokenizer_reportParseError (js ''unexpected-equals-sign-before-attribute-name'')),
                        startToken HTMLIdentifier,
                        appendTokenValue (Some cp) (Some HTMLIdentifier)] s)
          else reconsumeAs ATTRIBUTE_NAME (startToken HTMLIdentifier s))"

definition ATTRIBUTE_NAME_body :: "int \<Rightarrow> tokenizer \<Rightarrow> thrown + loop_step \<times> tokenizer" where
  "ATTRIBUTE_NAME_body cp s =
     (if isWhitespace cp \<or> cp = SOLIDUS \<or> cp = GREATER_THAN_SIGN \<or> cp = EOF
      then leave (reconsumeAs AFTER_ATTRIBUTE_NAME (endToken s))
      else if cp = EQUALS_SIGN
      then leave (goto BEFORE_ATTRIBUTE_VALUE (startToken HTMLAssociation s))
      else (let s1 = (if cp = NULL
                      then Tokenizer_reportParseError (js ''unexpected-null-character'') s else s);
                cp1 = (if cp = NULL then NULL_REPLACEMENT else cp);
                s2 = (if cp1 = QUOTATION_MARK \<or> cp1 = APOSTROPHE \<or> cp1 = LESS_THAN_SIGN
                      then Tokenizer_reportParseError (js ''unexpected-character-in-attribute-name'') s1
                      else s1)
            in again (appendTokenValue (Some (lowered cp1)) (Some HTMLIdentifier) s2)))"

definition on_ATTRIBUTE_NAME :: "nat \<Rightarrow> int \<Rightarrow> tokenizer \<Rightarrow> thrown + tokenizer_state \<times> tokenizer" where
  "on_ATTRIBUTE_NAME fuel cp s = cp_loop fuel ATTRIBUTE_NAME_body cp s"

definition on_AFTER_ATTRIBUTE_NAME :: "nat \<Rightarrow> int \<Rightarrow> tokenizer \<Rightarrow> thrown + tokenizer_state \<times> tokenizer" where
  "on_AFTER_ATTRIBUTE_NAME fuel cp0 s0 =
     bindE (skipWhitespace fuel cp0 s0)
       (\<lambda>(cp, s).
          if cp = SOLIDUS then Inr (SELF_CLOSING_START_TAG, setStartTokenMark s)
          else if cp = EQUALS_SIGN then goto BEFORE_ATTRIBUTE_VALUE (startToken HTMLAssociation s)
          else if cp = GREATER_THAN_SIGN then goto DATA (startToken HTMLTagClose s)
          else if cp = EOF then Inr (DATA, Tokenizer_reportParseError (js ''eof-in-tag'') s)
          else reconsumeAs ATTRIBUTE_NAME (startToken HTMLIdentifier s))"

definition on_BEFORE_ATTRIBUTE_VALUE :: "nat \<Rightarrow> int \<Rightarrow> tokenizer \<Rightarrow> thrown + tokenizer_state \<times> tokenizer" where
  "on_BEFORE_ATTRIBUTE_VALUE fuel cp0 s0 =
     bindE (endToken s0)
       (\<lambda>s1. bindE (skipWhitespace fuel cp0 s1)
          (\<lambda>(cp, s).
             if cp = GREATER_THAN_SIGN
             then goto DATA (seqE [ok (Tokenizer_reportParseError (js ''missing-attribute-value'')),
                                   startToken HTMLTagClose] s)
             else if cp = QUOTATION_MARK
             then goto ATTRIBUTE_VALUE_DOUBLE_QUOTED
                    (seqE [startToken HTMLQuote, appendTokenValue (Some cp) None] s)
             else if cp = APOSTROPHE
             then goto ATTRIBUTE_VALUE_SINGLE_QUOTED
                    (seqE [startToken HTMLQuote, appendTokenValue (Some cp) None] s)
             else reconsumeAs ATTRIBUTE_VALUE_UNQUOTED (startToken HTMLLiteral s)))"

definition quotedValueBody :: "tokenizer_state \<Rightarrow> int \<Rightarrow> bool \<Rightarrow> int \<Rightarrow> tokenizer
     \<Rightarrow> thrown + loop_step \<times> tokenizer" where
  "quotedValueBody self quote reportLineBreak cp s =
     (if (case tz_currentToken s of None \<Rightarrow> False | Some t \<Rightarrow> tk_type t \<noteq> HTMLAttrLiteral)
      then leave (reconsumeAs (tz_state s) (endToken s))
      else bindE (if tz_currentToken s = None then startToken HTMLAttrLiteral s else Inr s)
             (\<lambda>s1.
                if cp = LEFT_CURLY_BRACKET
                then Inr (Done X_EXPRESSION_START, (setStartTokenMark s1)\<lparr>tz_returnState := self\<rparr>)
                else if cp = RIGHT_CURLY_BRACKET \<or> cp = EQUALS_SIGN
                then Inr (Done X_EXPRESSION_END, (setStartTokenMark s1)\<lparr>tz_returnState := self\<rparr>)
                else if cp = quote
                then leave (goto AFTER_ATTRIBUTE_VALUE_QUOTED
                              (seqE [startToken HTMLQuote, appendTokenValue (Some cp) None] s1))
                else if cp = EOF then Inr (Done DATA, s1)
                else (let s2 = (if reportLineBreak \<and> cp = LINE_FEED
                                then Tokenizer_reportParseError (js ''unexpected-line-break'') s1
                                else s1);
                          s3 = (if cp = NULL
                                then Tokenizer_reportParseError (js ''unexpected-null-character'') s2
                                else s2)
                      in again (appendTokenValue (Some cp) (Some HTMLAttrLiteral) s3))))"

definition on_ATTRIBUTE_VALUE_DOUBLE_QUOTED :: "nat \<Rightarrow> int \<Rightarrow> tokenizer \<Rightarrow> thrown + tokenizer_state \<times> tokenizer" where
  "on_ATTRIBUTE_VALUE_DOUBLE_QUOTED fuel cp s =
     cp_loop fuel (quotedValueBody ATTRIBUTE_VALUE_DOUBLE_QUOTED QUOTATION_MARK False) cp
       (clearStartTokenMark s)"

definition on_ATTRIBUTE_VALUE_SINGLE_QUOTED :: "nat \<Rightarrow> int \<Rightarrow> tokenizer \<Rightarrow> thrown + tokenizer_state \<times> tokenizer" where
  "on_ATTRIBUTE_VALUE_SINGLE_QUOTED fuel cp s =
     cp_loop fuel (quotedValueBody ATTRIBUTE_VALUE_SINGLE_QUOTED APOSTROPHE True) cp
       (clearStartTokenMark s)"

definition ATTRIBUTE_VALUE_UNQUOTED_body :: "int \<Rightarrow> tokenizer \<Rightarrow> thrown + loop_step \<times> tokenizer" where
  "ATTRIBUTE_VALUE_UNQUOTED_body cp s =
     (if isWhitespace cp then leave (goto BEFORE_ATTRIBUTE_NAME (endToken s))
      else if cp = GREATER_THAN_SIGN then leave (goto DATA (startToken HTMLTagClose s))
      else (let s1 = (if cp = NULL
                      then Tokenizer_reportParseError (js ''unexpected-null-character'') s else s);
                cp1 = (if cp = NULL then NULL_REPLACEMENT else cp);
                s2 = (if cp1 = QUOTATION_MARK \<or> cp1 = APOSTROPHE \<or> cp1 = LESS_THAN_SIGN
                         \<or> cp1 = EQUALS_SIGN \<or> cp1 = GRAVE_ACCENT
                      then Tokenizer_reportParseError
                             (js ''unexpected-character-in-unquoted-attribute-value'') s1
                      else s1)
            in if cp1 = EOF
               then Inr (Done DATA, Tokenizer_reportParseError (js ''eof-in-tag'') s2)
               else again (appendTokenValue (Some cp1) (Some HTMLLiteral) s2)))"

definition on_ATTRIBUTE_VALUE_UNQUOTED :: "nat \<Rightarrow> int \<Rightarrow> tokenizer \<Rightarrow> thrown + tokenizer_state \<times> tokenizer" where
  "on_ATTRIBUTE_VALUE_UNQUOTED fuel cp s =
     cp_loop fuel ATTRIBUTE_VALUE_UNQUOTED_body cp
       (Tokenizer_reportParseError (js ''attribute-value-invalid-unquoted'') s)"

definition on_AFTER_ATTRIBUTE_VALUE_QUOTED :: "int \<Rightarrow> tokenizer \<Rightarrow> thrown + tokenizer_state \<times> tokenizer" where
  "on_AFTER_ATTRIBUTE_VALUE_QUOTED cp s0 =
     bindE (endToken s0)
       (\<lambda>s. if isWhitespace cp then Inr (BEFORE_ATTRIBUTE_NAME, s)
             else if cp = SOLIDUS then Inr (SELF_CLOSING_START_TAG, setStartTokenMark s)
             else if cp = GREATER_THAN_SIGN then goto DATA (startToken HTMLTagClose s)
             else if cp = EOF then Inr (DATA, Tokenizer_reportParseError (js ''eof-in-tag'') s)
             else reconsumeAs BEFORE_ATTRIBUTE_NAME
                    (Inr (Tokenizer_reportParseError (js ''missing-whitespace-between-attributes'') s)))"

definition on_SELF_CLOSING_START_TAG :: "int \<Rightarrow> tokenizer \<Rightarrow> thrown + tokenizer_state \<times> tokenizer" where
  "on_SELF_CLOSING_START_TAG cp s =
     (if cp = GREATER_THAN_SIGN then goto DATA (startToken HTMLSelfClosingTagClose s)
      else if cp = EOF then Inr (DATA, Tokenizer_reportParseError (js ''eof-in-tag'') s)
      else reconsumeAs BEFORE_ATTRIBUTE_NAME
             (Inr (clearStartTokenMark (Tokenizer_reportParseError (js ''unexpected-solidus-in-tag'') s))))"

definition BOGUS_COMMENT_body :: "int \<Rightarrow> tokenizer \<Rightarrow> thrown + loop_step \<times> tokenizer" where
  "BOGUS_COMMENT_body cp s =
     (if cp = GREATER_THAN_SIGN then Inr (Done DATA, s)
      else if cp = EOF then Inr (Done DATA, s)
      else again (appendTokenValue (Some (if cp = NULL then NULL_REPLACEMENT else cp)) None s))"

definition on_BOGUS_COMMENT :: "nat \<Rightarrow> int \<Rightarrow> tokenizer \<Rightarrow> thrown + tokenizer_state \<times> tokenizer" where
  "on_BOGUS_COMMENT fuel cp s = cp_loop fuel BOGUS_COMMENT_body cp s"

definition on_MARKUP_DECLARATION_OPEN :: "int \<Rightarrow> tokenizer \<Rightarrow> thrown + tokenizer_state \<times> tokenizer" where
  "on_MARKUP_DECLARATION_OPEN cp s =
     (if cp = HYPHEN_MINUS \<and> charCodeAt (tz_text s) (tz_offset s + 1) = Some HYPHEN_MINUS
      then goto COMMENT_START
             (startToken HTMLComment (s\<lparr>tz_offset := tz_offset s + 1, tz_column := tz_column s + 1\<rparr>))
      else reconsumeAs BOGUS_COMMENT
             (seqE [ok (Tokenizer_reportParseError (js ''incorrectly-opened-comment'')),
                    startToken HTMLBogusComment] s))"

definition on_COMMENT_START :: "int \<Rightarrow> tokenizer \<Rightarrow> thrown + tokenizer_state \<times> tokenizer" where
  "on_COMMENT_START cp s =
     (if cp = HYPHEN_MINUS then Inr (COMMENT_START_DASH, s)
      else if cp = GREATER_THAN_SIGN
      then Inr (DATA, Tokenizer_reportParseError (js ''abrupt-closing-of-empty-comment'') s)
      else reconsumeAs COMMENT (Inr s))"

definition on_COMMENT_START_DASH :: "int \<Rightarrow> tokenizer \<Rightarrow> thrown + tokenizer_state \<times> tokenizer" where
  "on_COMMENT_START_DASH cp s =
     (if cp = HYPHEN_MINUS then Inr (COMMENT_END, s)
      else if cp = GREATER_THAN_SIGN
      then Inr (DATA, Tokenizer_reportParseError (js ''abrupt-closing-of-empty-comment'') s)
      else if cp = EOF then Inr (DATA, Tokenizer_reportParseError (js ''eof-in-comment'') s)
      else reconsumeAs COMMENT (appendTokenValue (Some HYPHEN_MINUS) (Some HTMLComment) s))"

definition COMMENT_body :: "int \<Rightarrow> tokenizer \<Rightarrow> thrown + loop_step \<times> tokenizer" where
  "COMMENT_body cp s =
     (if cp = LESS_THAN_SIGN
      then leave (goto COMMENT_LESS_THAN_SIGN
                    (appendTokenValue (Some LESS_THAN_SIGN) (Some HTMLComment) s))
      else if cp = HYPHEN_MINUS then Inr (Done COMMENT_END_DASH, s)
      else (let s1 = (if cp = NULL
                      then Tokenizer_reportParseError (js ''unexpected-null-character'') s else s);
                cp1 = (if cp = NULL then NULL_REPLACEMENT else cp)
            in if cp1 = EOF
               then Inr (Done DATA, Tokenizer_reportParseError (js ''eof-in-comment'') s1)
               else again (appendTokenValue (Some cp1) (Some HTMLComment) s1)))"

definition on_COMMENT :: "nat \<Rightarrow> int \<Rightarrow> tokenizer \<Rightarrow> thrown + tokenizer_state \<times> tokenizer" where
  "on_COMMENT fuel cp s = cp_loop fuel COMMENT_body cp s"

definition COMMENT_LESS_THAN_SIGN_body :: "int \<Rightarrow> tokenizer \<Rightarrow> thrown + loop_step \<times> tokenizer" where
  "COMMENT_LESS_THAN_SIGN_body cp s =
     (if cp = EXCLAMATION_MARK
      then leave (goto COMMENT_LESS_THAN_SIGN_BANG (appendTokenValue (Some cp) (Some HTMLComment) s))
      else if cp \<noteq> LESS_THAN_SIGN then leave (reconsumeAs COMMENT (Inr s))
      else again (appendTokenValue (Some cp) (Some HTMLComment) s))"

definition on_COMMENT_LESS_THAN_SIGN :: "nat \<Rightarrow> int \<Rightarrow> tokenizer \<Rightarrow> thrown + tokenizer_state \<times> tokenizer" where
  "on_COMMENT_LESS_THAN_SIGN fuel cp s = cp_loop fuel COMMENT_LESS_THAN_SIGN_body cp s"

definition on_COMMENT_LESS_THAN_SIGN_BANG :: "int \<Rightarrow> tokenizer \<Rightarrow> thrown + tokenizer_state \<times> tokenizer" where
  "on_COMMENT_LESS_THAN_SIGN_BANG cp s =
     (if cp = HYPHEN_MINUS then Inr (COMMENT_LESS_THAN_SIGN_BANG_DASH, s)
      else reconsumeAs COMMENT (Inr s))"

definition on_COMMENT_LESS_THAN_SIGN_BANG_DASH :: "int \<Rightarrow> tokenizer \<Rightarrow> thrown + tokenizer_state \<times> tokenizer" where
  "on_COMMENT_LESS_THAN_SIGN_BANG_DASH cp s =
     (if cp = HYPHEN_MINUS then Inr (COMMENT_LESS_THAN_SIGN_BANG_DASH_DASH, s)
      else reconsumeAs COMMENT_END_DASH (Inr s))"

definition on_COMMENT_LESS_THAN_SIGN_BANG_DASH_DASH :: "int \<Rightarrow> tokenizer \<Rightarrow> thrown + tokenizer_state \<times> tokenizer" where
  "on_COMMENT_LESS_THAN_SIGN_BANG_DASH_DASH cp s =
     reconsumeAs COMMENT_END
       (Inr (if cp \<noteq> GREATER_THAN_SIGN \<and> cp \<noteq> EOF
             then Tokenizer_reportParseError (js ''nested-comment'') s else s))"

definition on_COMMENT_END_DASH :: "int \<Rightarrow> tokenizer \<Rightarrow> thrown + tokenizer_state \<times> tokenizer" where
  "on_COMMENT_END_DASH cp s =
     (if cp = HYPHEN_MINUS then Inr (COMMENT_END, s)
      else if cp = EOF then Inr (DATA, Tokenizer_reportParseError (js ''eof-in-comment'') s)
      else reconsumeAs COMMENT (appendTokenValue (Some HYPHEN_MINUS) (Some HTMLComment) s))"

definition COMMENT_END_body :: "int \<Rightarrow> tokenizer \<Rightarrow> thrown + loop_step \<times> tokenizer" where
  "COMMENT_END_body cp s =
     (if cp = GREATER_THAN_SIGN then Inr (Done DATA, s)
      else if cp = EXCLAMATION_MARK then Inr (Done COMMENT_END_BANG, s)
      else if cp = EOF then Inr (Done DATA, Tokenizer_reportParseError (js ''eof-in-comment'') s)
      else bindE (appendTokenValue (Some HYPHEN_MINUS) (Some HTMLComment) s)
             (\<lambda>s1. if cp \<noteq> HYPHEN_MINUS
                    then leave (reconsumeAs COMMENT
                                  (appendTokenValue (Some HYPHEN_MINUS) (Some HTMLComment) s1))
                    else Inr (Again, s1)))"

definition on_COMMENT_END :: "nat \<Rightarrow> int \<Rightarrow> tokenizer \<Rightarrow> thrown + tokenizer_state \<times> tokenizer" where
  "on_COMMENT_END fuel cp s = cp_loop fuel COMMENT_END_body cp s"

definition on_COMMENT_END_BANG :: "int \<Rightarrow> tokenizer \<Rightarrow> thrown + tokenizer_state \<times> tokenizer" where
  "on_COMMENT_END_BANG cp s =
     (if cp = HYPHEN_MINUS
      then goto COMMENT_END_DASH
             (seqE [appendTokenValue (Some HYPHEN_MINUS) (Some HTMLComment),
                    appendTokenValue (Some EXCLAMATION_MARK) (Some HTMLComment)] s)
      else if cp = GREATER_THAN_SIGN
      then Inr (DATA, Tokenizer_reportParseError (js ''incorrectly-closed-comment'') s)
      else if cp = EOF then Inr (DATA, Tokenizer_reportParseError (js ''eof-in-comment'') s)
      else reconsumeAs COMMENT
             (seqE [appendTokenValue (Some HYPHEN_MINUS) (Some HTMLComment),
                    appendTokenValue (Some EXCLAMATION_MARK) (Some HTMLComment)] s))"

definition on_X_EXPRESSION_START :: "int \<Rightarrow> tokenizer \<Rightarrow> thrown + tokenizer_state \<times> tokenizer" where
  "on_X_EXPRESSION_START cp s =
     (if cp = LEFT_CURLY_BRACKET
      then goto (tz_returnState s)
             (seqE [startToken XMustacheStart,
                    appendTokenValue (Some LEFT_CURLY_BRACKET) None,
                    appendTokenValue (Some LEFT_CURLY_BRACKET) None,
                    ok (\<lambda>s1. s1\<lparr>tz_tagOpenEnabled := False\<rparr>)] s)
      else if cp = EQUALS_SIGN
            \<and> (tz_returnState s = ATTRIBUTE_VALUE_DOUBLE_QUOTED
               \<or> tz_returnState s = ATTRIBUTE_VALUE_SINGLE_QUOTED)
      then goto (tz_returnState s)
             (seqE [startToken XMustacheStart,
                    appendTokenValue (Some LEFT_CURLY_BRACKET) None,
                    appendTokenValue (Some EQUALS_SIGN) None] s)
      else reconsumeAs (tz_returnState s) (appendTokenValue (Some LEFT_CURLY_BRACKET) None s))"

definition on_X_EXPRESSION_END :: "int \<Rightarrow> tokenizer \<Rightarrow> thrown + tokenizer_state \<times> tokenizer" where
  "on_X_EXPRESSION_END cp s =
     (if cp = RIGHT_CURLY_BRACKET
           \<and> codePointAt (tz_text s) (tz_offset s + 1) \<noteq> Some RIGHT_CURLY_BRACKET
      then goto (tz_returnState s)
             (seqE [startToken XMustacheEnd,
                    appendTokenValue (codePointAt (tz_text s) (tz_offset s - 1)) None,
                    appendTokenValue (Some RIGHT_CURLY_BRACKET) None,
                    ok (\<lambda>s1. s1\<lparr>tz_tagOpenEnabled := True\<rparr>)] s)
      else reconsumeAs (tz_returnState s)
             (appendTokenValue (codePointAt (tz_text s) (tz_offset s - 1)) None s))"

text \<open>\<open>this[this.state](cp)\<close>\<close>

definition dispatch :: "nat \<Rightarrow> tokenizer_state \<Rightarrow> int \<Rightarrow> tokenizer \<Rightarrow> thrown + tokenizer_state \<times> tokenizer" where
  "dispatch fuel st cp s = (case st of
       DATA \<Rightarrow> on_DATA fuel cp s
     | TAG_OPEN \<Rightarrow> on_TAG_OPEN cp s
     | END_TAG_OPEN \<Rightarrow> on_END_TAG_OPEN cp s
     | TAG_NAME \<Rightarrow> on_TAG_NAME fuel cp s
     | RCDATA \<Rightarrow> on_RCDATA fuel cp s
     | RCDATA_LESS_THAN_SIGN \<Rightarrow> on_RCDATA_LESS_THAN_SIGN cp s
     | RCDATA_END_TAG_OPEN \<Rightarrow> on_RCDATA_END_TAG_OPEN cp s
     | RCDATA_END_TAG_NAME \<Rightarrow> on_RCDATA_END_TAG_NAME fuel cp s
     | RAWTEXT \<Rightarrow> on_RAWTEXT fuel cp s
     | RAWTEXT_LESS_THAN_SIGN \<Rightarrow> on_RAWTEXT_LESS_THAN_SIGN cp s
     | RAWTEXT_END_TAG_OPEN \<Rightarrow> on_RAWTEXT_END_TAG_OPEN cp s
     | RAWTEXT_END_TAG_NAME \<Rightarrow> on_RAWTEXT_END_TAG_NAME fuel cp s
     | BEFORE_ATTRIBUTE_NAME \<Rightarrow> on_BEFORE_ATTRIBUTE_NAME fuel cp s
     | ATTRIBUTE_NAME \<Rightarrow> on_ATTRIBUTE_NAME fuel cp s
     | AFTER_ATTRIBUTE_NAME \<Rightarrow> on_AFTER_ATTRIBUTE_NAME fuel cp s
     | BEFORE_ATTRIBUTE_VALUE \<Rightarrow> on_BEFORE_ATTRIBUTE_VALUE fuel cp s
     | ATTRIBUTE_VALUE_DOUBLE_QUOTED \<Rightarrow> on_ATTRIBUTE_VALUE_DOUBLE_QUOTED fuel cp s
     | ATTRIBUTE_VALUE_SINGLE_QUOTED \<Rightarrow> on_ATTRIBUTE_VALUE_SINGLE_QUOTED fuel cp s
     | ATTRIBUTE_VALUE_UNQUOTED \<Rightarrow> on_ATTRIBUTE_VALUE_UNQUOTED fuel cp s
     | AFTER_ATTRIBUTE_VALUE_QUOTED \<Rightarrow> on_AFTER_ATTRIBUTE_VALUE_QUOTED cp s
     | SELF_CLOSING_START_TAG \<Rightarrow> on_SELF_CLOSING_START_TAG cp s
     | BOGUS_COMMENT \<Rightarrow> on_BOGUS_COMMENT fuel cp s
     | MARKUP_DECLARATION_OPEN \<Rightarrow> on_MARKUP_DECLARATION_OPEN cp s
     | COMMENT_START \<Rightarrow> on_COMMENT_START cp s
     | COMMENT_START_DASH \<Rightarrow> on_COMMENT_START_DASH cp s
     | COMMENT \<Rightarrow> on_COMMENT fuel cp s
     | COMMENT_LESS_THAN_SIGN \<Rightarrow> on_COMMENT_LESS_THAN_SIGN fuel cp s
     | COMMENT_LESS_THAN_SIGN_BANG \<Rightarrow> on_COMMENT_LESS_THAN_SIGN_BANG cp s
     | COMMENT_LESS_THAN_SIGN_BANG_DASH \<Rightarrow> on_COMMENT_LESS_THAN_SIGN_BANG_DASH cp s
     | COMMENT_LESS_THAN_SIGN_BANG_DASH_DASH \<Rightarrow> on_COMMENT_LESS_THAN_SIGN_BANG_DASH_DASH cp s
     | COMMENT_END_DASH \<Rightarrow> on_COMMENT_END_DASH cp s
     | COMMENT_END \<Rightarrow> on_COMMENT_END fuel cp s
     | COMMENT_END_BANG \<Rightarrow> on_COMMENT_END_BANG cp s
     | X_EXPRESSION_START \<Rightarrow> on_X_EXPRESSION_START cp s
     | X_EXPRESSION_END \<Rightarrow> on_X_EXPRESSION_END cp s)"

subsection \<open>\<open>nextToken\<close>\<close>

text \<open>One turn of the \<open>while\<close> loop of \<open>nextToken\<close> after its condition held and no provisional
  token had to be committed: take the code point, run the state function, store the state.\<close>

definition runState :: "nat \<Rightarrow> tokenizer \<Rightarrow> thrown + int \<times> tokenizer" where
  "runState fuel s =
     (case (if tz_reconsuming s then (tz_lastCodePoint s, s\<lparr>tz_reconsuming := False\<rparr>)
            else consumeNextCodePoint s) of
        (cp, s1) \<Rightarrow> bindE (dispatch fuel (tz_state s1) cp s1)
                     (\<lambda>(st, s2). Inr (cp, s2\<lparr>tz_state := st\<rparr>)))"

fun nextTokenLoop :: "nat \<Rightarrow> nat \<Rightarrow> int \<Rightarrow> tokenizer \<Rightarrow> thrown + int \<times> tokenizer" where
  "nextTokenLoop fuel 0 cp s = Inl OutOfFuel"
| "nextTokenLoop fuel (Suc n) cp s =
     (if tz_committedToken s = None \<and> (cp \<noteq> EOF \<or> tz_reconsuming s)
      then (if tz_provisionalToken s \<noteq> None \<and> \<not> isProvisionalState s
            then bindE (commitProvisionalToken s)
                   (\<lambda>s1. if tz_committedToken s1 \<noteq> None then Inr (cp, s1)
                          else bindE (runState fuel s1) (\<lambda>(cp1, s2). nextTokenLoop fuel n cp1 s2))
            else bindE (runState fuel s) (\<lambda>(cp1, s2). nextTokenLoop fuel n cp1 s2))
      else Inr (cp, s))"

definition consumeCommittedToken :: "tokenizer \<Rightarrow> token option \<times> tokenizer" where
  "consumeCommittedToken s = (tz_committedToken s, s\<lparr>tz_committedToken := None\<rparr>)"

definition nextToken :: "nat \<Rightarrow> tokenizer \<Rightarrow> thrown + token option \<times> tokenizer" where
  "nextToken fuel s =
     bindE (nextTokenLoop fuel fuel (tz_lastCodePoint s) s)
       (\<lambda>(cp, s1). case consumeCommittedToken s1 of
            (Some token, s2) \<Rightarrow> Inr (Some token, s2)
          | (None, s2) \<Rightarrow>
              if cp \<noteq> EOF then Inl (ThrownOther (js ''AssertionError''))
              else if tz_currentToken s2 \<noteq> None
              then bindE (endToken s2)
                     (\<lambda>s3. case consumeCommittedToken s3 of
                          (Some token, s4) \<Rightarrow> Inr (Some token, s4)
                        | (None, s4) \<Rightarrow> Inr (tz_currentToken s4, s4))
              else Inr (tz_currentToken s2, s2))"


section \<open>The intermediate tokenizer (\<open>intermediate-tokenizer.ts\<close>)\<close>

record start_tag =
  st_range :: offset_range
  st_loc :: loc_range
  st_name :: jsstring
  st_rawName :: jsstring
  st_selfClosing :: bool
  st_attributes :: "xattribute list"

record end_tag =
  et_range :: offset_range
  et_loc :: loc_range
  et_name :: jsstring

record text_chunk =
  tx_range :: offset_range
  tx_loc :: loc_range
  tx_value :: jsstring

datatype intermediate_token =
    StartTag start_tag
  | EndTag end_tag
  | Text text_chunk
  | MustacheToken mustache  \<comment> \<open>\<open>type: 'Mustache'\<close>\<close>

definition tokenRange :: "intermediate_token \<Rightarrow> offset_range" where
  "tokenRange x = (case x of StartTag t \<Rightarrow> st_range t | EndTag t \<Rightarrow> et_range t
     | Text t \<Rightarrow> tx_range t | MustacheToken t \<Rightarrow> mu_range t)"

definition tokenLoc :: "intermediate_token \<Rightarrow> loc_range" where
  "tokenLoc x = (case x of StartTag t \<Rightarrow> st_loc t | EndTag t \<Rightarrow> et_loc t
     | Text t \<Rightarrow> tx_loc t | MustacheToken t \<Rightarrow> mu_loc t)"

text \<open>\<open>x.range[1] = token.range[1]; x.loc.end = token.loc.end\<close>\<close>

definition endAt :: "token \<Rightarrow> offset_range \<times> loc_range \<Rightarrow> offset_range \<times> loc_range" where
  "endAt token rl = ((fst (fst rl), snd (tk_range token)), (fst (snd rl), snd (tk_loc token)))"

definition endTokenAt :: "token \<Rightarrow> intermediate_token \<Rightarrow> intermediate_token" where
  "endTokenAt token x = (case x of
       StartTag t \<Rightarrow> StartTag (t\<lparr>st_range := fst (endAt token (st_range t, st_loc t)),
                                  st_loc := snd (endAt token (st_range t, st_loc t))\<rparr>)
     | EndTag t \<Rightarrow> EndTag (t\<lparr>et_range := fst (endAt token (et_range t, et_loc t)),
                              et_loc := snd (endAt token (et_range t, et_loc t))\<rparr>)
     | Text t \<Rightarrow> Text (t\<lparr>tx_range := fst (endAt token (tx_range t, tx_loc t)),
                          tx_loc := snd (endAt token (tx_range t, tx_loc t))\<rparr>)
     | MustacheToken t \<Rightarrow> MustacheToken (t\<lparr>mu_range := fst (endAt token (mu_range t, mu_loc t)),
                                            mu_loc := snd (endAt token (mu_range t, mu_loc t))\<rparr>))"

definition endStartTagAt :: "token \<Rightarrow> start_tag \<Rightarrow> start_tag" where
  "endStartTagAt token t = t\<lparr>st_range := fst (endAt token (st_range t, st_loc t)),
                              st_loc := snd (endAt token (st_range t, st_loc t))\<rparr>"

definition endAttributeAt :: "token \<Rightarrow> xattribute \<Rightarrow> xattribute" where
  "endAttributeAt token a = a\<lparr>at_range := fst (endAt token (at_range a, at_loc a)),
                               at_loc := snd (endAt token (at_range a, at_loc a))\<rparr>"

definition pushValue :: "piece \<Rightarrow> xattribute \<Rightarrow> xattribute" where
  "pushValue p a = a\<lparr>at_value := at_value a @ [p]\<rparr>"

text \<open>
  \<open>this.attribute\<close> is the attribute that \<open>HTMLIdentifier\<close> pushed last onto
  \<open>this.currentStartTag.attributes\<close>: one object, reached by two paths. The state keeps it in
  both places, and a write to it (\<open>withAttribute\<close>) is made in both. After the start tag has been
  handed over (\<open>currentStartTag\<close> is \<open>null\<close>) the field may still hold that attribute; the token
  functions that would then write to it raise \<open>unreachable\<close> (or come after one that does), so
  here such a write stays in the field.
\<close>

record intermediate_tokenizer =
  it_tokenizer :: tokenizer
  it_currentToken :: "intermediate_token option"
  it_currentStartTag :: "start_tag option"
  it_attribute :: "xattribute option"
  it_attributeNames :: "jsstring list"
  it_expressionStartToken :: "token option"
  it_expressionTokens :: "token list"
  it_tokens :: "token list"
  it_comments :: "token list"

definition new_IntermediateTokenizer :: "tokenizer \<Rightarrow> intermediate_tokenizer" where
  "new_IntermediateTokenizer tokenizer =
     \<lparr>it_tokenizer = tokenizer, it_currentToken = None, it_currentStartTag = None,
      it_attribute = None, it_attributeNames = [], it_expressionStartToken = None,
      it_expressionTokens = [], it_tokens = [], it_comments = []\<rparr>"

definition withAttribute :: "(xattribute \<Rightarrow> xattribute) \<Rightarrow> intermediate_tokenizer \<Rightarrow> intermediate_tokenizer" where
  "withAttribute f s =
     s\<lparr>it_attribute := map_option f (it_attribute s),
       it_currentStartTag := map_option
          (\<lambda>t. if st_attributes t = [] then t
                else t\<lparr>st_attributes := butlast (st_attributes t) @ [f (last (st_attributes t))]\<rparr>)
          (it_currentStartTag s)\<rparr>"

definition withStartTag :: "(start_tag \<Rightarrow> start_tag) \<Rightarrow> intermediate_tokenizer \<Rightarrow> intermediate_tokenizer" where
  "withStartTag f s = s\<lparr>it_currentStartTag := map_option f (it_currentStartTag s)\<rparr>"

definition pushToken :: "token \<Rightarrow> intermediate_tokenizer \<Rightarrow> intermediate_tokenizer" where
  "pushToken token s = s\<lparr>it_tokens := it_tokens s @ [token]\<rparr>"

text \<open>\<open>this.errors\<close> is the array of the tokenizer.\<close>

definition IntermediateTokenizer_reportParseError ::
  "offset_range \<Rightarrow> loc_range \<Rightarrow> jsstring \<Rightarrow> intermediate_tokenizer \<Rightarrow> intermediate_tokenizer" where
  "IntermediateTokenizer_reportParseError rng loc code s =
     s\<lparr>it_tokenizer := (it_tokenizer s)\<lparr>tz_errors := tz_errors (it_tokenizer s)
          @ [fromCode code (fst rng) (fst (fst loc)) (snd (fst loc))]\<rparr>\<rparr>"

definition throwParseError :: "offset_range \<Rightarrow> loc_range \<Rightarrow> jsstring \<Rightarrow> thrown" where
  "throwParseError rng loc code =
     ThrownParseError (fromCode code (fst rng) (fst (fst loc)) (snd (fst loc)))"

text \<open>\<open>last(this.expressionTokens) || start\<close>, and \<open>this.expressionTokens.reduce(concat, text)\<close>.\<close>

definition lastOr :: "token list \<Rightarrow> token \<Rightarrow> token" where
  "lastOr ts start = (if ts = [] then start else last ts)"

definition concatValues :: "jsstring \<Rightarrow> token list \<Rightarrow> jsstring" where
  "concatValues text ts = foldl (\<lambda>text token. text @ tk_value token) text ts"

type_synonym token_result = "thrown + intermediate_token option \<times> intermediate_tokenizer"

definition commit :: "intermediate_tokenizer \<Rightarrow> thrown + intermediate_token \<times> intermediate_tokenizer" where
  "commit s =
     (if it_currentToken s = None \<and> it_expressionStartToken s = None
      then Inl (ThrownOther (js ''AssertionError''))
      else (let s1 = s\<lparr>it_currentToken := None, it_attribute := None\<rparr>
            in case it_expressionStartToken s of
                 None \<Rightarrow> (case it_currentToken s of
                      Some token \<Rightarrow> Inr (token, s1)
                    | None \<Rightarrow> Inl (ThrownOther (js ''AssertionError'')))
               | Some start \<Rightarrow>
                   (let s2 = IntermediateTokenizer_reportParseError (tk_range start) (tk_loc start)
                               (js ''missing-expression-end-tag'') s1;
                        end = lastOr (it_expressionTokens s) start;
                        v = concatValues (tk_value start) (it_expressionTokens s);
                        s3 = s2\<lparr>it_expressionStartToken := None, it_expressionTokens := []\<rparr>
                    in case it_currentToken s of
                         None \<Rightarrow>
                           Inr (Text \<lparr>tx_range = (fst (tk_range start), snd (tk_range end)),
                                      tx_loc = (fst (tk_loc start), snd (tk_loc end)),
                                      tx_value = v\<rparr>, s3)
                       | Some (Text t) \<Rightarrow>
                           Inr (Text (t\<lparr>tx_range := (fst (tx_range t), snd (tk_range end)),
                                        tx_loc := (fst (tx_loc t), snd (tk_loc end)),
                                        tx_value := tx_value t @ v\<rparr>), s3)
                       | Some token \<Rightarrow>
                           Inl (throwParseError (tokenRange token) (tokenLoc token)
                                  (js ''unreachable'')))))"

definition commitSome :: "intermediate_tokenizer \<Rightarrow> token_result" where
  "commitSome s = bindE (commit s) (\<lambda>(token, s1). Inr (Some token, s1))"

definition processComment :: "token \<Rightarrow> intermediate_tokenizer \<Rightarrow> token_result" where
  "processComment token s =
     (let s1 = s\<lparr>it_comments := it_comments s @ [token]\<rparr>
      in case it_currentToken s1 of
           Some (Text _) \<Rightarrow> commitSome s1
         | _ \<Rightarrow> Inr (None, s1))"

definition textOf :: "token \<Rightarrow> intermediate_token" where
  "textOf token = Text \<lparr>tx_range = tk_range token, tx_loc = tk_loc token, tx_value = tk_value token\<rparr>"

text \<open>The end of \<open>processText\<close>: \<open>assert(this.currentToken == null)\<close>, then the text token
  becomes the current token.\<close>

definition startText :: "token \<Rightarrow> token_result \<Rightarrow> token_result" where
  "startText token m =
     bindE m (\<lambda>(result, s).
       if it_currentToken s \<noteq> None then Inl (ThrownOther (js ''AssertionError''))
       else Inr (result, s\<lparr>it_currentToken := Some (textOf token)\<rparr>))"

definition processText :: "token \<Rightarrow> intermediate_tokenizer \<Rightarrow> token_result" where
  "processText token s0 =
     (let s = pushToken token s0
      in case it_expressionStartToken s of
           Some start \<Rightarrow>
             if snd (tk_range (lastOr (it_expressionTokens s) start)) = fst (tk_range token)
             then Inr (None, s\<lparr>it_expressionTokens := it_expressionTokens s @ [token]\<rparr>)
             else startText token (commitSome s)
         | None \<Rightarrow> (case it_currentToken s of
               Some current \<Rightarrow>
                 (case current of
                    Text t \<Rightarrow>
                      if snd (tx_range t) = fst (tk_range token)
                      then Inr (None, s\<lparr>it_currentToken := Some (Text
                             (t\<lparr>tx_value := tx_value t @ tk_value token,
                                tx_range := (fst (tx_range t), snd (tk_range token)),
                                tx_loc := (fst (tx_loc t), snd (tk_loc token))\<rparr>))\<rparr>)
                      else startText token (commitSome s)
                  | _ \<Rightarrow> startText token (commitSome s))
             | None \<Rightarrow> startText token (Inr (None, s))))"

definition process_HTMLAssociation :: "token \<Rightarrow> intermediate_tokenizer \<Rightarrow> token_result" where
  "process_HTMLAssociation token s0 =
     (let s = pushToken token s0
      in if it_attribute s \<noteq> None
         then (if it_currentStartTag s = None
               then Inl (throwParseError (tk_range token) (tk_loc token) (js ''unreachable''))
               else Inr (None, withStartTag (endStartTagAt token)
                                 (withAttribute (endAttributeAt token) s)))
         else Inr (None, s))"

definition process_HTMLEndTagOpen :: "token \<Rightarrow> intermediate_tokenizer \<Rightarrow> token_result" where
  "process_HTMLEndTagOpen token s0 =
     (let s = pushToken token s0
      in bindE (if it_currentToken s \<noteq> None \<or> it_expressionStartToken s \<noteq> None
                then commitSome s else Inr (None, s))
           (\<lambda>(result, s1).
              Inr (result, s1\<lparr>it_currentToken := Some (EndTag
                     \<lparr>et_range = tk_range token, et_loc = tk_loc token, et_name = tk_value token\<rparr>)\<rparr>)))"

definition process_HTMLIdentifier :: "token \<Rightarrow> intermediate_tokenizer \<Rightarrow> token_result" where
  "process_HTMLIdentifier token s0 =
     (let s = pushToken token s0
      in case it_currentStartTag s of
           None \<Rightarrow> Inr (None, IntermediateTokenizer_reportParseError (tk_range token) (tk_loc token)
                                 (js ''unreachable'') s)
         | Some startTag \<Rightarrow>
             (let s1 = (if tk_value token \<in> set (it_attributeNames s)
                        then IntermediateTokenizer_reportParseError (tk_range token) (tk_loc token)
                               (js ''duplicate-attribute'') s
                        else s);
                  attribute = \<lparr>at_type = XAttribute, at_range = tk_range token, at_loc = tk_loc token,
                       at_key = XIdentifier (tk_value token)
                          (slice (tz_text (it_tokenizer s)) (nat (fst (tk_range token)))
                             (nat (snd (tk_range token))))
                          (tk_range token) (tk_loc token),
                       at_value = []\<rparr>
              in Inr (None, s1\<lparr>it_attributeNames := List.insert (tk_value token) (it_attributeNames s1),
                               it_attribute := Some attribute,
                               it_currentStartTag := Some ((endStartTagAt token startTag)
                                  \<lparr>st_attributes := st_attributes startTag @ [attribute]\<rparr>)\<rparr>)))"

text \<open>The literal \<open>HTMLQuote\<close> and \<open>commit\<close> make of a mustache that was never closed.\<close>

definition unclosedLiteral :: "token \<Rightarrow> token list \<Rightarrow> piece" where
  "unclosedLiteral start ts =
     XLiteral (fst (tk_range start), snd (tk_range (lastOr ts start)))
       (fst (tk_loc start), snd (tk_loc (lastOr ts start)))
       (concatValues (tk_value start) ts)"

definition process_HTMLQuote :: "token \<Rightarrow> intermediate_tokenizer \<Rightarrow> token_result" where
  "process_HTMLQuote token s0 =
     (if it_attribute s0 = None then Inl (ThrownOther (js ''AssertionError''))
      else (let s = withAttribute (endAttributeAt token) (pushToken token s0)
            in if length (it_tokens s) < 2 then Inl (ThrownOther (js ''TypeError''))
               else (let lastToken = it_tokens s ! (length (it_tokens s) - 2);
                         s1 = (if tk_type lastToken = HTMLQuote
                                  \<and> snd (tk_range lastToken) = fst (tk_range token)
                                  \<and> (case it_attribute s of None \<Rightarrow> False | Some a \<Rightarrow> at_value a = [])
                               then withAttribute (pushValue
                                      (XLiteral (fst (tk_range token), fst (tk_range token))
                                         (fst (tk_loc token), fst (tk_loc token)) [])) s
                               else s)
                     in case it_expressionStartToken s1 of
                          Some start \<Rightarrow>
                            if tk_type lastToken \<noteq> HTMLAssociation
                            then Inr (None,
                                   withAttribute (pushValue (unclosedLiteral start (it_expressionTokens s1)))
                                     ((IntermediateTokenizer_reportParseError (tk_range start) (tk_loc start)
                                         (js ''missing-expression-end-tag'') s1)
                                        \<lparr>it_expressionStartToken := None, it_expressionTokens := []\<rparr>))
                            else Inr (None, s1)
                        | None \<Rightarrow> Inr (None, s1))))"

definition literalOf :: "token \<Rightarrow> piece" where
  "literalOf token = XLiteral (tk_range token) (tk_loc token) (tk_value token)"

definition process_HTMLLiteral :: "token \<Rightarrow> intermediate_tokenizer \<Rightarrow> token_result" where
  "process_HTMLLiteral token s0 =
     (let s = pushToken token s0
      in if it_attribute s \<noteq> None
         then (if it_currentStartTag s = None
               then Inl (throwParseError (tk_range token) (tk_loc token) (js ''unreachable''))
               else Inr (None, withStartTag (endStartTagAt token)
                                 (withAttribute (pushValue (literalOf token) \<circ> endAttributeAt token) s)))
         else Inr (None, s))"

definition process_HTMLAttrLiteral :: "token \<Rightarrow> intermediate_tokenizer \<Rightarrow> token_result" where
  "process_HTMLAttrLiteral token s0 =
     (let s = pushToken token s0
      in if it_attribute s = None
         then Inl (throwParseError (tk_range token) (tk_loc token) (js ''unreachable''))
         else (case it_expressionStartToken s of
             Some start \<Rightarrow>
               if snd (tk_range (lastOr (it_expressionTokens s) start)) = fst (tk_range token)
               then Inr (None, s\<lparr>it_expressionTokens := it_expressionTokens s @ [token]\<rparr>)
               else Inr (None, s)
           | None \<Rightarrow>
               if it_currentToken s \<noteq> None then Inl (ThrownOther (js ''AssertionError''))
               else if it_currentStartTag s = None
               then Inl (throwParseError (tk_range token) (tk_loc token) (js ''unreachable''))
               else Inr (None, withStartTag (endStartTagAt token)
                          (withAttribute (endAttributeAt token \<circ> pushValue (literalOf token)) s))))"

definition process_HTMLSelfClosingTagClose :: "token \<Rightarrow> intermediate_tokenizer \<Rightarrow> token_result" where
  "process_HTMLSelfClosingTagClose token s0 =
     (let s = pushToken token s0
      in case it_currentStartTag s of
           None \<Rightarrow> Inl (throwParseError (tk_range token) (tk_loc token) (js ''unreachable''))
         | Some startTag \<Rightarrow>
             Inr (Some (StartTag ((endStartTagAt token startTag)\<lparr>st_selfClosing := True\<rparr>)),
                  s\<lparr>it_currentStartTag := None\<rparr>))"

definition process_HTMLTagClose :: "token \<Rightarrow> intermediate_tokenizer \<Rightarrow> token_result" where
  "process_HTMLTagClose token s0 =
     (let s = pushToken token s0
      in case it_currentStartTag s of
           Some startTag \<Rightarrow>
             Inr (Some (StartTag (endStartTagAt token startTag)), s\<lparr>it_currentStartTag := None\<rparr>)
         | None \<Rightarrow> (case it_currentToken s of
               None \<Rightarrow> Inl (throwParseError (tk_range token) (tk_loc token) (js ''unreachable''))
             | Some current \<Rightarrow>
                 commitSome (s\<lparr>it_currentToken := Some (endTokenAt token current)\<rparr>)))"

definition process_HTMLTagOpen :: "token \<Rightarrow> intermediate_tokenizer \<Rightarrow> token_result" where
  "process_HTMLTagOpen token s0 =
     (let s = pushToken token s0
      in bindE (if it_currentToken s \<noteq> None \<or> it_expressionStartToken s \<noteq> None
                then commitSome s else Inr (None, s))
           (\<lambda>(result, s1).
              Inr (result, s1\<lparr>it_currentStartTag := Some
                     \<lparr>st_range = tk_range token, st_loc = tk_loc token, st_name = tk_value token,
                      st_rawName = slice (tz_text (it_tokenizer s1)) (nat (fst (tk_range token) + 1))
                                     (nat (snd (tk_range token))),
                      st_selfClosing = False, st_attributes = []\<rparr>,
                    it_attribute := None, it_attributeNames := []\<rparr>)))"

definition process_XMustacheStart :: "token \<Rightarrow> intermediate_tokenizer \<Rightarrow> token_result" where
  "process_XMustacheStart token s =
     (if it_expressionStartToken s \<noteq> None then processText token s
      else bindE (case it_currentToken s of
                    Some current \<Rightarrow>
                      if snd (tokenRange current) \<noteq> fst (tk_range token) then commitSome s
                      else Inr (None, s)
                  | None \<Rightarrow> Inr (None, s))
             (\<lambda>(result, s1).
                Inr (result, (pushToken token s1)\<lparr>it_expressionStartToken := Some token\<rparr>)))"

definition mustacheOf :: "token \<Rightarrow> token \<Rightarrow> jsstring \<Rightarrow> mustache" where
  "mustacheOf start token v =
     \<lparr>mu_range = (fst (tk_range start), snd (tk_range token)),
      mu_loc = (fst (tk_loc start), snd (tk_loc token)),
      mu_value = v, mu_startToken = start, mu_endToken = token\<rparr>"

definition process_XMustacheEnd :: "token \<Rightarrow> intermediate_tokenizer \<Rightarrow> token_result" where
  "process_XMustacheEnd token s = (case it_expressionStartToken s of
       None \<Rightarrow> processText token s
     | Some start \<Rightarrow>
         if snd (tk_range (lastOr (it_expressionTokens s) start)) \<noteq> fst (tk_range token)
         then bindE (commit s)
                (\<lambda>(result, s1). bindE (processText token s1) (\<lambda>(_, s2). Inr (Some result, s2)))
         else (let v = concatValues [] (it_expressionTokens s);
                   s1 = (pushToken token s)\<lparr>it_expressionStartToken := None, it_expressionTokens := []\<rparr>
               in if it_currentStartTag s1 \<noteq> None
                  then (if it_attribute s1 = None
                        then Inl (throwParseError (tk_range token) (tk_loc token) (js ''unreachable''))
                        else Inr (None, withAttribute (pushValue (Mustache (mustacheOf start token v))) s1))
                  else bindE (if it_currentToken s1 \<noteq> None then commitSome s1 else Inr (None, s1))
                         (\<lambda>(result, s2).
                            (let s3 = s2\<lparr>it_currentToken := Some (MustacheToken (mustacheOf start token v))\<rparr>
                             in case result of
                                  Some r \<Rightarrow> Inr (Some r, s3)
                                | None \<Rightarrow> commitSome s3))))"

text \<open>\<open>this[token.type](token)\<close>\<close>

definition processToken :: "token \<Rightarrow> intermediate_tokenizer \<Rightarrow> token_result" where
  "processToken token s = (case tk_type token of
       HTMLAssociation \<Rightarrow> process_HTMLAssociation token s
     | HTMLBogusComment \<Rightarrow> processComment token s
     | HTMLComment \<Rightarrow> processComment token s
     | HTMLEndTagOpen \<Rightarrow> process_HTMLEndTagOpen token s
     | HTMLIdentifier \<Rightarrow> process_HTMLIdentifier token s
     | HTMLLiteral \<Rightarrow> process_HTMLLiteral token s
     | HTMLAttrLiteral \<Rightarrow> process_HTMLAttrLiteral token s
     | HTMLQuote \<Rightarrow> process_HTMLQuote token s
     | HTMLRCDataText \<Rightarrow> processText token s
     | HTMLRawText \<Rightarrow> processText token s
     | HTMLSelfClosingTagClose \<Rightarrow> process_HTMLSelfClosingTagClose token s
     | HTMLTagClose \<Rightarrow> process_HTMLTagClose token s
     | HTMLTagOpen \<Rightarrow> process_HTMLTagOpen token s
     | HTMLText \<Rightarrow> processText token s
     | HTMLWhitespace \<Rightarrow> processText token s
     | XMustacheStart \<Rightarrow> process_XMustacheStart token s
     | XMustacheEnd \<Rightarrow> process_XMustacheEnd token s
     | ScriptToken _ \<Rightarrow> Inl (ThrownOther (js ''TypeError'')))"

text \<open>The loop of \<open>IntermediateTokenizer.nextToken\<close>, bounded by fuel, and the function.\<close>

fun intermediateLoop :: "nat \<Rightarrow> nat \<Rightarrow> intermediate_tokenizer \<Rightarrow> token_result" where
  "intermediateLoop fuel 0 s = Inl OutOfFuel"
| "intermediateLoop fuel (Suc n) s =
     (case nextToken fuel (it_tokenizer s) of
        Inl e \<Rightarrow> Inl e
      | Inr (None, tz) \<Rightarrow> Inr (None, s\<lparr>it_tokenizer := tz\<rparr>)
      | Inr (Some token, tz) \<Rightarrow>
          (case processToken token (s\<lparr>it_tokenizer := tz\<rparr>) of
             Inl e \<Rightarrow> Inl e
           | Inr (Some result, s1) \<Rightarrow> Inr (Some result, s1)
           | Inr (None, s1) \<Rightarrow> intermediateLoop fuel n s1))"

definition IntermediateTokenizer_nextToken :: "nat \<Rightarrow> intermediate_tokenizer \<Rightarrow> token_result" where
  "IntermediateTokenizer_nextToken fuel s =
     bindE (intermediateLoop fuel fuel s)
       (\<lambda>(result, s1).
          if result = None \<and> it_currentToken s1 \<noteq> None then commitSome s1
          else Inr (result, s1))"


section \<open>The tree builder (\<open>parser.ts\<close>)\<close>

record xstart_tag =
  xs_range :: offset_range
  xs_loc :: loc_range
  xs_selfClosing :: bool
  xs_attributes :: "xattribute list"

datatype xnode =
    XElement (el_range: offset_range) (el_loc: loc_range) (el_name: jsstring) (el_rawName: jsstring)
      (el_startTag: xstart_tag) (el_children: "xnode list") (el_variables: "variable list")
      (el_endTag: "(offset_range \<times> loc_range) option")
  | XText offset_range loc_range jsstring
  | XMustacheNode xmustache  \<comment> \<open>an \<open>XMustache\<close> among the children of an element\<close>
  | XModule offset_range loc_range "sstatement list" "reference list"

definition nodeRange :: "xnode \<Rightarrow> offset_range" where
  "nodeRange n = (case n of XElement r _ _ _ _ _ _ _ \<Rightarrow> r | XText r _ _ \<Rightarrow> r
     | XMustacheNode m \<Rightarrow> xm_range m | XModule r _ _ _ \<Rightarrow> r)"

definition nodeLoc :: "xnode \<Rightarrow> loc_range" where
  "nodeLoc n = (case n of XElement _ l _ _ _ _ _ _ \<Rightarrow> l | XText _ l _ \<Rightarrow> l
     | XMustacheNode m \<Rightarrow> xm_loc m | XModule _ l _ _ \<Rightarrow> l)"

definition isXElement :: "xnode \<Rightarrow> bool" where
  "isXElement n = (case n of XElement _ _ _ _ _ _ _ _ \<Rightarrow> True | _ \<Rightarrow> False)"

definition setChildren :: "xnode list \<Rightarrow> xnode \<Rightarrow> xnode" where
  "setChildren cs n = (case n of XElement r l nm rn st _ vs e \<Rightarrow> XElement r l nm rn st cs vs e | _ \<Rightarrow> n)"

definition setVariables :: "variable list \<Rightarrow> xnode \<Rightarrow> xnode" where
  "setVariables vs n = (case n of XElement r l nm rn st cs _ e \<Rightarrow> XElement r l nm rn st cs vs e | _ \<Rightarrow> n)"

definition setEndTag :: "(offset_range \<times> loc_range) option \<Rightarrow> xnode \<Rightarrow> xnode" where
  "setEndTag e n = (case n of XElement r l nm rn st cs vs _ \<Rightarrow> XElement r l nm rn st cs vs e | _ \<Rightarrow> n)"

definition setAttributes :: "xattribute list \<Rightarrow> xnode \<Rightarrow> xnode" where
  "setAttributes as n = (case n of
       XElement r l nm rn st cs vs e \<Rightarrow> XElement r l nm rn (st\<lparr>xs_attributes := as\<rparr>) cs vs e
     | _ \<Rightarrow> n)"

record xdocument =
  doc_range :: offset_range
  doc_loc :: loc_range
  doc_children :: "xnode list"
  doc_tokens :: "token list"
  doc_comments :: "token list"
  doc_errors :: "parse_error list"

definition SWAN_CAN_BE_LEFT_OPEN_TAGS :: "jsstring list" where
  "SWAN_CAN_BE_LEFT_OPEN_TAGS = [js ''_'']"

definition SWAN_VOID_ELEMENT_TAGS :: "jsstring list" where
  "SWAN_VOID_ELEMENT_TAGS = [js ''include'']"

definition SWAN_RAWTEXT_TAGS :: "jsstring list" where
  "SWAN_RAWTEXT_TAGS = [js ''filter'', js ''import-sjs'']"

definition SWAN_RCDATA_TAGS :: "jsstring list" where
  "SWAN_RCDATA_TAGS = [js ''textarea'']"

text \<open>
  The state of a \<open>Parser\<close>. \<open>document.tokens\<close>, \<open>document.comments\<close> and \<open>document.errors\<close> are
  the arrays of the intermediate tokenizer and of the tokenizer: they are read from there. The
  location calculator was made from the arrays \<open>gaps\<close> and \<open>lineTerminators\<close> of the tokenizer
  and is read from there too. An element of \<open>elementStack\<close> (innermost last) is one object with
  the child of its parent; here it is written among the children of its parent when it is
  popped, the time from which on the source reads it there.
\<close>

record parser =
  ps_tokenizer :: intermediate_tokenizer
  ps_parserOptions :: parser_options
  ps_documentRange :: offset_range
  ps_documentLoc :: loc_range
  ps_documentChildren :: "xnode list"
  ps_elementStack :: "xnode list"

definition new_Parser :: "tokenizer \<Rightarrow> parser_options \<Rightarrow> parser" where
  "new_Parser tokenizer parserOptions =
     \<lparr>ps_tokenizer = new_IntermediateTokenizer (tokenizer\<lparr>tz_expressionEnabled := True\<rparr>),
      ps_parserOptions = parserOptions,
      ps_documentRange = (0, 0), ps_documentLoc = ((1, 0), (1, 0)),
      ps_documentChildren = [], ps_elementStack = []\<rparr>"

definition locationCalculator :: "parser \<Rightarrow> location_calculator" where
  "locationCalculator p =
     new_LocationCalculator (tz_gaps (it_tokenizer (ps_tokenizer p)))
       (tz_lineTerminators (it_tokenizer (ps_tokenizer p)))"

definition documentInfo :: "parser \<Rightarrow> docinfo" where
  "documentInfo p =
     \<lparr>d_tokens = it_tokens (ps_tokenizer p), d_comments = it_comments (ps_tokenizer p),
      d_errors = tz_errors (it_tokenizer (ps_tokenizer p))\<rparr>"

definition setDocumentInfo :: "docinfo option \<Rightarrow> parser \<Rightarrow> parser" where
  "setDocumentInfo document p = (case document of None \<Rightarrow> p
     | Some d \<Rightarrow> p\<lparr>ps_tokenizer := (ps_tokenizer p)
          \<lparr>it_tokens := d_tokens d, it_comments := d_comments d,
           it_tokenizer := (it_tokenizer (ps_tokenizer p))\<lparr>tz_errors := d_errors d\<rparr>\<rparr>\<rparr>)"

definition setExpressionEnabled :: "bool \<Rightarrow> parser \<Rightarrow> parser" where
  "setExpressionEnabled b p =
     p\<lparr>ps_tokenizer := (ps_tokenizer p)
          \<lparr>it_tokenizer := (it_tokenizer (ps_tokenizer p))\<lparr>tz_expressionEnabled := b\<rparr>\<rparr>\<rparr>"

definition setTokenizerState :: "tokenizer_state \<Rightarrow> parser \<Rightarrow> parser" where
  "setTokenizerState st p =
     p\<lparr>ps_tokenizer := (ps_tokenizer p)
          \<lparr>it_tokenizer := (it_tokenizer (ps_tokenizer p))\<lparr>tz_state := st\<rparr>\<rparr>\<rparr>"

definition Parser_reportParseError :: "offset_range \<Rightarrow> loc_range \<Rightarrow> jsstring \<Rightarrow> parser \<Rightarrow> parser" where
  "Parser_reportParseError rng loc code p =
     setDocumentInfo (pushError rng loc code (Some (documentInfo p))) p"

text \<open>\<open>parent.children.push(node)\<close> for the current node.\<close>

definition pushChild :: "xnode \<Rightarrow> parser \<Rightarrow> parser" where
  "pushChild node p =
     (if ps_elementStack p = [] then p\<lparr>ps_documentChildren := ps_documentChildren p @ [node]\<rparr>
      else p\<lparr>ps_elementStack := butlast (ps_elementStack p)
                @ [setChildren (el_children (last (ps_elementStack p)) @ [node])
                     (last (ps_elementStack p))]\<rparr>)"

definition propagateEndLocation :: "xnode \<Rightarrow> xnode" where
  "propagateEndLocation node = (case node of
       XElement r l nm rn st cs vs e \<Rightarrow>
         (case e of
            Some (er, el) \<Rightarrow> XElement (fst r, snd er) (fst l, snd el) nm rn st cs vs e
          | None \<Rightarrow> if cs = [] then node
                    else XElement (fst r, snd (nodeRange (last cs))) (fst l, snd (nodeLoc (last cs)))
                           nm rn st cs vs e)
     | _ \<Rightarrow> node)"

definition popElementStack :: "parser \<Rightarrow> thrown + parser" where
  "popElementStack p =
     (if ps_elementStack p = [] then Inl (ThrownOther (js ''AssertionError''))
      else (let element = propagateEndLocation (last (ps_elementStack p));
                p1 = pushChild element (p\<lparr>ps_elementStack := butlast (ps_elementStack p)\<rparr>);
                p2 = (if el_endTag element = None \<and> po_noOpenTag (ps_parserOptions p1)
                      then Parser_reportParseError (xs_range (el_startTag element))
                             (xs_loc (el_startTag element)) (js ''missing-end-tag'') p1
                      else p1)
            in Inr (if ps_elementStack p2 = [] then setExpressionEnabled False p2 else p2)))"

function popElementStackUntil :: "nat \<Rightarrow> parser \<Rightarrow> thrown + parser" where
  "popElementStackUntil index p =
     (if length (ps_elementStack p) > index
      then (case popElementStack p of Inl e \<Rightarrow> Inl e
            | Inr p1 \<Rightarrow> popElementStackUntil index p1)
      else Inr p)"
  by pat_completeness auto
termination
  by (relation "measure (\<lambda>(index, p). length (ps_elementStack p))")
     (auto simp: popElementStack_def pushChild_def Let_def Parser_reportParseError_def
        setDocumentInfo_def setExpressionEnabled_def length_greater_0_conv[symmetric]
        simp del: length_greater_0_conv split: if_splits option.splits)

declare popElementStackUntil.simps [simp del]

definition closeCurrentElementIfNecessary :: "jsstring \<Rightarrow> parser \<Rightarrow> thrown + parser" where
  "closeCurrentElementIfNecessary name p =
     (if ps_elementStack p = [] then Inr p
      else if el_name (last (ps_elementStack p)) = name \<and> name \<in> set SWAN_CAN_BE_LEFT_OPEN_TAGS
      then popElementStack p
      else Inr p)"

text \<open>The \<open>variables\<close> of the elements that enclose a node, from the innermost outwards, and
  their write-back after a function of the language layer has run.\<close>

definition scopesOf :: "xnode list \<Rightarrow> variable list list" where
  "scopesOf stack = map el_variables (rev stack)"

definition setScopes :: "variable list list \<Rightarrow> xnode list \<Rightarrow> xnode list" where
  "setScopes scopes stack = rev (map (\<lambda>(vs, n). setVariables vs n) (zip scopes (rev stack)))"

fun processAttributes ::
  "script_backend \<Rightarrow> parser_options \<Rightarrow> location_calculator \<Rightarrow> xattribute list \<Rightarrow> node_context
     \<Rightarrow> thrown + xattribute list \<times> node_context" where
  "processAttributes be po lc [] ctx = Inr ([], ctx)"
| "processAttributes be po lc (a # as) ctx =
     bindE (processAttribute be po lc a ctx)
       (\<lambda>(a', ctx'). bindE (processAttributes be po lc as ctx')
          (\<lambda>(as', ctx''). Inr (a' # as', ctx'')))"

text \<open>\<open>Parser.StartTag\<close> after the attributes have been processed (\<open>ctx'\<close> holds the
  document and the \<open>variables\<close> as \<open>processAttribute\<close> left them).\<close>

definition openElement :: "start_tag \<Rightarrow> xattribute list \<Rightarrow> node_context \<Rightarrow> parser \<Rightarrow> parser" where
  "openElement token attributes ctx' p =
     (let element = XElement (st_range token) (st_loc token) (st_name token) (st_rawName token)
            \<lparr>xs_range = st_range token, xs_loc = st_loc token,
             xs_selfClosing = st_selfClosing token, xs_attributes = attributes\<rparr>
            [] (hd (cx_scopes ctx')) None;
          p1 = setDocumentInfo (cx_document ctx')
                 (p\<lparr>ps_elementStack := setScopes (tl (cx_scopes ctx')) (ps_elementStack p)\<rparr>);
          isVoid = (st_name token \<in> set SWAN_VOID_ELEMENT_TAGS);
          p2 = (if \<not> st_selfClosing token \<and> isVoid
                then Parser_reportParseError (st_range token) (st_loc token)
                       (js ''non-void-html-element-start-tag-with-trailing-solidus'') p1
                else p1)
      in if st_selfClosing token \<or> isVoid
         then setExpressionEnabled True (pushChild element p2)
         else (let parentIsDocument = (ps_elementStack p2 = []);
                   p3 = p2\<lparr>ps_elementStack := ps_elementStack p2 @ [element]\<rparr>;
                   p4 = (if parentIsDocument then setExpressionEnabled True p3 else p3);
                   p5 = (if st_name token \<in> set SWAN_RCDATA_TAGS
                         then setTokenizerState RCDATA p4 else p4)
               in if st_name token \<in> set SWAN_RAWTEXT_TAGS
                  then setTokenizerState RAWTEXT p5 else p5))"

definition Parser_StartTag :: "script_backend \<Rightarrow> start_tag \<Rightarrow> parser \<Rightarrow> thrown + parser" where
  "Parser_StartTag be token p0 =
     bindE (closeCurrentElementIfNecessary (st_name token) p0)
       (\<lambda>p. bindE (processAttributes be (ps_parserOptions p) (locationCalculator p)
                      (st_attributes token)
                      \<lparr>cx_document = Some (documentInfo p),
                       cx_scopes = [] # scopesOf (ps_elementStack p)\<rparr>)
               (\<lambda>(attributes, ctx'). Inr (openElement token attributes ctx' p)))"

text \<open>\<open>String.prototype.toLowerCase\<close>, on the upper-case letters of the Basic Latin, Latin-1
  Supplement and Cyrillic blocks, each of which is one UTF-16 unit and has a one-unit
  lower-case form whatever stands around it: a tag name with an upper-case letter of another
  block is outside the model.\<close>

definition lowerCaseUnit :: "int \<Rightarrow> int" where
  "lowerCaseUnit c =
     (if 65 \<le> c \<and> c \<le> 90 then c + 32
      else if 192 \<le> c \<and> c \<le> 222 \<and> c \<noteq> 215 then c + 32
      else if 1024 \<le> c \<and> c \<le> 1039 then c + 80
      else if 1040 \<le> c \<and> c \<le> 1071 then c + 32
      else c)"

definition toLowerCase :: "jsstring \<Rightarrow> jsstring" where
  "toLowerCase s = map lowerCaseUnit s"

text \<open>\<open>findLastIndex(this.elementStack, el => el.name.toLowerCase() === token.name)\<close>\<close>

fun findLastIndex :: "('a \<Rightarrow> bool) \<Rightarrow> 'a list \<Rightarrow> nat option" where
  "findLastIndex f [] = None"
| "findLastIndex f (x # xs) = (case findLastIndex f xs of
       Some i \<Rightarrow> Some (Suc i)
     | None \<Rightarrow> if f x then Some 0 else None)"

definition Parser_EndTag :: "end_tag \<Rightarrow> parser \<Rightarrow> thrown + parser" where
  "Parser_EndTag token p =
     (case findLastIndex (\<lambda>el. toLowerCase (el_name el) = et_name token) (ps_elementStack p) of
        None \<Rightarrow> Inr (Parser_reportParseError (et_range token) (et_loc token)
                      (js ''x-invalid-end-tag'') p)
      | Some i \<Rightarrow>
          popElementStackUntil i
            (p\<lparr>ps_elementStack := (ps_elementStack p)
                  [i := setEndTag (Some (et_range token, et_loc token)) (ps_elementStack p ! i)]\<rparr>))"

text \<open>\<open>processScriptModule\<close> and \<open>parseScriptElement\<close>, for an element and the document it
  belongs to.\<close>

definition parseScriptElement ::
  "script_backend \<Rightarrow> xnode \<Rightarrow> location_calculator \<Rightarrow> script_options
     \<Rightarrow> thrown + script_program \<times> offset_range \<times> loc_range" where
  "parseScriptElement be node globalLocationCalculator parserOptions =
     (let textNode = (case el_children node of [] \<Rightarrow> None | c # _ \<Rightarrow> Some c);
          offset = (case textNode of Some (XText r _ _) \<Rightarrow> fst r
                    | _ \<Rightarrow> snd (xs_range (el_startTag node)));
          code = (case textNode of Some (XText _ _ v) \<Rightarrow> v | _ \<Rightarrow> [])
      in bindE (parseScriptFragment be code
                  (getSubCalculatorAfter globalLocationCalculator offset) parserOptions)
           (\<lambda>result. case textNode of
                None \<Rightarrow> Inl (ThrownOther (js ''TypeError''))
              | Some c \<Rightarrow> Inr (result, nodeRange c, nodeLoc c)))"

definition processScriptModule ::
  "script_backend \<Rightarrow> script_options \<Rightarrow> location_calculator \<Rightarrow> xnode \<Rightarrow> docinfo option
     \<Rightarrow> thrown + xnode \<times> docinfo option" where
  "processScriptModule be rawParserOptions globalLocationCalculator node document =
     (let parserOptions = rawParserOptions
            \<lparr>so_tokens := (case so_tokens rawParserOptions of None \<Rightarrow> Some True | Some b \<Rightarrow> Some b),
             so_comment := (case so_comment rawParserOptions of None \<Rightarrow> Some True | Some b \<Rightarrow> Some b)\<rparr>
      in case parseScriptElement be node globalLocationCalculator parserOptions of
           Inr (ast, rng, loc) \<Rightarrow>
             (let references = be_analyzeExternalReferences be ast parserOptions;
                  moduleContainer = XModule rng loc (sp_body ast) references;
                  node1 = setChildren (moduleContainer # tl (el_children node)) node;
                  document1 = (case sp_tokens ast of
                                 Some (t # ts) \<Rightarrow> replaceTokens document rng (t # ts)
                               | _ \<Rightarrow> document)
              in Inr (node1, insertComments document1
                               (case sp_comments ast of None \<Rightarrow> [] | Some cs \<Rightarrow> cs)))
         | Inl e \<Rightarrow> (case e of
              ThrownParseError pe \<Rightarrow> Inr (node, insertError document pe)
            | _ \<Rightarrow> Inl e))"

definition hasSrc :: "xnode \<Rightarrow> bool" where
  "hasSrc node = list_ex (\<lambda>attr. key_name (at_key attr) = js ''src'') (xs_attributes (el_startTag node))"

definition Parser_Text :: "script_backend \<Rightarrow> text_chunk \<Rightarrow> parser \<Rightarrow> thrown + parser" where
  "Parser_Text be token p0 =
     (let p = pushChild (XText (tx_range token) (tx_loc token) (tx_value token)) p0
      in if ps_elementStack p = [] then Inr p
         else (let parent = last (ps_elementStack p)
               in if (el_name parent = js ''import-sjs'' \<or> el_name parent = js ''filter'')
                     \<and> (case el_children parent of XText _ _ _ # _ \<Rightarrow> True | _ \<Rightarrow> False)
                     \<and> \<not> hasSrc parent
                  then bindE (processScriptModule be (po_script (ps_parserOptions p))
                                (locationCalculator p) parent (Some (documentInfo p)))
                         (\<lambda>(parent1, document).
                            Inr (setDocumentInfo document
                                   (p\<lparr>ps_elementStack := butlast (ps_elementStack p) @ [parent1]\<rparr>)))
                  else Inr p))"

definition Parser_Mustache :: "script_backend \<Rightarrow> mustache \<Rightarrow> parser \<Rightarrow> thrown + parser" where
  "Parser_Mustache be token p =
     (let mustacheNode = \<lparr>xm_range = mu_range token, xm_loc = mu_loc token,
                          xm_startToken = mu_startToken token, xm_endToken = mu_endToken token,
                          xm_value = None\<rparr>;
          ctx = \<lparr>cx_document = Some (documentInfo p), cx_scopes = scopesOf (ps_elementStack p)\<rparr>
      in bindE (processMustache be (po_script (ps_parserOptions p)) (locationCalculator p)
                  (if ps_elementStack p = [] then ParentDocument else ParentElement)
                  mustacheNode token ctx)
           (\<lambda>(mustacheNode1, ctx').
              Inr (pushChild (XMustacheNode mustacheNode1)
                     (setDocumentInfo (cx_document ctx')
                        (p\<lparr>ps_elementStack := setScopes (cx_scopes ctx') (ps_elementStack p)\<rparr>)))))"

text \<open>\<open>this[token.type](token)\<close>, the loop of \<open>parse\<close> bounded by fuel, and \<open>parse\<close>.\<close>

definition handleToken :: "script_backend \<Rightarrow> intermediate_token \<Rightarrow> parser \<Rightarrow> thrown + parser" where
  "handleToken be token p = (case token of
       StartTag t \<Rightarrow> Parser_StartTag be t p
     | EndTag t \<Rightarrow> Parser_EndTag t p
     | Text t \<Rightarrow> Parser_Text be t p
     | MustacheToken t \<Rightarrow> Parser_Mustache be t p)"

fun parseLoop :: "script_backend \<Rightarrow> nat \<Rightarrow> nat \<Rightarrow> parser \<Rightarrow> thrown + parser" where
  "parseLoop be fuel 0 p = Inl OutOfFuel"
| "parseLoop be fuel (Suc n) p =
     (case IntermediateTokenizer_nextToken fuel (ps_tokenizer p) of
        Inl e \<Rightarrow> Inl e
      | Inr (None, it) \<Rightarrow> Inr (p\<lparr>ps_tokenizer := it\<rparr>)
      | Inr (Some token, it) \<Rightarrow>
          (case handleToken be token (p\<lparr>ps_tokenizer := it\<rparr>) of
             Inl e \<Rightarrow> Inl e
           | Inr p1 \<Rightarrow> parseLoop be fuel n p1))"

text \<open>The end of \<open>parse\<close>: \<open>propagateEndLocation(this.document)\<close>, and the document with
  the arrays it shares with the tokenizers.\<close>

definition finishDocument :: "parser \<Rightarrow> xdocument" where
  "finishDocument p =
     \<lparr>doc_range = (if ps_documentChildren p = [] then ps_documentRange p
                   else (fst (ps_documentRange p), snd (nodeRange (last (ps_documentChildren p))))),
      doc_loc = (if ps_documentChildren p = [] then ps_documentLoc p
                 else (fst (ps_documentLoc p), snd (nodeLoc (last (ps_documentChildren p))))),
      doc_children = ps_documentChildren p,
      doc_tokens = it_tokens (ps_tokenizer p),
      doc_comments = it_comments (ps_tokenizer p),
      doc_errors = tz_errors (it_tokenizer (ps_tokenizer p))\<rparr>"

definition Parser_parse :: "script_backend \<Rightarrow> nat \<Rightarrow> parser \<Rightarrow> thrown + xdocument" where
  "Parser_parse be fuel p0 =
     bindE (parseLoop be fuel fuel p0)
       (\<lambda>p1. bindE (popElementStackUntil 0 p1) (\<lambda>p. Inr (finishDocument p)))"

section \<open>The entry point (\<open>index.ts\<close>)\<close>

record raw_parser_options =
  ro_noOpenTag :: "bool option"
  ro_parseExpression :: "bool option"
  ro_script :: "script_options option"

definition resolveParserOptions :: "raw_parser_options \<Rightarrow> parser_options" where
  "resolveParserOptions options =
     \<lparr>po_noOpenTag = (case ro_noOpenTag options of None \<Rightarrow> False | Some b \<Rightarrow> b),
      po_parseExpression = ro_parseExpression options,
      po_script = (case ro_script options of None \<Rightarrow> defaultScriptOptions | Some s \<Rightarrow> s)\<rparr>"

definition parse :: "script_backend \<Rightarrow> nat \<Rightarrow> jsstring \<Rightarrow> raw_parser_options \<Rightarrow> thrown + xdocument" where
  "parse be fuel code options =
     Parser_parse be fuel (new_Parser (new_Tokenizer code) (resolveParserOptions options))"

section \<open>Notions used in the statements about \<open>s-for\<close>\<close>







section \<open>Notions used in the statements about mustaches\<close>

text \<open>What espree returns for the two object literals of the examples.\<close>

definition objectExampleBackend :: script_backend where
  "objectExampleBackend = tableBackend
     [(js ''0({a:1,b:2})'', Inr (callProgram 12
         [Some (scriptNode (OtherNode (js ''ObjectExpression'')) 2 11
            [Some (scriptNode (OtherNode (js ''Property'')) 3 6
                     [Some (scriptNode (OtherNode (js ''Literal'')) 5 6 [])]),
             Some (scriptNode (OtherNode (js ''Property'')) 7 10
                     [Some (scriptNode (OtherNode (js ''Literal'')) 9 10 [])])])]
         [scriptToken ''Numeric'' ''0'' 0 1, scriptToken ''Punctuator'' ''('' 1 2,
          scriptToken ''Punctuator'' ''{'' 2 3, scriptToken ''Identifier'' ''a'' 3 4,
          scriptToken ''Punctuator'' '':'' 4 5, scriptToken ''Numeric'' ''1'' 5 6,
          scriptToken ''Punctuator'' '','' 6 7, scriptToken ''Identifier'' ''b'' 7 8,
          scriptToken ''Punctuator'' '':'' 8 9, scriptToken ''Numeric'' ''2'' 9 10,
          scriptToken ''Punctuator'' ''}'' 10 11, scriptToken ''Punctuator'' '')'' 11 12])),
      (js ''0({a: b in list})'', Inr (callProgram 17
         [Some (scriptNode (OtherNode (js ''ObjectExpression'')) 2 16
            [Some (scriptNode (OtherNode (js ''Property'')) 3 15
                     [Some (scriptNode (OtherNode (js ''BinaryExpression'')) 6 15
                        [Some (scriptNode (Identifier (js ''b'')) 6 7 []),
                         Some (scriptNode (Identifier (js ''list'')) 11 15 [])])])])]
         [scriptToken ''Numeric'' ''0'' 0 1, scriptToken ''Punctuator'' ''('' 1 2,
          scriptToken ''Punctuator'' ''{'' 2 3, scriptToken ''Identifier'' ''a'' 3 4,
          scriptToken ''Punctuator'' '':'' 4 5, scriptToken ''Identifier'' ''b'' 6 7,
          scriptToken ''Keyword'' ''in'' 8 10, scriptToken ''Identifier'' ''list'' 11 15,
          scriptToken ''Punctuator'' ''}'' 15 16, scriptToken ''Punctuator'' '')'' 16 17]))]"

text \<open>The mustaches of \<open><view style="{{a:1,b:2}}"/>\<close> and of
  \<open><view s-for="{{a: b in list}}"></view>\<close>, and the node \<open>Parser.processAttribute\<close> makes for
  a mustache.\<close>

definition styleMustache :: mustache where
  "styleMustache =
     \<lparr>mu_range = (13, 24), mu_loc = ((1, 13), (1, 24)), mu_value = js ''a:1,b:2'',
      mu_startToken = rawToken XMustacheStart ''{{'' 13 15,
      mu_endToken = rawToken XMustacheEnd ''}}'' 22 24\<rparr>"

definition forMustache :: mustache where
  "forMustache =
     \<lparr>mu_range = (13, 29), mu_loc = ((1, 13), (1, 29)), mu_value = js ''a: b in list'',
      mu_startToken = rawToken XMustacheStart ''{{'' 13 15,
      mu_endToken = rawToken XMustacheEnd ''}}'' 27 29\<rparr>"

definition mustacheNode :: "mustache \<Rightarrow> xmustache" where
  "mustacheNode m =
     \<lparr>xm_range = mu_range m, xm_loc = mu_loc m, xm_startToken = mu_startToken m,
      xm_endToken = mu_endToken m, xm_value = None\<rparr>"

section \<open>Notions used in the statements about whole parses\<close>

text \<open>The options of a caller that sets none.\<close>

definition noOptions :: raw_parser_options where
  "noOptions = \<lparr>ro_noOpenTag = None, ro_parseExpression = None, ro_script = None\<rparr>"

text \<open>What a caller sees of a parse: the messages of the errors with their offsets, and the
  children of the document.\<close>

definition outcome :: "thrown + xdocument \<Rightarrow> ((jsstring \<times> int) list \<times> xnode list) option" where
  "outcome r = (case r of Inl e \<Rightarrow> None
     | Inr d \<Rightarrow> Some (map (\<lambda>e. (pe_message e, pe_index e)) (doc_errors d), doc_children d))"

definition viewElement :: "int \<Rightarrow> xnode list \<Rightarrow> xnode" where
  "viewElement e children =
     XElement (0, e) ((1, 0), (1, e)) (js ''view'') (js ''view'')
       \<lparr>xs_range = (0, 6), xs_loc = ((1, 0), (1, 6)), xs_selfClosing = False, xs_attributes = []\<rparr>
       children [] None"

text \<open>The value of the first attribute of the first element of a document.\<close>

definition firstAttributeValue :: "thrown + xdocument \<Rightarrow> piece list option" where
  "firstAttributeValue r = (case r of
       Inr d \<Rightarrow> (case doc_children d of
           XElement _ _ _ _ startTag _ _ _ # _ \<Rightarrow>
             (case xs_attributes startTag of a # _ \<Rightarrow> Some (at_value a) | [] \<Rightarrow> None)
         | _ \<Rightarrow> None)
     | Inl e \<Rightarrow> None)"



text \<open>A parser whose option \<open>parseExpression\<close> has been set.\<close>

definition withParseExpression :: "bool option \<Rightarrow> parser \<Rightarrow> parser" where
  "withParseExpression x p = p\<lparr>ps_parserOptions := (ps_parserOptions p)\<lparr>po_parseExpression := x\<rparr>\<rparr>"

section \<open>Notions used in the statements about variables\<close>

text \<open>No element of a tree has a variable; no scope has one; both hold of the elements a parser
  has built or is building.\<close>

fun noVariables :: "xnode \<Rightarrow> bool" where
  "noVariables (XElement r l n rn st cs vs e) = (vs = [] \<and> list_all noVariables cs)"
| "noVariables (XText r l v) = True"
| "noVariables (XMustacheNode m) = True"
| "noVariables (XModule r l b rs) = True"

definition emptyScopes :: "variable list list \<Rightarrow> bool" where
  "emptyScopes scopes = list_all (\<lambda>vs. vs = []) scopes"

definition parserInvariant :: "parser \<Rightarrow> bool" where
  "parserInvariant p \<longleftrightarrow> list_all noVariables (ps_documentChildren p)
     \<and> list_all (\<lambda>n. isXElement n \<and> noVariables n) (ps_elementStack p)"

text \<open>The number of references that the variables of all scopes hold.\<close>

definition referenceCount :: "variable list list \<Rightarrow> nat" where
  "referenceCount scopes = sum_list (map (\<lambda>vars. sum_list (map (\<lambda>v. length (v_references v)) vars)) scopes)"

text \<open>What espree returns for the two texts of \<open>s-for="item in list"\<close>, and the name of the
  \<open>left\<close> of the \<open>SwanForExpression\<close> in a piece of a directive value.\<close>

definition forItemBackend :: script_backend where
  "forItemBackend = tableBackend
     [(js ''0([item])'', Inr (callProgram 9
         [Some (scriptNode ArrayExpression 2 8 [Some (scriptNode (Identifier (js ''item'')) 3 7 [])])]
         [scriptToken ''Numeric'' ''0'' 0 1, scriptToken ''Punctuator'' ''('' 1 2,
          scriptToken ''Punctuator'' ''['' 2 3, scriptToken ''Identifier'' ''item'' 3 7,
          scriptToken ''Punctuator'' '']'' 7 8, scriptToken ''Punctuator'' '')'' 8 9])),
      (js ''0(list)'', Inr (callProgram 7
         [Some (scriptNode (Identifier (js ''list'')) 2 6 [])]
         [scriptToken ''Numeric'' ''0'' 0 1, scriptToken ''Punctuator'' ''('' 1 2,
          scriptToken ''Identifier'' ''list'' 2 6, scriptToken ''Punctuator'' '')'' 6 7]))]"

definition forLeftName :: "piece \<Rightarrow> jsstring option" where
  "forLeftName p = (case p of
       XExpression e \<Rightarrow> (case xe_expression e of
           SwanForExpression f \<Rightarrow> (case sf_left f of
               Some (SNode (Identifier n) _ _ _) \<Rightarrow> Some n
             | _ \<Rightarrow> None)
         | _ \<Rightarrow> None)
     | _ \<Rightarrow> None)"

section \<open>Errors are only ever added\<close>


lemma errorsKept_refl: "errorsKept x x"
  by (simp add: errorsKept_def split: option.splits)

lemma errorsKept_trans: "errorsKept x y \<Longrightarrow> errorsKept y z \<Longrightarrow> errorsKept x z"
  by (auto simp: errorsKept_def split: option.splits)

lemma replaceTokens_errorsKept: "errorsKept x (replaceTokens x r ts)"
  by (simp add: errorsKept_def replaceTokens_def Let_def split: option.splits)

lemma set_splice_insert: "set (splice xs i 0 ys) = set xs \<union> set ys"
proof -
  have "set (take i xs) \<union> set (drop i xs) = set xs"
    by (metis append_take_drop_id set_append)
  then show ?thesis by (auto simp: splice_def)
qed

lemma insertError_errorsKept: "errorsKept x (insertError x e)"
  by (auto simp: errorsKept_def insertError_def Let_def set_splice_insert split: option.splits)

lemma updateTokenObject_errorsKept: "errorsKept x (updateTokenObject a b x)"
  by (simp add: errorsKept_def updateTokenObject_def split: option.splits)

lemma pushError_errorsKept: "errorsKept x (pushError r l c x)"
  by (auto simp: errorsKept_def pushError_def split: option.splits)

lemma applyExpressionResult_errorsKept:
  "applyExpressionResult node rng ret ctx = (n, ctx') \<Longrightarrow> errorsKept (cx_document ctx) (cx_document ctx')"
  by (auto simp: applyExpressionResult_def Let_def replaceTokens_errorsKept errorsKept_refl split: prod.splits if_splits)

lemma processExpression_errorsKept:
  "processExpression be so lc node code ctx = Inr (n, ctx') \<Longrightarrow> errorsKept (cx_document ctx) (cx_document ctx')"
  unfolding processExpression_def Let_def
  by (auto simp: replaceTokens_errorsKept insertError_errorsKept dest: applyExpressionResult_errorsKept
      split: option.splits prod.splits sum.splits thrown.splits if_splits)

lemma processForExpression_errorsKept:
  "processForExpression be so lc node code ctx = Inr (n, ctx') \<Longrightarrow> errorsKept (cx_document ctx) (cx_document ctx')"
  unfolding processForExpression_def Let_def
  by (auto simp: replaceTokens_errorsKept insertError_errorsKept errorsKept_refl
      split: option.splits prod.splits sum.splits thrown.splits if_splits)

lemma processMustache_errorsKept:
  "processMustache be so lc parent node m ctx = Inr (n, ctx') \<Longrightarrow> errorsKept (cx_document ctx) (cx_document ctx')"
  unfolding processMustache_def Let_def bindE_def
  by (auto simp: errorsKept_refl
      dest!: processExpression_errorsKept processForExpression_errorsKept
      intro: errorsKept_trans[OF errorsKept_trans[OF updateTokenObject_errorsKept updateTokenObject_errorsKept]]
      split: sum.splits prod.splits if_splits)

lemma processValues_errorsKept:
  "processValues be so lc parent ps ctx = Inr (ps', ctx') \<Longrightarrow> errorsKept (cx_document ctx) (cx_document ctx')"
proof (induction ps arbitrary: ctx ps' ctx')
  case Nil
  then show ?case by (simp add: errorsKept_refl)
next
  case (Cons p ps)
  from Cons.prems obtain p1 ctx1 ps1 where
    h1: "(case p of Mustache m \<Rightarrow>
                bindE (processMustache be so lc parent
                         \<lparr>xm_range = mu_range m, xm_loc = mu_loc m, xm_startToken = mu_startToken m,
                          xm_endToken = mu_endToken m, xm_value = None\<rparr> m ctx)
                  (\<lambda>(mustacheNode, ctx'). Inr (XMustache mustacheNode, ctx'))
            | _ \<Rightarrow> Inr (p, ctx)) = Inr (p1, ctx1)"
    and h2: "processValues be so lc parent ps ctx1 = Inr (ps1, ctx')"
    by (auto simp: bindE_def split: sum.splits prod.splits)
  from h1 have "errorsKept (cx_document ctx) (cx_document ctx1)"
    by (auto simp: bindE_def errorsKept_refl dest: processMustache_errorsKept split: piece.splits sum.splits prod.splits)
  with Cons.IH[OF h2] show ?case by (blast intro: errorsKept_trans)
qed

lemma pushError_member:
  "cx_document ctx = Some d \<Longrightarrow>
   \<exists>d'. pushError r l c (cx_document ctx) = Some d'
      \<and> fromCode c (fst r) (fst (fst l)) (snd (fst l)) \<in> set (d_errors d')"
  by (simp add: pushError_def)

section \<open>C10: an attribute that looks like a directive but is none\<close>

text \<open>
  Claim C10. For every start-tag attribute whose key name begins with \<open>s-\<close> or \<open>bind:\<close> but does
  not match the directive pattern (a one-letter name such as \<open>s-a\<close> or \<open>bind:a\<close>),
  \<open>processAttribute\<close>, when it returns, has reported a parse error whose code and message are
  \<open>x-invalid-directive\<close> and whose index, line and column are those of the start of the key,
  and the node is still of the type it had (a plain \<open>XAttribute\<close>), with its key untouched:
  it was not converted to an \<open>XDirective\<close>.
\<close>

theorem invalid_directive_reported:
  assumes pre: "startsWith (key_name (at_key node)) (js ''s-'')
              \<or> startsWith (key_name (at_key node)) (js ''bind:'')"
    and nomatch: "\<not> DIRECTIVE_NAME_test (key_name (at_key node))"
    and doc: "cx_document ctx = Some d"
    and run: "processAttribute be parserOptions lc node ctx = Inr (node', ctx')"
  shows "at_type node' = at_type node \<and> at_key node' = at_key node
       \<and> (\<exists>d'. cx_document ctx' = Some d'
             \<and> \<lparr>pe_message = js ''x-invalid-directive'',
                 pe_code = Some (js ''x-invalid-directive''),
                 pe_index = fst (key_range (at_key node)),
                 pe_lineNumber = fst (fst (key_loc (at_key node))),
                 pe_column = snd (fst (key_loc (at_key node))),
                 pe_offset = None\<rparr> \<in> set (d_errors d'))"
proof -
  let ?e = "\<lparr>pe_message = js ''x-invalid-directive'',
                 pe_code = Some (js ''x-invalid-directive''),
                 pe_index = fst (key_range (at_key node)),
                 pe_lineNumber = fst (fst (key_loc (at_key node))),
                 pe_column = snd (fst (key_loc (at_key node))),
                 pe_offset = None\<rparr>"
  let ?ctx1 = "ctx\<lparr>cx_document := pushError (key_range (at_key node)) (key_loc (at_key node))
                              (js ''x-invalid-directive'') (cx_document ctx)\<rparr>"
  from run pre nomatch obtain vs where
    vals: "processValues be (po_script parserOptions) lc (attributeParent node) (at_value node) ?ctx1
             = Inr (vs, ctx')"
    and node': "node' = node\<lparr>at_value := vs\<rparr>"
    by (auto simp: processAttribute_def Let_def bindE_def split: sum.splits prod.splits)
  let ?d1 = "d\<lparr>d_errors := d_errors d @ [?e]\<rparr>"
  have d1: "cx_document ?ctx1 = Some ?d1"
    by (simp add: pushError_def doc fromCode_def new_ParseError_def)
  have mem: "?e \<in> set (d_errors ?d1)"
    by simp
  from processValues_errorsKept[OF vals] d1 mem have
    "\<exists>d'. cx_document ctx' = Some d' \<and> ?e \<in> set (d_errors d')"
    by (auto simp: errorsKept_def split: option.splits)
  with node' show ?thesis by simp
qed

theorem invalid_directive_reported_witness:
  "startsWith (js ''s-a'') (js ''s-'') \<and> \<not> DIRECTIVE_NAME_test (js ''s-a'')
   \<and> \<not> DIRECTIVE_NAME_test (js ''bind:a'')
   \<and> (\<exists>node' ctx' d'.
        processAttribute (tableBackend [])
          \<lparr>po_noOpenTag = False, po_parseExpression = None, po_script = defaultScriptOptions\<rparr>
          (new_LocationCalculator [] [])
          \<lparr>at_type = XAttribute, at_range = (6, 13), at_loc = ((1, 6), (1, 13)),
           at_key = XIdentifier (js ''s-a'') (js ''s-a'') (6, 9) ((1, 6), (1, 9)),
           at_value = [XLiteral (11, 12) ((1, 11), (1, 12)) (js ''x'')]\<rparr>
          \<lparr>cx_document = Some emptyDocinfo, cx_scopes = [[]]\<rparr> = Inr (node', ctx')
        \<and> at_type node' = XAttribute
        \<and> at_key node' = XIdentifier (js ''s-a'') (js ''s-a'') (6, 9) ((1, 6), (1, 9))
        \<and> cx_document ctx' = Some d'
        \<and> \<lparr>pe_message = js ''x-invalid-directive'',
            pe_code = Some (js ''x-invalid-directive''),
            pe_index = 6, pe_lineNumber = 1, pe_column = 6, pe_offset = None\<rparr>
             \<in> set (d_errors d'))"
proof -
  let ?node = "\<lparr>at_type = XAttribute, at_range = (6, 13), at_loc = ((1, 6), (1, 13)),
           at_key = XIdentifier (js ''s-a'') (js ''s-a'') (6, 9) ((1, 6), (1, 9)),
           at_value = [XLiteral (11, 12) ((1, 11), (1, 12)) (js ''x'')]\<rparr>"
  let ?ctx = "\<lparr>cx_document = Some emptyDocinfo, cx_scopes = [[]]\<rparr>"
  let ?po = "\<lparr>po_noOpenTag = False, po_parseExpression = None, po_script = defaultScriptOptions\<rparr>"
  have pre: "startsWith (key_name (at_key ?node)) (js ''s-'')
           \<or> startsWith (key_name (at_key ?node)) (js ''bind:'')"
    by (simp add: startsWith_def js_def)
  have nomatch: "\<not> DIRECTIVE_NAME_test (key_name (at_key ?node))"
    by (simp add: DIRECTIVE_NAME_test_def DIRECTIVE_NAME_match_def directive_prefixes_def js_def
        startsWith_def isDirectiveNamePart_def isWordChar_def)
  have nomatch2: "\<not> DIRECTIVE_NAME_test (js ''bind:a'')"
    by (simp add: DIRECTIVE_NAME_test_def DIRECTIVE_NAME_match_def directive_prefixes_def js_def
        startsWith_def isDirectiveNamePart_def isWordChar_def)
  have doc: "cx_document ?ctx = Some emptyDocinfo" by simp
  obtain node' ctx' where
    run: "processAttribute (tableBackend []) ?po (new_LocationCalculator [] []) ?node ?ctx
            = Inr (node', ctx')"
    using nomatch pre by (auto simp: processAttribute_def bindE_def Let_def)
  have pre1: "startsWith (js ''s-a'') (js ''s-'')"
    by (simp add: startsWith_def js_def)
  from invalid_directive_reported[OF pre nomatch doc run] run nomatch nomatch2 pre1
  show ?thesis by auto
qed

section \<open>C7: the message of a script error at the end of the fragment\<close>

lemma message_kept_without_offset:
  "pe_offset pe = None \<Longrightarrow>
   throwErrorAsAdjustingOutsideOfCode (ThrownParseError pe) code lc = ThrownParseError pe"
  by (simp add: throwErrorAsAdjustingOutsideOfCode_def)

lemma new_ParseError_has_no_offset: "pe_offset (new_ParseError m c i l k) = None"
  by (simp add: new_ParseError_def)

text \<open>
  Claim C7 says that a script error whose offset is at or beyond the end of the fragment ends up
  in \<open>document.errors\<close> with the message \<open>Unexpected end of expression.\<close> The code compares
  \<open>e.offset\<close>, a property a \<open>ParseError\<close> does not have (its position is \<open>index\<close>), so the
  message is never replaced. Here the directive value \<open>a +\<close> of \<open><view s-if="a +">\<close> (the
  expression spans offsets 12 to 15) is rejected by the script parser at the closing parenthesis
  of \<open>0(a +)\<close>: the error lands at index 15, the end of the fragment, and keeps its message.
\<close>

theorem end_of_expression_message_not_set:
  "getOffsetWithGap (getSubCalculatorAfter (new_LocationCalculator [] []) 12)
     (int (length (js ''a +''))) = 15
   \<and> processExpression
       (tableBackend [(js ''0(a +)'',
          Inl (ThrownParseError (new_ParseError (js ''Unexpected token )'') None 5 1 6)))])
       defaultScriptOptions (new_LocationCalculator [] [])
       \<lparr>xe_range = (12, 15), xe_loc = ((1, 12), (1, 15)), xe_expression = NoExpression,
        xe_references = []\<rparr>
       (js ''a +'') \<lparr>cx_document = Some emptyDocinfo, cx_scopes = [[]]\<rparr>
     = Inr (\<lparr>xe_range = (12, 15), xe_loc = ((1, 12), (1, 15)), xe_expression = NoExpression,
             xe_references = []\<rparr>,
            \<lparr>cx_document = Some (emptyDocinfo\<lparr>d_errors :=
                 [\<lparr>pe_message = js ''Unexpected token )'',
                   pe_code = Some (js ''x-expression-error''),
                   pe_index = 15, pe_lineNumber = 1, pe_column = 15, pe_offset = None\<rparr>]\<rparr>),
              cx_scopes = [[]]\<rparr>)"
  by code_simp


section \<open>C6: the identifier fast path of \<open>processExpression\<close>\<close>













section \<open>C4: the parts of an \<open>s-for\<close> value\<close>







lemma resolveReferences_expression:
  "xe_expression (fst (resolveReferences e scopes)) = xe_expression e"
  by (simp add: resolveReferences_def split: prod.splits)





section \<open>C5: a mustache that holds the properties of an object\<close>

lemma dropWhile_snoc_nonempty: "\<not> P c \<Longrightarrow> dropWhile P (xs @ [c]) \<noteq> []"
  by (induction xs) auto

lemma trim_nonempty:
  assumes "dropWhile isSpaceChar s = c # r"
  shows "trim s \<noteq> []"
proof -
  have c: "\<not> isSpaceChar c" using assms by (metis hd_dropWhile list.distinct(1) list.sel(1))
  have "dropWhile isSpaceChar (rev (c # r)) \<noteq> []"
    using dropWhile_snoc_nonempty[of isSpaceChar c "rev r"] c by simp
  then show ?thesis by (simp add: trim_def assms)
qed

lemma memberExpression_not_blank:
  "memberExpression_test code \<Longrightarrow> trim code \<noteq> []"
proof -
  assume a: "memberExpression_test code"
  have "dropWhile isSpaceChar code \<noteq> []"
  proof
    assume e: "dropWhile isSpaceChar code = []"
    from a show False unfolding memberExpression_test_def Let_def e by simp
  qed
  then obtain c r where "dropWhile isSpaceChar code = c # r" by (cases "dropWhile isSpaceChar code") auto
  then show ?thesis by (rule trim_nonempty)
qed

lemma braced_is_no_identifier: "identifierReg_exec (123 # code @ [125]) = None"
  by (simp add: identifierReg_exec_def isSpaceChar_def isWordChar_def)

lemma applyExpressionResult_fields:
  "xe_range (fst (applyExpressionResult node rng ret ctx)) = xe_range node
   \<and> xe_expression (fst (applyExpressionResult node rng ret ctx))
       = (case epr_expression ret of None \<Rightarrow> NoExpression | Some e \<Rightarrow> ScriptExpression e)"
  by (simp add: applyExpressionResult_def Let_def resolveReferences_def split: prod.splits)

text \<open>
  Claim C5, as the code has it. The mustache of an \<open>s-for\<close> directive goes to
  \<open>processForExpression\<close> and is left alone. For every other mustache whose payload begins
  like a property (\<open>memberExpression\<close>) and whose opening token is \<open>{{\<close>, the script parser is
  given the payload in braces, and \<open>processMustache\<close> throws only what the script parser threw
  that is no parse error. Otherwise it returns, and whatever the parser answered, both tokens
  have lost the brace that faces the payload: the start token is \<open>{\<close> and ends one earlier, the
  end token is \<open>}\<close> and starts one later. The value of the node spans the payload; its
  expression is what the parser returned when it accepted the text, and stays \<open>null\<close>, with the
  error inserted into the document, when the parser rejected it with a parse error that is not
  about a reserved keyword.
\<close>

theorem inline_object_mustache:
  assumes member: "memberExpression_test (mu_value m)"
    and opener: "tk_value (mu_startToken m) = js ''{{''"
    and parent: "\<not> isForDirective parent"
    and P: "P = parseExpression be ([123] @ mu_value m @ [125])
                  (getSubCalculatorAfter lc (snd (tk_range (mu_startToken m)))) so"
    and D: "D = updateTokenObject (mu_endToken m) (trimEndToken (mu_endToken m))
                 (updateTokenObject (mu_startToken m) (trimStartToken (mu_startToken m))
                    (cx_document ctx))"
  shows "(\<exists>node' ctx' v. processMustache be so lc parent node m ctx = Inr (node', ctx')
       \<and> tk_value (xm_startToken node') = js ''{''
       \<and> tk_range (xm_startToken node')
           = (fst (tk_range (mu_startToken m)), snd (tk_range (mu_startToken m)) - 1)
       \<and> tk_value (xm_endToken node') = js ''}''
       \<and> tk_range (xm_endToken node')
           = (fst (tk_range (mu_endToken m)) + 1, snd (tk_range (mu_endToken m)))
       \<and> xm_value node' = Some v
       \<and> xe_range v = (snd (tk_range (mu_startToken m)), fst (tk_range (mu_endToken m)))
       \<and> (\<forall>ret. P = Inr ret \<longrightarrow>
             xe_expression v = (case epr_expression ret of None \<Rightarrow> NoExpression
                                | Some e \<Rightarrow> ScriptExpression e))
       \<and> (\<forall>pe. P = Inl (ThrownParseError pe) \<and> \<not> reservedKeyword_test (pe_message pe) \<longrightarrow>
             xe_expression v = NoExpression \<and> cx_document ctx' = insertError D pe))
     \<or> (\<exists>e. processMustache be so lc parent node m ctx = Inl e \<and> P = Inl e
            \<and> (\<forall>pe. e \<noteq> ThrownParseError pe))"
proof -
  let ?val = "\<lparr>xe_range = (snd (tk_range (mu_startToken m)), fst (tk_range (mu_endToken m))),
               xe_loc = ((fst (snd (tk_loc (mu_startToken m))), snd (snd (tk_loc (mu_startToken m))) + 1),
                         fst (tk_loc (mu_endToken m))),
               xe_expression = NoExpression, xe_references = []\<rparr>"
  let ?node2 = "node\<lparr>xm_value := Some ?val, xm_startToken := trimStartToken (mu_startToken m),
                     xm_endToken := trimEndToken (mu_endToken m)\<rparr>"
  let ?ctx1 = "ctx\<lparr>cx_document := D\<rparr>"
  let ?E = "processExpression be so lc ?val ([123] @ mu_value m @ [125]) ?ctx1"
  have pm: "processMustache be so lc parent node m ctx
          = bindE ?E (\<lambda>(v, ctx'). Inr (?node2\<lparr>xm_value := Some v\<rparr>, ctx'))"
    using memberExpression_not_blank[OF member] member opener parent
    by (simp add: processMustache_def Let_def D)
  have P': "parseExpression be (123 # mu_value m @ [125])
                  (getSubCalculatorAfter lc (snd (tk_range (mu_startToken m)))) so = P"
    using P by simp
  show ?thesis
  proof (cases P)
    case (Inr ret)
    then have E: "?E = Inr (applyExpressionResult ?val (xe_range ?val) ret ?ctx1)"
      by (simp add: processExpression_def braced_is_no_identifier Let_def P')
    show ?thesis
      apply (rule disjI1)
      apply (rule exI[of _ "?node2\<lparr>xm_value := Some (fst (applyExpressionResult ?val (xe_range ?val) ret ?ctx1))\<rparr>"])
      apply (rule exI[of _ "snd (applyExpressionResult ?val (xe_range ?val) ret ?ctx1)"])
      apply (rule exI[of _ "fst (applyExpressionResult ?val (xe_range ?val) ret ?ctx1)"])
      unfolding pm E using Inr by (simp add: bindE_def applyExpressionResult_fields trimStartToken_def
          trimEndToken_def case_prod_unfold)
  next
    case (Inl e)
    show ?thesis
    proof (cases e)
      case (ThrownParseError pe)
      show ?thesis
      proof (cases "reservedKeyword_test (pe_message pe)")
        case False
        have E: "?E = Inr (?val, ?ctx1\<lparr>cx_document := insertError D pe\<rparr>)"
          using Inl ThrownParseError False
          by (simp add: processExpression_def braced_is_no_identifier Let_def P')
        show ?thesis
          apply (rule disjI1)
          apply (rule exI[of _ "?node2"])
          apply (rule exI[of _ "?ctx1\<lparr>cx_document := insertError D pe\<rparr>"])
          apply (rule exI[of _ "?val"])
          unfolding pm E using Inl ThrownParseError by (simp add: bindE_def trimStartToken_def trimEndToken_def)
      next
        case True
        let ?P2 = "parseExpression be ([123] @ mu_value m @ [125])
                  (getSubCalculatorAfter lc (snd (tk_range (mu_startToken m))))
                  (so\<lparr>so_ecmaVersion := Some 3, so_allowReserved := Some True,
                      so_sourceType := js ''script''\<rparr>)"
        show ?thesis
        proof (cases ?P2)
          case (Inr ret)
          have E: "?E = Inr (applyExpressionResult ?val (xe_range ?val) ret ?ctx1)"
            using \<open>P = Inl e\<close> ThrownParseError True Inr
            by (simp add: processExpression_def braced_is_no_identifier Let_def P')
          show ?thesis
            apply (rule disjI1)
            apply (rule exI[of _ "?node2\<lparr>xm_value := Some (fst (applyExpressionResult ?val (xe_range ?val) ret ?ctx1))\<rparr>"])
            apply (rule exI[of _ "snd (applyExpressionResult ?val (xe_range ?val) ret ?ctx1)"])
            apply (rule exI[of _ "fst (applyExpressionResult ?val (xe_range ?val) ret ?ctx1)"])
            unfolding pm E using Inl ThrownParseError True
            by (simp add: bindE_def applyExpressionResult_fields trimStartToken_def
                trimEndToken_def case_prod_unfold)
        next
          case (Inl kew)
          have E: "?E = Inr (?val, ?ctx1\<lparr>cx_document := insertError D pe\<rparr>)"
            using \<open>P = Inl e\<close> ThrownParseError True Inl
            by (simp add: processExpression_def braced_is_no_identifier Let_def P')
          show ?thesis
            apply (rule disjI1)
            apply (rule exI[of _ "?node2"])
            apply (rule exI[of _ "?ctx1\<lparr>cx_document := insertError D pe\<rparr>"])
            apply (rule exI[of _ "?val"])
            unfolding pm E using \<open>P = Inl e\<close> ThrownParseError True
            by (simp add: bindE_def trimStartToken_def trimEndToken_def)
        qed
      qed
    next
      case (ThrownAcornError x1 x2 x3)
      then have E: "?E = Inl e" using Inl
        by (simp add: processExpression_def braced_is_no_identifier Let_def P')
      show ?thesis
        apply (rule disjI2)
        unfolding pm E using Inl ThrownAcornError by (simp add: bindE_def)
    next
      case (ThrownOther x)
      then have E: "?E = Inl e" using Inl
        by (simp add: processExpression_def braced_is_no_identifier Let_def P')
      show ?thesis
        apply (rule disjI2)
        unfolding pm E using Inl ThrownOther by (simp add: bindE_def)
    next
      case OutOfFuel
      then have E: "?E = Inl e" using Inl
        by (simp add: processExpression_def braced_is_no_identifier Let_def P')
      show ?thesis
        apply (rule disjI2)
        unfolding pm E using Inl OutOfFuel by (simp add: bindE_def)
    qed
  qed
qed


theorem inline_object_mustache_witness:
  "memberExpression_test (mu_value styleMustache)
   \<and> tk_value (mu_startToken styleMustache) = js ''{{''
   \<and> \<not> isForDirective ParentAttribute
   \<and> (\<exists>node' ctx' v.
         processMustache objectExampleBackend defaultScriptOptions (new_LocationCalculator [] [])
           ParentAttribute (mustacheNode styleMustache) styleMustache
           \<lparr>cx_document = Some emptyDocinfo, cx_scopes = [[]]\<rparr> = Inr (node', ctx')
       \<and> tk_value (xm_startToken node') = js ''{''
       \<and> tk_range (xm_startToken node') = (13, 14)
       \<and> tk_value (xm_endToken node') = js ''}''
       \<and> tk_range (xm_endToken node') = (23, 24)
       \<and> xm_value node' = Some v
       \<and> xe_range v = (15, 22)
       \<and> (\<exists>r l props. xe_expression v
             = ScriptExpression (SNode (OtherNode (js ''ObjectExpression'')) r l props)
           \<and> length props = 2))
   \<and> (\<exists>node' ctx' v.
         processMustache (tableBackend []) defaultScriptOptions (new_LocationCalculator [] [])
           ParentAttribute (mustacheNode styleMustache) styleMustache
           \<lparr>cx_document = Some emptyDocinfo, cx_scopes = [[]]\<rparr> = Inr (node', ctx')
       \<and> tk_value (xm_startToken node') = js ''{''
       \<and> tk_value (xm_endToken node') = js ''}''
       \<and> xm_value node' = Some v
       \<and> xe_expression v = NoExpression
       \<and> map_option (map pe_message \<circ> d_errors) (cx_document ctx') = Some [js ''Unexpected token''])"
proof -
  let ?m = styleMustache
  let ?lc = "new_LocationCalculator [] []"
  let ?P = "parseExpression objectExampleBackend ([123] @ mu_value ?m @ [125])
              (getSubCalculatorAfter ?lc (snd (tk_range (mu_startToken ?m)))) defaultScriptOptions"
  let ?ctx = "\<lparr>cx_document = Some emptyDocinfo, cx_scopes = [[]]\<rparr>"
  have member: "memberExpression_test (mu_value ?m)" by code_simp
  have opener: "tk_value (mu_startToken ?m) = js ''{{''" by code_simp
  have parent: "\<not> isForDirective ParentAttribute" by (simp add: isForDirective_def)
  have parse: "?P = Inr (projr ?P)" by code_simp
  have e: "epr_expression (projr ?P)
            = Some (SNode (OtherNode (js ''ObjectExpression'')) (15, 24) ((1, 15), (1, 24))
                [Some (scriptNode (OtherNode (js ''Property'')) 16 19
                     [Some (scriptNode (OtherNode (js ''Literal'')) 18 19 [])]),
                 Some (scriptNode (OtherNode (js ''Property'')) 20 23
                     [Some (scriptNode (OtherNode (js ''Literal'')) 22 23 [])])])"
    by code_simp
  have noThrow: "\<not> (\<exists>e. processMustache objectExampleBackend defaultScriptOptions ?lc ParentAttribute
            (mustacheNode ?m) ?m ?ctx = Inl e \<and> ?P = Inl e \<and> (\<forall>pe. e \<noteq> ThrownParseError pe))"
    using parse by (metis sum.distinct(1))
  from inline_object_mustache[OF member opener parent refl refl,
      where node = "mustacheNode ?m" and ctx = ?ctx and be = objectExampleBackend
        and lc = ?lc and so = defaultScriptOptions] noThrow
  obtain node' ctx' v where
    run: "processMustache objectExampleBackend defaultScriptOptions ?lc ParentAttribute
            (mustacheNode ?m) ?m ?ctx = Inr (node', ctx')"
    and sv: "tk_value (xm_startToken node') = js ''{''"
    and sr: "tk_range (xm_startToken node')
         = (fst (tk_range (mu_startToken ?m)), snd (tk_range (mu_startToken ?m)) - 1)"
    and ev: "tk_value (xm_endToken node') = js ''}''"
    and er: "tk_range (xm_endToken node')
         = (fst (tk_range (mu_endToken ?m)) + 1, snd (tk_range (mu_endToken ?m)))"
    and v: "xm_value node' = Some v"
    and vr: "xe_range v = (snd (tk_range (mu_startToken ?m)), fst (tk_range (mu_endToken ?m)))"
    and ve: "\<forall>ret. ?P = Inr ret \<longrightarrow>
             xe_expression v = (case epr_expression ret of None \<Rightarrow> NoExpression
                                | Some e \<Rightarrow> ScriptExpression e)"
    by blast
  have sr': "tk_range (xm_startToken node') = (13, 14)"
    using sr by (simp add: styleMustache_def rawToken_def)
  have er': "tk_range (xm_endToken node') = (23, 24)"
    using er by (simp add: styleMustache_def rawToken_def)
  have vr': "xe_range v = (15, 22)"
    using vr by (simp add: styleMustache_def rawToken_def)
  from ve parse have "xe_expression v = (case epr_expression (projr ?P) of None \<Rightarrow> NoExpression
                                | Some e \<Rightarrow> ScriptExpression e)"
    by blast
  then have ve': "\<exists>r l props. xe_expression v
             = ScriptExpression (SNode (OtherNode (js ''ObjectExpression'')) r l props)
           \<and> length props = 2"
    unfolding e by simp
  have accepted: "\<exists>node' ctx' v.
         processMustache objectExampleBackend defaultScriptOptions ?lc
           ParentAttribute (mustacheNode ?m) ?m ?ctx = Inr (node', ctx')
       \<and> tk_value (xm_startToken node') = js ''{''
       \<and> tk_range (xm_startToken node') = (13, 14)
       \<and> tk_value (xm_endToken node') = js ''}''
       \<and> tk_range (xm_endToken node') = (23, 24)
       \<and> xm_value node' = Some v
       \<and> xe_range v = (15, 22)
       \<and> (\<exists>r l props. xe_expression v
             = ScriptExpression (SNode (OtherNode (js ''ObjectExpression'')) r l props)
           \<and> length props = 2)"
    apply (rule exI[of _ node'], rule exI[of _ ctx'], rule exI[of _ v])
    apply (intro conjI)
           apply (rule run)
          apply (rule sv)
         apply (rule sr')
        apply (rule ev)
       apply (rule er')
      apply (rule v)
     apply (rule vr')
    apply (rule ve')
    done
  let ?Q = "parseExpression (tableBackend []) ([123] @ mu_value ?m @ [125])
              (getSubCalculatorAfter ?lc (snd (tk_range (mu_startToken ?m)))) defaultScriptOptions"
  let ?pe = "\<lparr>pe_message = js ''Unexpected token'', pe_code = None, pe_index = 13,
              pe_lineNumber = 1, pe_column = 13, pe_offset = None\<rparr>"
  let ?D = "updateTokenObject (mu_endToken ?m) (trimEndToken (mu_endToken ?m))
                 (updateTokenObject (mu_startToken ?m) (trimStartToken (mu_startToken ?m))
                    (cx_document ?ctx))"
  have reject: "?Q = Inl (ThrownParseError ?pe)" by code_simp
  have other: "\<not> reservedKeyword_test (pe_message ?pe)" by code_simp
  have errs: "map_option (map pe_message \<circ> d_errors) (insertError ?D ?pe) = Some [js ''Unexpected token'']"
    by code_simp
  have noThrow2: "\<not> (\<exists>e. processMustache (tableBackend []) defaultScriptOptions ?lc ParentAttribute
            (mustacheNode ?m) ?m ?ctx = Inl e \<and> ?Q = Inl e \<and> (\<forall>pe. e \<noteq> ThrownParseError pe))"
    using reject by (metis sum.inject(1))
  from inline_object_mustache[OF member opener parent refl refl,
      where node = "mustacheNode ?m" and ctx = ?ctx and be = "tableBackend []"
        and lc = ?lc and so = defaultScriptOptions] noThrow2
  obtain node2 ctx2 v2 where
    run2: "processMustache (tableBackend []) defaultScriptOptions ?lc ParentAttribute
            (mustacheNode ?m) ?m ?ctx = Inr (node2, ctx2)"
    and sv2: "tk_value (xm_startToken node2) = js ''{''"
    and ev2: "tk_value (xm_endToken node2) = js ''}''"
    and v2: "xm_value node2 = Some v2"
    and rj: "\<forall>pe. ?Q = Inl (ThrownParseError pe) \<and> \<not> reservedKeyword_test (pe_message pe) \<longrightarrow>
             xe_expression v2 = NoExpression \<and> cx_document ctx2 = insertError ?D pe"
    by blast
  from rj reject other have none2: "xe_expression v2 = NoExpression"
    and doc2: "cx_document ctx2 = insertError ?D ?pe"
    by blast+
  have errs2: "map_option (map pe_message \<circ> d_errors) (cx_document ctx2) = Some [js ''Unexpected token'']"
    unfolding doc2 by (rule errs)
  have rejected: "\<exists>node' ctx' v.
         processMustache (tableBackend []) defaultScriptOptions ?lc
           ParentAttribute (mustacheNode ?m) ?m ?ctx = Inr (node', ctx')
       \<and> tk_value (xm_startToken node') = js ''{''
       \<and> tk_value (xm_endToken node') = js ''}''
       \<and> xm_value node' = Some v
       \<and> xe_expression v = NoExpression
       \<and> map_option (map pe_message \<circ> d_errors) (cx_document ctx') = Some [js ''Unexpected token'']"
    apply (rule exI[of _ node2], rule exI[of _ ctx2], rule exI[of _ v2])
    apply (intro conjI)
         apply (rule run2)
        apply (rule sv2)
       apply (rule ev2)
      apply (rule v2)
     apply (rule none2)
    apply (rule errs2)
    done
  show ?thesis
    apply (rule conjI, rule member, rule conjI, rule opener, rule conjI, rule parent)
    apply (rule conjI, rule accepted)
    apply (rule rejected)
    done
qed

theorem for_mustache_not_wrapped:
  "memberExpression_test (mu_value forMustache)
   \<and> tk_value (mu_startToken forMustache) = js ''{{''
   \<and> (case processMustache objectExampleBackend defaultScriptOptions (new_LocationCalculator [] [])
             (ParentDirective (js ''for'')) (mustacheNode forMustache) forMustache
             \<lparr>cx_document = Some emptyDocinfo, cx_scopes = [[]]\<rparr> of
         Inl e \<Rightarrow> False
       | Inr (node', ctx') \<Rightarrow>
           xm_startToken node' = rawToken XMustacheStart ''{{'' 13 15
         \<and> xm_endToken node' = rawToken XMustacheEnd ''}}'' 27 29
         \<and> map_option xe_expression (xm_value node') = Some NoExpression
         \<and> map_option (map pe_message \<circ> d_errors) (cx_document ctx') = Some [js ''Unexpected token''])"
  by code_simp

section \<open>C3: a mustache that is still open when the input or the attribute ends\<close>

text \<open>
  Claim C3 does not hold at the end of the input. \<open>IntermediateTokenizer.nextToken\<close> commits
  what is pending only if there is a current token, and a mustache opened right after a tag, or
  inside an attribute value whose closing quote never comes, leaves none: for \<open><view>{{cond\<close>
  and for \<open><view s-if="{{cond\<close> no error is reported and the content is lost. The error is
  reported when a text stands right before the mustache (\<open><view>a{{cond\<close>) and when the closing
  quote of the attribute arrives (\<open><view s-if="{{cond"\<close>).
\<close>

theorem pending_mustache_at_end_of_input:
  "outcome (parse (tableBackend []) 20 (js ''<view>{{cond'') noOptions)
     = Some ([], [viewElement 6 []])
   \<and> outcome (parse (tableBackend []) 30 (js ''<view s-if=\"{{cond'') noOptions) = Some ([], [])
   \<and> outcome (parse (tableBackend []) 20 (js ''<view>a{{cond'') noOptions)
     = Some ([(js ''missing-expression-end-tag'', 7)],
             [viewElement 13 [XText (6, 13) ((1, 6), (1, 13)) (js ''a{{cond'')]])
   \<and> outcome (parse (tableBackend []) 30 (js ''<view s-if=\"{{cond\"'') noOptions)
     = Some ([(js ''eof-in-tag'', 19), (js ''missing-expression-end-tag'', 12)], [])"
  by code_simp

section \<open>C2: the option \<open>parseExpression\<close>\<close>

lemma wpe_fields [simp]:
  "ps_tokenizer (withParseExpression x p) = ps_tokenizer p"
  "ps_elementStack (withParseExpression x p) = ps_elementStack p"
  "ps_documentChildren (withParseExpression x p) = ps_documentChildren p"
  "ps_documentRange (withParseExpression x p) = ps_documentRange p"
  "ps_documentLoc (withParseExpression x p) = ps_documentLoc p"
  "po_script (ps_parserOptions (withParseExpression x p)) = po_script (ps_parserOptions p)"
  "po_noOpenTag (ps_parserOptions (withParseExpression x p)) = po_noOpenTag (ps_parserOptions p)"
  "documentInfo (withParseExpression x p) = documentInfo p"
  "locationCalculator (withParseExpression x p) = locationCalculator p"
  by (simp_all add: withParseExpression_def documentInfo_def locationCalculator_def)

lemma wpe_commute [simp]:
  "pushChild n (withParseExpression x p) = withParseExpression x (pushChild n p)"
  "setDocumentInfo d (withParseExpression x p) = withParseExpression x (setDocumentInfo d p)"
  "setExpressionEnabled b (withParseExpression x p) = withParseExpression x (setExpressionEnabled b p)"
  "setTokenizerState st (withParseExpression x p) = withParseExpression x (setTokenizerState st p)"
  "Parser_reportParseError r l c (withParseExpression x p)
     = withParseExpression x (Parser_reportParseError r l c p)"
  "(withParseExpression x p)\<lparr>ps_elementStack := es\<rparr> = withParseExpression x (p\<lparr>ps_elementStack := es\<rparr>)"
  "(withParseExpression x p)\<lparr>ps_tokenizer := it\<rparr> = withParseExpression x (p\<lparr>ps_tokenizer := it\<rparr>)"
  by (simp_all add: withParseExpression_def pushChild_def setDocumentInfo_def
        setExpressionEnabled_def setTokenizerState_def Parser_reportParseError_def documentInfo_def
        split: option.splits)

lemma processAttribute_wpe:
  "processAttribute be (po\<lparr>po_parseExpression := x\<rparr>) lc node ctx = processAttribute be po lc node ctx"
  unfolding processAttribute_def Let_def by simp

lemma processAttributes_wpe:
  "processAttributes be (po\<lparr>po_parseExpression := x\<rparr>) lc as ctx = processAttributes be po lc as ctx"
  by (induction as arbitrary: ctx) (simp_all add: processAttribute_wpe)

lemma processAttributes_wpe' [simp]:
  "processAttributes be (ps_parserOptions (withParseExpression x p)) lc as ctx
     = processAttributes be (ps_parserOptions p) lc as ctx"
  by (simp add: withParseExpression_def processAttributes_wpe)

lemma popElementStack_wpe:
  "popElementStack (withParseExpression x p) = map_sum id (withParseExpression x) (popElementStack p)"
  by (simp add: popElementStack_def Let_def)

lemma popElementStackUntil_wpe:
  "popElementStackUntil i (withParseExpression x p)
     = map_sum id (withParseExpression x) (popElementStackUntil i p)"
proof (induction i p rule: popElementStackUntil.induct)
  case (1 index p)
  show ?case
  proof (cases "length (ps_elementStack p) > index")
    case False
    then show ?thesis
      by (simp add: popElementStackUntil.simps[of index p]
            popElementStackUntil.simps[of index "withParseExpression x p"])
  next
    case True
    show ?thesis
    proof (cases "popElementStack p")
      case (Inl e)
      with True show ?thesis
        by (simp add: popElementStackUntil.simps[of index p]
              popElementStackUntil.simps[of index "withParseExpression x p"] popElementStack_wpe)
    next
      case (Inr p1)
      with True "1.IH"[OF True Inr] show ?thesis
        by (simp add: popElementStackUntil.simps[of index p]
              popElementStackUntil.simps[of index "withParseExpression x p"] popElementStack_wpe)
    qed
  qed
qed

lemma closeCurrentElementIfNecessary_wpe:
  "closeCurrentElementIfNecessary name (withParseExpression x p)
     = map_sum id (withParseExpression x) (closeCurrentElementIfNecessary name p)"
  by (simp add: closeCurrentElementIfNecessary_def popElementStack_wpe)

lemma bindE_map_sum:
  "bindE (map_sum id f m) g = bindE m (\<lambda>a. g (f a))"
  by (cases m) (simp_all add: bindE_def)

lemma map_sum_bindE:
  "map_sum id f (bindE m g) = bindE m (\<lambda>a. map_sum id f (g a))"
  by (cases m) (simp_all add: bindE_def)

lemma bindE_cong_fun: "(\<And>a. f a = g a) \<Longrightarrow> bindE m f = bindE m g"
  by (cases m) (simp_all add: bindE_def)

lemma openElement_wpe:
  "openElement t as c (withParseExpression x p) = withParseExpression x (openElement t as c p)"
  by (simp add: openElement_def Let_def)

lemma Parser_StartTag_wpe:
  "Parser_StartTag be t (withParseExpression x p)
     = map_sum id (withParseExpression x) (Parser_StartTag be t p)"
  unfolding Parser_StartTag_def closeCurrentElementIfNecessary_wpe bindE_map_sum map_sum_bindE
  by (intro bindE_cong_fun) (simp add: openElement_wpe map_sum_bindE case_prod_unfold)

lemma Parser_EndTag_wpe:
  "Parser_EndTag t (withParseExpression x p)
     = map_sum id (withParseExpression x) (Parser_EndTag t p)"
proof (cases "findLastIndex (\<lambda>el. toLowerCase (el_name el) = et_name t) (ps_elementStack p)")
  case None
  then show ?thesis by (simp add: Parser_EndTag_def)
next
  case (Some i)
  then show ?thesis by (simp add: Parser_EndTag_def popElementStackUntil_wpe)
qed

lemma Parser_Text_wpe:
  "Parser_Text be t (withParseExpression x p)
     = map_sum id (withParseExpression x) (Parser_Text be t p)"
  by (auto simp add: Parser_Text_def Let_def map_sum_bindE case_prod_unfold)

lemma Parser_Mustache_wpe:
  "Parser_Mustache be t (withParseExpression x p)
     = map_sum id (withParseExpression x) (Parser_Mustache be t p)"
  unfolding Parser_Mustache_def Let_def map_sum_bindE
  by (simp add: case_prod_unfold cong: if_cong)

lemma handleToken_wpe:
  "handleToken be t (withParseExpression x p)
     = map_sum id (withParseExpression x) (handleToken be t p)"
  by (simp add: handleToken_def Parser_StartTag_wpe Parser_EndTag_wpe Parser_Text_wpe
        Parser_Mustache_wpe split: intermediate_token.splits)

lemma parseLoop_wpe:
  "parseLoop be fuel n (withParseExpression x p)
     = map_sum id (withParseExpression x) (parseLoop be fuel n p)"
proof (induction n arbitrary: p)
  case 0
  show ?case by simp
next
  case (Suc n)
  show ?case
    by (simp add: handleToken_wpe Suc.IH split: sum.splits prod.splits option.splits)
qed

lemma Parser_parse_wpe:
  "Parser_parse be fuel (withParseExpression x p) = Parser_parse be fuel p"
  unfolding Parser_parse_def parseLoop_wpe bindE_map_sum popElementStackUntil_wpe
  by (intro bindE_cong_fun) (simp add: finishDocument_def)

lemma new_Parser_wpe:
  "new_Parser tz (resolveParserOptions (options\<lparr>ro_parseExpression := x\<rparr>))
     = withParseExpression x (new_Parser tz (resolveParserOptions options))"
  by (simp add: new_Parser_def resolveParserOptions_def withParseExpression_def)

text \<open>
  Claim C2 does not hold: no function reads the option \<open>parseExpression\<close>, so a parse gives
  the same result whatever its value, and with \<open>parseExpression: false\<close> the value of the
  directive \<open>s-if="cond"\<close> is still an \<open>XExpression\<close> with the identifier \<open>cond\<close>, not an
  \<open>XLiteral\<close>.
\<close>

theorem parseExpression_option_is_not_read:
  "parse be fuel code (options\<lparr>ro_parseExpression := x\<rparr>) = parse be fuel code options
   \<and> firstAttributeValue (parse (tableBackend []) 30 (js ''<view s-if=\"cond\"></view>'')
         (noOptions\<lparr>ro_parseExpression := Some False\<rparr>))
       = Some [XExpression \<lparr>xe_range = (12, 16), xe_loc = ((1, 12), (1, 16)),
            xe_expression = ScriptExpression (SNode (Identifier (js ''cond'')) (12, 16) ((1, 12), (1, 16)) []),
            xe_references = [\<lparr>r_id = \<lparr>id_name = js ''cond'', id_range = (12, 16),
                                      id_loc = ((1, 12), (1, 16))\<rparr>,
                              r_mode = js ''r'', r_variable = None\<rparr>]\<rparr>]"
proof
  show "parse be fuel code (options\<lparr>ro_parseExpression := x\<rparr>) = parse be fuel code options"
    by (simp add: parse_def new_Parser_wpe Parser_parse_wpe)
  show "firstAttributeValue (parse (tableBackend []) 30 (js ''<view s-if=\"cond\"></view>'')
         (noOptions\<lparr>ro_parseExpression := Some False\<rparr>))
       = Some [XExpression \<lparr>xe_range = (12, 16), xe_loc = ((1, 12), (1, 16)),
            xe_expression = ScriptExpression (SNode (Identifier (js ''cond'')) (12, 16) ((1, 12), (1, 16)) []),
            xe_references = [\<lparr>r_id = \<lparr>id_name = js ''cond'', id_range = (12, 16),
                                      id_loc = ((1, 12), (1, 16))\<rparr>,
                              r_mode = js ''r'', r_variable = None\<rparr>]\<rparr>]"
    by code_simp
qed

section \<open>C1: the variables of \<open>s-for\<close> and the resolution of references\<close>

subsection \<open>What \<open>resolveReference\<close> does\<close>

lemma resolveInVariables_Some_iff:
  "(resolveInVariables r vs \<noteq> None) \<longleftrightarrow> (\<exists>v\<in>set vs. id_name (v_id v) = id_name (r_id r))"
  by (induction vs) (auto simp: Let_def split: option.splits)

lemma resolveInVariables_variable:
  "resolveInVariables r vs = Some (r', vs') \<Longrightarrow> r_variable r' \<noteq> None"
  by (induction vs arbitrary: vs') (auto simp: Let_def split: option.splits if_splits)

lemma resolveReference_resolves_iff:
  "r_variable r = None \<Longrightarrow> resolveReference r scopes = (r', scopes') \<Longrightarrow>
     (r_variable r' \<noteq> None) \<longleftrightarrow>
     (\<exists>vars\<in>set scopes. \<exists>v\<in>set vars. id_name (v_id v) = id_name (r_id r))"
proof (induction scopes arbitrary: scopes')
  case Nil
  then show ?case by simp
next
  case (Cons vars outer)
  show ?case
  proof (cases "resolveInVariables r vars")
    case None
    with resolveInVariables_Some_iff[of r vars]
    have no: "\<not> (\<exists>v\<in>set vars. id_name (v_id v) = id_name (r_id r))" by simp
    from None Cons.prems(2) obtain o1 where "resolveReference r outer = (r', o1)"
      by (auto split: prod.splits)
    from Cons.IH[OF Cons.prems(1) this] no show ?thesis by simp
  next
    case (Some a)
    obtain r1 vs1 where a: "a = (r1, vs1)" by (cases a)
    with Some Cons.prems(2) have "r' = r1" by simp
    with Some a resolveInVariables_variable[of r vars r1 vs1]
      resolveInVariables_Some_iff[of r vars] show ?thesis by auto
  qed
qed

lemma resolveInVariables_count:
  "resolveInVariables r vs = Some (r', vs') \<Longrightarrow>
     sum_list (map (\<lambda>v. length (v_references v)) vs')
       = Suc (sum_list (map (\<lambda>v. length (v_references v)) vs))"
  by (induction vs arbitrary: vs') (auto simp: Let_def split: option.splits if_splits)

lemma resolveReference_pushes_once:
  "resolveReference r scopes = (r', scopes') \<Longrightarrow>
     referenceCount scopes' = referenceCount scopes
        + (if \<exists>vars\<in>set scopes. \<exists>v\<in>set vars. id_name (v_id v) = id_name (r_id r) then 1 else 0)"
proof (induction scopes arbitrary: scopes')
  case Nil
  then show ?case by (simp add: referenceCount_def)
next
  case (Cons vars outer)
  show ?case
  proof (cases "resolveInVariables r vars")
    case None
    with resolveInVariables_Some_iff[of r vars]
    have no: "\<not> (\<exists>v\<in>set vars. id_name (v_id v) = id_name (r_id r))" by simp
    from None Cons.prems obtain o1 where o: "resolveReference r outer = (r', o1)"
      and s: "scopes' = vars # o1"
      by (auto split: prod.splits)
    from Cons.IH[OF o] no show ?thesis by (simp add: s referenceCount_def)
  next
    case (Some a)
    obtain r1 vs1 where a: "a = (r1, vs1)" by (cases a)
    with Some Cons.prems have s: "scopes' = vs1 # outer" by simp
    from Some a resolveInVariables_Some_iff[of r vars]
    have yes: "\<exists>v\<in>set vars. id_name (v_id v) = id_name (r_id r)" by simp
    from resolveInVariables_count[of r vars r1 vs1] Some a yes show ?thesis
      by (auto simp: s referenceCount_def)
  qed
qed

subsection \<open>Scopes without variables stay so\<close>

lemma resolveReference_empty:
  "emptyScopes scopes \<Longrightarrow> resolveReference r scopes = (r, scopes)"
  by (induction scopes) (simp_all add: emptyScopes_def)

lemma resolveAll_empty:
  "emptyScopes scopes \<Longrightarrow> resolveAll rs scopes = (rs, scopes)"
  by (induction rs) (simp_all add: resolveReference_empty)

lemma resolveReferences_empty:
  "emptyScopes scopes \<Longrightarrow> resolveReferences e scopes = (e, scopes)"
  by (simp add: resolveReferences_def resolveAll_empty)

lemma applyExpressionResult_scopes:
  "emptyScopes (cx_scopes ctx) \<Longrightarrow> applyExpressionResult node rng ret ctx = (n, ctx')
     \<Longrightarrow> cx_scopes ctx' = cx_scopes ctx"
  by (auto simp: applyExpressionResult_def Let_def resolveReferences_empty)

lemma processExpression_scopes:
  "emptyScopes (cx_scopes ctx) \<Longrightarrow> processExpression be so lc node code ctx = Inr (n, ctx')
     \<Longrightarrow> cx_scopes ctx' = cx_scopes ctx"
  unfolding processExpression_def Let_def
  by (auto simp: resolveReferences_empty dest: applyExpressionResult_scopes
      split: option.splits prod.splits sum.splits thrown.splits if_splits)

lemma processForExpression_scopes:
  "emptyScopes (cx_scopes ctx) \<Longrightarrow> processForExpression be so lc node code ctx = Inr (n, ctx')
     \<Longrightarrow> cx_scopes ctx' = cx_scopes ctx"
  unfolding processForExpression_def Let_def
  by (auto simp: resolveReferences_empty
      split: option.splits prod.splits sum.splits thrown.splits if_splits)

lemma processMustache_scopes:
  "emptyScopes (cx_scopes ctx) \<Longrightarrow> processMustache be so lc parent node m ctx = Inr (n, ctx')
     \<Longrightarrow> cx_scopes ctx' = cx_scopes ctx"
  unfolding processMustache_def Let_def bindE_def
  by (auto dest!: processExpression_scopes[rotated] processForExpression_scopes[rotated]
      split: sum.splits prod.splits if_splits)

lemma processValues_scopes:
  "emptyScopes (cx_scopes ctx) \<Longrightarrow> processValues be so lc parent ps ctx = Inr (ps', ctx')
     \<Longrightarrow> cx_scopes ctx' = cx_scopes ctx"
proof (induction ps arbitrary: ctx ps' ctx')
  case Nil
  then show ?case by simp
next
  case (Cons p ps)
  from Cons.prems(2) obtain p1 ctx1 ps1 where
    h1: "(case p of Mustache m \<Rightarrow>
                bindE (processMustache be so lc parent
                         \<lparr>xm_range = mu_range m, xm_loc = mu_loc m, xm_startToken = mu_startToken m,
                          xm_endToken = mu_endToken m, xm_value = None\<rparr> m ctx)
                  (\<lambda>(mustacheNode, ctx'). Inr (XMustache mustacheNode, ctx'))
            | _ \<Rightarrow> Inr (p, ctx)) = Inr (p1, ctx1)"
    and h2: "processValues be so lc parent ps ctx1 = Inr (ps1, ctx')"
    by (auto simp: bindE_def split: sum.splits prod.splits)
  from h1 Cons.prems(1) have s1: "cx_scopes ctx1 = cx_scopes ctx"
    by (auto simp: bindE_def dest: processMustache_scopes split: piece.splits sum.splits prod.splits)
  with Cons.prems(1) have "emptyScopes (cx_scopes ctx1)" by simp
  from Cons.IH[OF this h2] s1 show ?case by simp
qed

lemma processDirectiveValue_scopes:
  "emptyScopes (cx_scopes ctx) \<Longrightarrow> processDirectiveValue be so lc node ctx = Inr (n, ctx')
     \<Longrightarrow> cx_scopes ctx' = cx_scopes ctx"
  unfolding processDirectiveValue_def Let_def bindE_def
  by (auto dest!: processExpression_scopes[rotated] processForExpression_scopes[rotated]
      split: list.splits piece.splits sum.splits prod.splits if_splits)

lemma processAttribute_scopes:
  assumes "emptyScopes (cx_scopes ctx)" and "processAttribute be po lc node ctx = Inr (n, ctx')"
  shows "cx_scopes ctx' = cx_scopes ctx"
proof -
  from assms(2) obtain node1 ctx1 vs where
    h1: "(if DIRECTIVE_NAME_test (key_name (at_key node))
          then bindE (convertToDirective node)
                 (\<lambda>directiveNode. processDirectiveValue be (po_script po) lc directiveNode ctx)
          else if startsWith (key_name (at_key node)) (js ''s-'')
                  \<or> startsWith (key_name (at_key node)) (js ''bind:'')
          then Inr (node, ctx\<lparr>cx_document :=
                      pushError (key_range (at_key node)) (key_loc (at_key node))
                        (js ''x-invalid-directive'') (cx_document ctx)\<rparr>)
          else Inr (node, ctx)) = Inr (node1, ctx1)"
    and h2: "processValues be (po_script po) lc (attributeParent node1) (at_value node1) ctx1
               = Inr (vs, ctx')"
    unfolding processAttribute_def Let_def
    by (auto simp: bindE_def split: sum.splits prod.splits)
  from h1 assms(1) have s1: "cx_scopes ctx1 = cx_scopes ctx"
    by (auto simp: bindE_def dest: processDirectiveValue_scopes split: if_splits sum.splits)
  with assms(1) have "emptyScopes (cx_scopes ctx1)" by simp
  from processValues_scopes[OF this h2] s1 show ?thesis by simp
qed

lemma processAttributes_scopes:
  "emptyScopes (cx_scopes ctx) \<Longrightarrow> processAttributes be po lc as ctx = Inr (as', ctx')
     \<Longrightarrow> cx_scopes ctx' = cx_scopes ctx"
proof (induction as arbitrary: ctx as' ctx')
  case Nil
  then show ?case by simp
next
  case (Cons a as)
  from Cons.prems(2) obtain a1 ctx1 as1 where
    h1: "processAttribute be po lc a ctx = Inr (a1, ctx1)"
    and h2: "processAttributes be po lc as ctx1 = Inr (as1, ctx')"
    by (auto simp: bindE_def split: sum.splits prod.splits)
  from processAttribute_scopes[OF Cons.prems(1) h1] have s1: "cx_scopes ctx1 = cx_scopes ctx" .
  with Cons.prems(1) have "emptyScopes (cx_scopes ctx1)" by simp
  from Cons.IH[OF this h2] s1 show ?case by simp
qed

subsection \<open>The parser never gives an element a variable\<close>

lemma setVariables_el_variables: "setVariables (el_variables n) n = n"
  by (cases n) (simp_all add: setVariables_def)

lemma setScopes_scopesOf: "setScopes (scopesOf stack) stack = stack"
proof -
  have "map (\<lambda>(vs, n). setVariables vs n) (zip (map el_variables xs) xs) = xs" for xs
    by (induction xs) (simp_all add: setVariables_el_variables)
  then show ?thesis by (simp add: setScopes_def scopesOf_def)
qed

lemma emptyScopes_scopesOf:
  "list_all (\<lambda>n. isXElement n \<and> noVariables n) stack \<Longrightarrow> emptyScopes (scopesOf stack)"
proof -
  have "isXElement n \<Longrightarrow> noVariables n \<Longrightarrow> el_variables n = []" for n
    by (cases n) (simp_all add: isXElement_def)
  then show "list_all (\<lambda>n. isXElement n \<and> noVariables n) stack \<Longrightarrow> emptyScopes (scopesOf stack)"
    by (induction stack) (auto simp: emptyScopes_def scopesOf_def)
qed

lemma inv_simps [simp]:
  "parserInvariant (setDocumentInfo d p) = parserInvariant p"
  "parserInvariant (setExpressionEnabled b p) = parserInvariant p"
  "parserInvariant (setTokenizerState st p) = parserInvariant p"
  "parserInvariant (Parser_reportParseError r l c p) = parserInvariant p"
  "parserInvariant (p\<lparr>ps_tokenizer := it\<rparr>) = parserInvariant p"
  by (simp_all add: parserInvariant_def setDocumentInfo_def setExpressionEnabled_def
        setTokenizerState_def Parser_reportParseError_def split: option.splits)

lemma children_simps [simp]:
  "ps_documentChildren (setDocumentInfo d p) = ps_documentChildren p"
  "ps_documentChildren (setExpressionEnabled b p) = ps_documentChildren p"
  "ps_documentChildren (setTokenizerState st p) = ps_documentChildren p"
  "ps_documentChildren (Parser_reportParseError r l c p) = ps_documentChildren p"
  by (simp_all add: setDocumentInfo_def setExpressionEnabled_def
        setTokenizerState_def Parser_reportParseError_def split: option.splits)

lemma stack_simps [simp]:
  "ps_elementStack (setDocumentInfo d p) = ps_elementStack p"
  "ps_elementStack (setExpressionEnabled b p) = ps_elementStack p"
  "ps_elementStack (setTokenizerState st p) = ps_elementStack p"
  "ps_elementStack (Parser_reportParseError r l c p) = ps_elementStack p"
  by (simp_all add: setDocumentInfo_def setExpressionEnabled_def
        setTokenizerState_def Parser_reportParseError_def split: option.splits)

lemma noVariables_setChildren:
  "isXElement n \<and> noVariables n \<Longrightarrow> list_all noVariables cs
     \<Longrightarrow> isXElement (setChildren cs n) \<and> noVariables (setChildren cs n)"
  by (cases n) (simp_all add: setChildren_def isXElement_def)

lemma noVariables_children:
  "isXElement n \<and> noVariables n \<Longrightarrow> list_all noVariables (el_children n)"
  by (cases n) (simp_all add: isXElement_def)

lemma list_all_butlast: "list_all P xs \<Longrightarrow> list_all P (butlast xs)"
  by (induction xs) auto

lemma list_all_last: "list_all P xs \<Longrightarrow> xs \<noteq> [] \<Longrightarrow> P (last xs)"
  by (induction xs) auto

lemma pushChild_inv:
  assumes "parserInvariant p" and "noVariables n"
  shows "parserInvariant (pushChild n p)"
proof (cases "ps_elementStack p = []")
  case True
  with assms show ?thesis by (simp add: pushChild_def parserInvariant_def)
next
  case False
  let ?P = "\<lambda>n. isXElement n \<and> noVariables n"
  from assms(1) have st: "list_all ?P (ps_elementStack p)" by (simp add: parserInvariant_def)
  from list_all_last[OF st False] have l: "?P (last (ps_elementStack p))" .
  from noVariables_children[OF l] assms(2)
  have "list_all noVariables (el_children (last (ps_elementStack p)) @ [n])" by simp
  from noVariables_setChildren[OF l this] list_all_butlast[OF st] assms(1) False
  show ?thesis by (simp add: pushChild_def parserInvariant_def)
qed

lemma propagateEndLocation_inv:
  "isXElement n \<and> noVariables n \<Longrightarrow> noVariables (propagateEndLocation n)"
  by (cases n) (auto simp: propagateEndLocation_def isXElement_def split: option.splits)

lemma popElementStack_inv:
  assumes "parserInvariant p" and "popElementStack p = Inr p'"
  shows "parserInvariant p'"
proof -
  let ?P = "\<lambda>n. isXElement n \<and> noVariables n"
  from assms(2) have ne: "ps_elementStack p \<noteq> []"
    by (auto simp: popElementStack_def split: if_splits)
  from assms(1) have st: "list_all ?P (ps_elementStack p)" by (simp add: parserInvariant_def)
  have e: "noVariables (propagateEndLocation (last (ps_elementStack p)))"
    using propagateEndLocation_inv[OF list_all_last[OF st ne]] .
  have "parserInvariant (p\<lparr>ps_elementStack := butlast (ps_elementStack p)\<rparr>)"
    using assms(1) list_all_butlast[OF st] by (simp add: parserInvariant_def)
  from pushChild_inv[OF this e] assms(2) ne show ?thesis
    by (auto simp: popElementStack_def Let_def split: if_splits)
qed

lemma popElementStackUntil_inv:
  "parserInvariant p \<Longrightarrow> popElementStackUntil i p = Inr p' \<Longrightarrow> parserInvariant p'"
proof (induction i p rule: popElementStackUntil.induct)
  case (1 index p)
  show ?case
  proof (cases "length (ps_elementStack p) > index")
    case False
    with "1.prems" show ?thesis by (simp add: popElementStackUntil.simps[of index p])
  next
    case True
    with "1.prems"(2) obtain p1 where p1: "popElementStack p = Inr p1"
      and r: "popElementStackUntil index p1 = Inr p'"
      by (auto simp: popElementStackUntil.simps[of index p] split: sum.splits)
    from "1.IH"[OF True p1 popElementStack_inv[OF "1.prems"(1) p1] r] show ?thesis .
  qed
qed

lemma closeCurrentElementIfNecessary_inv:
  "parserInvariant p \<Longrightarrow> closeCurrentElementIfNecessary name p = Inr p' \<Longrightarrow> parserInvariant p'"
  by (auto simp: closeCurrentElementIfNecessary_def dest: popElementStack_inv split: if_splits)

lemma stack_update_commute [simp]:
  "(setDocumentInfo d p)\<lparr>ps_elementStack := es\<rparr> = setDocumentInfo d (p\<lparr>ps_elementStack := es\<rparr>)"
  "(Parser_reportParseError r l c p)\<lparr>ps_elementStack := es\<rparr>
     = Parser_reportParseError r l c (p\<lparr>ps_elementStack := es\<rparr>)"
  by (simp_all add: setDocumentInfo_def Parser_reportParseError_def documentInfo_def
        split: option.splits)

lemma pushElement_inv:
  "parserInvariant p \<Longrightarrow> isXElement e \<and> noVariables e
     \<Longrightarrow> parserInvariant (p\<lparr>ps_elementStack := ps_elementStack p @ [e]\<rparr>)"
  by (simp add: parserInvariant_def)

lemma openElement_inv:
  assumes "parserInvariant p" and "cx_scopes ctx' = [] # scopesOf (ps_elementStack p)"
  shows "parserInvariant (openElement t as ctx' p)"
proof -
  have e: "isXElement (XElement r l n rn st [] [] None)
             \<and> noVariables (XElement r l n rn st [] [] None)" for r l n rn st
    by (simp add: isXElement_def)
  have a: "parserInvariant (pushChild (XElement r l n rn st [] [] None) p)" for r l n rn st
    using pushChild_inv[OF assms(1)] e by blast
  have b: "parserInvariant (p\<lparr>ps_elementStack := ps_elementStack p @ [XElement r l n rn st [] [] None]\<rparr>)"
    for r l n rn st
    using pushElement_inv[OF assms(1) e] .
  have c: "parserInvariant (p\<lparr>ps_elementStack := [XElement r l n rn st [] [] None]\<rparr>)"
    if "ps_elementStack p = []" for r l n rn st
    using b[of r l n rn st] that by simp
  have d: "pushChild n (setDocumentInfo dd pp) = setDocumentInfo dd (pushChild n pp)" for n dd pp
    by (simp add: pushChild_def setDocumentInfo_def split: option.splits)
  have d': "pushChild n (Parser_reportParseError r l c pp) = Parser_reportParseError r l c (pushChild n pp)"
    for n r l c pp
    by (simp add: pushChild_def Parser_reportParseError_def setDocumentInfo_def documentInfo_def
          split: option.splits)
  show ?thesis
    by (simp add: openElement_def Let_def assms(2) setScopes_scopesOf a b c d d')
qed

lemma Parser_StartTag_inv:
  assumes "parserInvariant p" and "Parser_StartTag be t p = Inr p'"
  shows "parserInvariant p'"
proof -
  from assms(2) obtain p1 as ctx' where
    c: "closeCurrentElementIfNecessary (st_name t) p = Inr p1"
    and a: "processAttributes be (ps_parserOptions p1) (locationCalculator p1) (st_attributes t)
              \<lparr>cx_document = Some (documentInfo p1), cx_scopes = [] # scopesOf (ps_elementStack p1)\<rparr>
            = Inr (as, ctx')"
    and r: "p' = openElement t as ctx' p1"
    by (auto simp: Parser_StartTag_def bindE_def split: sum.splits prod.splits)
  have i1: "parserInvariant p1" by (rule closeCurrentElementIfNecessary_inv[OF assms(1) c])
  then have "emptyScopes (scopesOf (ps_elementStack p1))"
    by (simp add: parserInvariant_def emptyScopes_scopesOf)
  then have "emptyScopes (cx_scopes \<lparr>cx_document = Some (documentInfo p1),
                 cx_scopes = [] # scopesOf (ps_elementStack p1)\<rparr>)"
    by (simp add: emptyScopes_def)
  from processAttributes_scopes[OF this a]
  have "cx_scopes ctx' = [] # scopesOf (ps_elementStack p1)" by simp
  from openElement_inv[OF i1 this] r show ?thesis by simp
qed

lemma list_all_update: "list_all P xs \<Longrightarrow> P x \<Longrightarrow> list_all P (xs[i := x])"
  by (induction xs arbitrary: i) (auto split: nat.splits)

lemma setEndTag_inv:
  "isXElement n \<and> noVariables n \<Longrightarrow> isXElement (setEndTag e n) \<and> noVariables (setEndTag e n)"
  by (cases n) (simp_all add: setEndTag_def isXElement_def)

lemma findLastIndex_less: "findLastIndex f xs = Some i \<Longrightarrow> i < length xs"
  by (induction xs arbitrary: i) (auto split: option.splits if_splits)

lemma Parser_EndTag_inv:
  assumes "parserInvariant p" and "Parser_EndTag t p = Inr p'"
  shows "parserInvariant p'"
proof (cases "findLastIndex (\<lambda>el. toLowerCase (el_name el) = et_name t) (ps_elementStack p)")
  case None
  with assms show ?thesis by (auto simp: Parser_EndTag_def)
next
  case (Some i)
  let ?P = "\<lambda>n. isXElement n \<and> noVariables n"
  let ?p1 = "p\<lparr>ps_elementStack := (ps_elementStack p)
                  [i := setEndTag (Some (et_range t, et_loc t)) (ps_elementStack p ! i)]\<rparr>"
  from assms(1) have st: "list_all ?P (ps_elementStack p)" by (simp add: parserInvariant_def)
  from findLastIndex_less[OF Some] st have "?P (ps_elementStack p ! i)"
    by (simp add: list_all_length)
  from list_all_update[OF st setEndTag_inv[OF this]] assms(1)
  have "parserInvariant ?p1" by (simp add: parserInvariant_def)
  moreover from assms(2) Some have "popElementStackUntil i ?p1 = Inr p'"
    by (simp add: Parser_EndTag_def)
  ultimately show ?thesis by (rule popElementStackUntil_inv)
qed

lemma processScriptModule_inv:
  assumes "isXElement n \<and> noVariables n" and "processScriptModule be so lc n d = Inr (n', d')"
  shows "isXElement n' \<and> noVariables n'"
proof -
  from assms(1) have cs: "list_all noVariables (el_children n)" by (rule noVariables_children)
  then have "list_all noVariables (tl (el_children n))" by (cases "el_children n") simp_all
  then have "\<And>m. noVariables m \<Longrightarrow> isXElement (setChildren (m # tl (el_children n)) n)
                 \<and> noVariables (setChildren (m # tl (el_children n)) n)"
    using noVariables_setChildren[OF assms(1)] by simp
  with assms show ?thesis
    by (auto simp: processScriptModule_def Let_def split: sum.splits prod.splits thrown.splits)
qed

lemma Parser_Text_inv:
  assumes "parserInvariant p" and "Parser_Text be t p = Inr p'"
  shows "parserInvariant p'"
proof -
  let ?P = "\<lambda>n. isXElement n \<and> noVariables n"
  let ?p = "pushChild (XText (tx_range t) (tx_loc t) (tx_value t)) p"
  let ?c = "ps_elementStack ?p \<noteq> []
     \<and> (el_name (last (ps_elementStack ?p)) = js ''import-sjs''
          \<or> el_name (last (ps_elementStack ?p)) = js ''filter'')
     \<and> (case el_children (last (ps_elementStack ?p)) of XText _ _ _ # _ \<Rightarrow> True | _ \<Rightarrow> False)
     \<and> \<not> hasSrc (last (ps_elementStack ?p))"
  have i: "parserInvariant ?p" by (rule pushChild_inv[OF assms(1)]) simp
  show ?thesis
  proof (cases ?c)
    case False
    with assms(2) have "p' = ?p" by (auto simp: Parser_Text_def Let_def split: if_splits)
    with i show ?thesis by simp
  next
    case True
    then have ne: "ps_elementStack ?p \<noteq> []" by simp
    from True assms(2) have
      "bindE (processScriptModule be (po_script (ps_parserOptions ?p)) (locationCalculator ?p)
                (last (ps_elementStack ?p)) (Some (documentInfo ?p)))
         (\<lambda>(parent1, document).
            Inr (setDocumentInfo document
                   (?p\<lparr>ps_elementStack := butlast (ps_elementStack ?p) @ [parent1]\<rparr>))) = Inr p'"
      unfolding Parser_Text_def Let_def by (simp split: if_splits)
    then obtain parent1 document where
      m: "processScriptModule be (po_script (ps_parserOptions ?p)) (locationCalculator ?p)
                (last (ps_elementStack ?p)) (Some (documentInfo ?p)) = Inr (parent1, document)"
      and r: "p' = setDocumentInfo document (?p\<lparr>ps_elementStack := butlast (ps_elementStack ?p) @ [parent1]\<rparr>)"
      by (auto simp: bindE_def split: sum.splits prod.splits)
    from i have st: "list_all ?P (ps_elementStack ?p)" by (simp add: parserInvariant_def)
    from processScriptModule_inv[OF list_all_last[OF st ne] m] list_all_butlast[OF st] i
    show ?thesis unfolding r by (simp add: parserInvariant_def)
  qed
qed

lemma Parser_Mustache_inv:
  assumes "parserInvariant p" and "Parser_Mustache be t p = Inr p'"
  shows "parserInvariant p'"
proof -
  let ?ctx = "\<lparr>cx_document = Some (documentInfo p), cx_scopes = scopesOf (ps_elementStack p)\<rparr>"
  from assms(2) obtain node1 ctx' where
    m: "processMustache be (po_script (ps_parserOptions p)) (locationCalculator p)
          (if ps_elementStack p = [] then ParentDocument else ParentElement)
          \<lparr>xm_range = mu_range t, xm_loc = mu_loc t, xm_startToken = mu_startToken t,
           xm_endToken = mu_endToken t, xm_value = None\<rparr> t ?ctx = Inr (node1, ctx')"
    and r: "p' = pushChild (XMustacheNode node1)
                  (setDocumentInfo (cx_document ctx')
                     (p\<lparr>ps_elementStack := setScopes (cx_scopes ctx') (ps_elementStack p)\<rparr>))"
    by (auto simp: Parser_Mustache_def Let_def bindE_def split: sum.splits prod.splits)
  from assms(1) have "emptyScopes (cx_scopes ?ctx)"
    by (simp add: parserInvariant_def emptyScopes_scopesOf)
  from processMustache_scopes[OF this m] have s: "cx_scopes ctx' = scopesOf (ps_elementStack p)" by simp
  have "parserInvariant (setDocumentInfo (cx_document ctx')
                     (p\<lparr>ps_elementStack := setScopes (cx_scopes ctx') (ps_elementStack p)\<rparr>))"
    using assms(1) by (simp add: s setScopes_scopesOf)
  from pushChild_inv[OF this] show ?thesis unfolding r by simp
qed

lemma handleToken_inv:
  "parserInvariant p \<Longrightarrow> handleToken be t p = Inr p' \<Longrightarrow> parserInvariant p'"
  by (auto simp: handleToken_def split: intermediate_token.splits
      dest: Parser_StartTag_inv Parser_EndTag_inv Parser_Text_inv Parser_Mustache_inv)

lemma parseLoop_inv:
  "parserInvariant p \<Longrightarrow> parseLoop be fuel n p = Inr p' \<Longrightarrow> parserInvariant p'"
proof (induction n arbitrary: p)
  case 0
  then show ?case by simp
next
  case (Suc n)
  show ?case
  proof (cases "IntermediateTokenizer_nextToken fuel (ps_tokenizer p)")
    case (Inl e)
    with Suc.prems show ?thesis by simp
  next
    case (Inr res)
    obtain tok it where res: "res = (tok, it)" by (cases res)
    show ?thesis
    proof (cases tok)
      case None
      with Suc.prems Inr res show ?thesis by auto
    next
      case (Some token)
      with Suc.prems(2) Inr res obtain p1 where
        h: "handleToken be token (p\<lparr>ps_tokenizer := it\<rparr>) = Inr p1"
        and l: "parseLoop be fuel n p1 = Inr p'"
        by (auto split: sum.splits)
      have "parserInvariant (p\<lparr>ps_tokenizer := it\<rparr>)" using Suc.prems(1) by simp
      from Suc.IH[OF handleToken_inv[OF this h] l] show ?thesis .
    qed
  qed
qed

lemma parse_gives_no_variables:
  assumes "parse be fuel code options = Inr document"
  shows "list_all noVariables (doc_children document)"
proof -
  let ?p0 = "new_Parser (new_Tokenizer code) (resolveParserOptions options)"
  have i0: "parserInvariant ?p0" by (simp add: parserInvariant_def new_Parser_def)
  from assms obtain p1 p where l: "parseLoop be fuel fuel ?p0 = Inr p1"
    and u: "popElementStackUntil 0 p1 = Inr p" and d: "document = finishDocument p"
    by (auto simp: parse_def Parser_parse_def bindE_def split: sum.splits)
  from popElementStackUntil_inv[OF parseLoop_inv[OF i0 l] u] show ?thesis
    by (simp add: d finishDocument_def parserInvariant_def)
qed

text \<open>
  Claim C1 does not hold. \<open>Parser.StartTag\<close> makes every element with an empty \<open>variables\<close>
  list and no function of the parser or of the language layer adds to it, although
  \<open>resolveReference\<close> walks the \<open>variables\<close> of the enclosing elements after every expression:
  the \<open>left\<close> and \<open>index\<close> of a \<open>SwanForExpression\<close> stay in the expression of the directive.
  So in every document that \<open>parse\<close> returns no element, at any depth, has a variable. For
  \<open><view s-for="item in list">{{item}}</view>\<close> the \<open>left\<close> of the directive is \<open>item\<close>, the
  \<open>variables\<close> of the \<open>view\<close> element are empty, and the reference to \<open>item\<close> in the mustache
  has no variable.
\<close>

theorem for_variables_are_never_introduced:
  "(parse be fuel code options = Inr document \<longrightarrow> list_all noVariables (doc_children document))
   \<and> (case parse forItemBackend 40 (js ''<view s-for=\"item in list\">{{item}}</view>'') noOptions of
        Inl e \<Rightarrow> False
      | Inr d \<Rightarrow> (case doc_children d of
            [XElement _ _ name _ startTag [XMustacheNode m] variables _] \<Rightarrow>
               name = js ''view''
             \<and> map (\<lambda>a. map forLeftName (at_value a)) (xs_attributes startTag) = [[Some (js ''item'')]]
             \<and> variables = []
             \<and> map_option (\<lambda>v. map (\<lambda>r. (id_name (r_id r), r_variable r)) (xe_references v)) (xm_value m)
                 = Some [(js ''item'', None)]
          | _ \<Rightarrow> False))"
proof (rule conjI)
  show "parse be fuel code options = Inr document \<longrightarrow> list_all noVariables (doc_children document)"
    using parse_gives_no_variables by blast
  show "case parse forItemBackend 40 (js ''<view s-for=\"item in list\">{{item}}</view>'') noOptions of
        Inl e \<Rightarrow> False
      | Inr d \<Rightarrow> (case doc_children d of
            [XElement _ _ name _ startTag [XMustacheNode m] variables _] \<Rightarrow>
               name = js ''view''
             \<and> map (\<lambda>a. map forLeftName (at_value a)) (xs_attributes startTag) = [[Some (js ''item'')]]
             \<and> variables = []
             \<and> map_option (\<lambda>v. map (\<lambda>r. (id_name (r_id r), r_variable r)) (xe_references v)) (xm_value m)
                 = Some [(js ''item'', None)]
          | _ \<Rightarrow> False)"
    by code_simp
qed

theorem for_variables_are_never_introduced_witness:
  "\<exists>document. parse forItemBackend 40 (js ''<view s-for=\"item in list\">{{item}}</view>'') noOptions
       = Inr document
     \<and> list_all noVariables (doc_children document)"
proof -
  let ?r = "parse forItemBackend 40 (js ''<view s-for=\"item in list\">{{item}}</view>'') noOptions"
  have p: "?r = Inr (projr ?r)" by code_simp
  from for_variables_are_never_introduced[of forItemBackend 40
      "js ''<view s-for=\"item in list\">{{item}}</view>''" noOptions "projr ?r"] p
  show ?thesis by blast
qed

end
